(* ===== verification/Prelude.thy ===== *)
theory Prelude
  imports Main
begin

text \<open>
  Shared vocabulary of the SPODS development: the Python values and exceptions the
  program handles (\<open>pyval\<close>, \<open>pyexc\<close>), the exception-state monad through which
  every method of the program threads the SQLite connection (\<open>exc\<close>, with
  \<open>returnE\<close>, \<open>throwE\<close>, \<open>bindE\<close>), Python's \<open>==\<close> on these values
  (\<open>py_eq\<close>), decimal rendering of integers (\<open>dec_int\<close>) with its parser, and
  the generic lemmas the component theories share.
\<close>

named_theorems exc_simps "evaluation rules of the exception-state monad"
named_theorems keeps_intros "rules showing that a computation keeps a state predicate"
named_theorems dec_simps "facts on decimal rendering and parsing"

section \<open>Python values and exceptions\<close>

text \<open>
  The values that reach the code: \<open>None\<close>, booleans, (unbounded) integers, byte
  strings and tuples. Python 2's \<open>str\<close> is a byte string, which \<open>string\<close>
  (a list of 8-bit \<open>char\<close>s) models exactly.
\<close>

datatype pyval = PyNone | PyBool bool | PyInt int | PyStr string | PyTuple "pyval list"

datatype pyexc =
    AttributeError string
  | KeyError string
  | IndexError string
  | TypeError string
  | RuntimeError string
  | OverflowError string
  | OperationalError string
  | IntegrityError string
  | InterfaceError string

type_synonym pydict = "string \<rightharpoonup> pyval"

text \<open>
  Python 2's \<open>==\<close> on these values: \<open>bool\<close> is a subclass of \<open>int\<close>, so
  \<open>False == 0\<close> and \<open>True == 1\<close>; tuples compare elementwise; values of
  different types are unequal.
\<close>

fun py_eq :: "pyval \<Rightarrow> pyval \<Rightarrow> bool"
  and py_eq_list :: "pyval list \<Rightarrow> pyval list \<Rightarrow> bool" where
  "py_eq PyNone PyNone = True"
| "py_eq (PyBool a) (PyBool b) = (a = b)"
| "py_eq (PyBool a) (PyInt n) = (of_bool a = n)"
| "py_eq (PyInt m) (PyBool b) = (m = of_bool b)"
| "py_eq (PyInt m) (PyInt n) = (m = n)"
| "py_eq (PyStr s) (PyStr t) = (s = t)"
| "py_eq (PyTuple xs) (PyTuple ys) = py_eq_list xs ys"
| "py_eq _ _ = False"
| "py_eq_list [] [] = True"
| "py_eq_list (x # xs) (y # ys) = (py_eq x y \<and> py_eq_list xs ys)"
| "py_eq_list _ _ = False"

section \<open>The exception-state monad\<close>

text \<open>
  A method of the program runs on a state (the SQLite connection, and the instance's
  \<open>data\<close> dictionary) and either returns a value or raises an exception; the state
  reached when the exception is raised is kept, as Python keeps every side effect that
  happened before a \<open>raise\<close>.
\<close>

type_synonym ('s, 'a) exc = "'s \<Rightarrow> (pyexc + 'a) \<times> 's"

definition returnE :: "'a \<Rightarrow> ('s, 'a) exc" where
  "returnE a = (\<lambda>s. (Inr a, s))"

definition throwE :: "pyexc \<Rightarrow> ('s, 'a) exc" where
  "throwE e = (\<lambda>s. (Inl e, s))"

definition bindE :: "('s, 'a) exc \<Rightarrow> ('a \<Rightarrow> ('s, 'b) exc) \<Rightarrow> ('s, 'b) exc" where
  "bindE m f = (\<lambda>s. case m s of (Inl e, s') \<Rightarrow> (Inl e, s') | (Inr a, s') \<Rightarrow> f a s')"

definition modifyE :: "('s \<Rightarrow> 's) \<Rightarrow> ('s, unit) exc" where
  "modifyE f = (\<lambda>s. (Inr (), f s))"

definition getsE :: "('s \<Rightarrow> 'a) \<Rightarrow> ('s, 'a) exc" where
  "getsE f = (\<lambda>s. (Inr (f s), s))"

text \<open>A computation that either fails or returns, without touching the state.\<close>

definition liftE :: "pyexc + 'a \<Rightarrow> ('s, 'a) exc" where
  "liftE r = (\<lambda>s. (r, s))"

text \<open>A Python \<open>for\<close> loop over a list whose body may raise.\<close>

fun forE :: "'a list \<Rightarrow> ('a \<Rightarrow> ('s, unit) exc) \<Rightarrow> ('s, unit) exc" where
  "forE [] body = returnE ()"
| "forE (x # xs) body = bindE (body x) (\<lambda>_. forE xs body)"

text \<open>Evaluating a function on each element of a list, in order, stopping at the first exception.\<close>

fun mapE :: "('a \<Rightarrow> ('s, 'b) exc) \<Rightarrow> 'a list \<Rightarrow> ('s, 'b list) exc" where
  "mapE f [] = returnE []"
| "mapE f (x # xs) = bindE (f x) (\<lambda>y. bindE (mapE f xs) (\<lambda>ys. returnE (y # ys)))"

lemma returnE_apply [exc_simps, simp]: "returnE a s = (Inr a, s)"
  by (simp add: returnE_def)

lemma throwE_apply [exc_simps, simp]: "throwE e s = (Inl e, s)"
  by (simp add: throwE_def)

lemma modifyE_apply [exc_simps, simp]: "modifyE f s = (Inr (), f s)"
  by (simp add: modifyE_def)

lemma getsE_apply [exc_simps, simp]: "getsE f s = (Inr (f s), s)"
  by (simp add: getsE_def)

lemma liftE_apply [exc_simps, simp]: "liftE r s = (r, s)"
  by (simp add: liftE_def)

lemma bindE_apply [exc_simps]:
  "bindE m f s = (case m s of (Inl e, s') \<Rightarrow> (Inl e, s') | (Inr a, s') \<Rightarrow> f a s')"
  by (simp add: bindE_def)

lemma bindE_returnE [exc_simps, simp]: "bindE (returnE a) f = f a"
  by (simp add: bindE_def fun_eq_iff)

lemma bindE_throwE [exc_simps, simp]: "bindE (throwE e) f = throwE e"
  by (simp add: bindE_def fun_eq_iff)

lemma bindE_liftE_Inl [exc_simps, simp]: "bindE (liftE (Inl e)) f = throwE e"
  by (simp add: bindE_def fun_eq_iff)

lemma bindE_liftE_Inr [exc_simps, simp]: "bindE (liftE (Inr a)) f = f a"
  by (simp add: bindE_def fun_eq_iff)

lemma bindE_modifyE [exc_simps, simp]: "bindE (modifyE g) f s = f () (g s)"
  by (simp add: bindE_def)

lemma bindE_getsE [exc_simps, simp]: "bindE (getsE g) f s = f (g s) s"
  by (simp add: bindE_def)

lemma bindE_assoc [exc_simps]: "bindE (bindE m f) g = bindE m (\<lambda>a. bindE (f a) g)"
  by (auto simp: bindE_def fun_eq_iff split: prod.splits sum.splits)

lemma bindE_Inr:
  "m s = (Inr a, s') \<Longrightarrow> bindE m f s = f a s'"
  by (simp add: bindE_def)

lemma bindE_Inl:
  "m s = (Inl e, s') \<Longrightarrow> bindE m f s = (Inl e, s')"
  by (simp add: bindE_def)

lemma bindE_result_Inr:
  "bindE m f s = (Inr b, s'') \<Longrightarrow> \<exists>a s'. m s = (Inr a, s') \<and> f a s' = (Inr b, s'')"
  by (auto simp: bindE_def split: prod.splits sum.splits)

text \<open>
  \<open>exc_keeps P m\<close>: whatever \<open>m\<close> returns or raises, it keeps the predicate \<open>P\<close>
  of the state; the rules of \<open>keeps_intros\<close> build it along the structure of a computation.
\<close>

definition exc_keeps :: "('s \<Rightarrow> bool) \<Rightarrow> ('s, 'a) exc \<Rightarrow> bool" where
  "exc_keeps P m \<longleftrightarrow> (\<forall>s r s'. m s = (r, s') \<longrightarrow> P s \<longrightarrow> P s')"

lemma exc_keepsI: "(\<And>s r s'. m s = (r, s') \<Longrightarrow> P s \<Longrightarrow> P s') \<Longrightarrow> exc_keeps P m"
  by (simp add: exc_keeps_def)

lemma exc_keepsD: "exc_keeps P m \<Longrightarrow> m s = (r, s') \<Longrightarrow> P s \<Longrightarrow> P s'"
  by (simp add: exc_keeps_def)

lemma keeps_returnE [keeps_intros]: "exc_keeps P (returnE a)"
  and keeps_throwE [keeps_intros]: "exc_keeps P (throwE e)"
  and keeps_liftE [keeps_intros]: "exc_keeps P (liftE x)"
  and keeps_getsE [keeps_intros]: "exc_keeps P (getsE g)"
  by (simp_all add: exc_keeps_def)

text \<open>Simplification turns \<open>returnE a\<close> and \<open>throwE e\<close> into \<open>Pair (Inr a)\<close> and \<open>Pair (Inl e)\<close>.\<close>

lemma keeps_Pair [keeps_intros, simp]: "exc_keeps P (Pair x)"
  by (simp add: exc_keeps_def)

lemma keeps_modifyE [keeps_intros]: "(\<And>s. P s \<Longrightarrow> P (f s)) \<Longrightarrow> exc_keeps P (modifyE f)"
  by (simp add: exc_keeps_def)

lemma keeps_bindE [keeps_intros]:
  "exc_keeps P m \<Longrightarrow> (\<And>a. exc_keeps P (f a)) \<Longrightarrow> exc_keeps P (bindE m f)"
  by (auto simp: exc_keeps_def bindE_def split: prod.splits sum.splits)

lemma keeps_forE [keeps_intros]: "(\<And>x. exc_keeps P (body x)) \<Longrightarrow> exc_keeps P (forE xs body)"
  by (induction xs) (simp_all add: keeps_returnE keeps_bindE)

lemma keeps_mapE [keeps_intros]: "(\<And>x. exc_keeps P (f x)) \<Longrightarrow> exc_keeps P (mapE f xs)"
  by (induction xs) (simp_all add: keeps_returnE keeps_bindE)

lemma keeps_if [keeps_intros]: "exc_keeps P m1 \<Longrightarrow> exc_keeps P m2 \<Longrightarrow> exc_keeps P (if b then m1 else m2)"
  by simp

text \<open>The pure error monad, for library code that cannot touch the state.\<close>

definition bindR :: "pyexc + 'a \<Rightarrow> ('a \<Rightarrow> pyexc + 'b) \<Rightarrow> pyexc + 'b" where
  "bindR r f = (case r of Inl e \<Rightarrow> Inl e | Inr a \<Rightarrow> f a)"

lemma bindR_Inl [exc_simps, simp]: "bindR (Inl e) f = Inl e"
  by (simp add: bindR_def)

lemma bindR_Inr [exc_simps, simp]: "bindR (Inr a) f = f a"
  by (simp add: bindR_def)

lemma bindR_eq_Inr: "bindR r f = Inr b \<longleftrightarrow> (\<exists>a. r = Inr a \<and> f a = Inr b)"
  by (cases r) auto

section \<open>Decimal rendering of integers\<close>

text \<open>
  \<open>str(n)\<close> and \<open>repr(n)\<close> of a Python integer, and SQLite's rendering of an
  INTEGER as TEXT: the decimal digits, most significant first, with a leading
  \<open>-\<close> for a negative number.
\<close>

definition digit_char :: "nat \<Rightarrow> char" where
  "digit_char d = char_of (48 + d)"

definition is_dec_digit :: "char \<Rightarrow> bool" where
  "is_dec_digit c \<longleftrightarrow> (48::nat) \<le> of_char c \<and> of_char c \<le> (57::nat)"

definition digit_val :: "char \<Rightarrow> nat" where
  "digit_val c = of_char c - 48"

fun dec_nat :: "nat \<Rightarrow> string" where
  "dec_nat n = (if n < 10 then [digit_char n] else dec_nat (n div 10) @ [digit_char (n mod 10)])"

declare dec_nat.simps [simp del]

definition dec_int :: "int \<Rightarrow> string" where
  "dec_int i = (if i < 0 then CHR ''-'' # dec_nat (nat (- i)) else dec_nat (nat i))"

definition digits_val :: "string \<Rightarrow> nat" where
  "digits_val s = foldl (\<lambda>acc c. 10 * acc + digit_val c) 0 s"

text \<open>The inverse of \<open>dec_int\<close>: an optional sign followed by at least one digit.\<close>

definition parse_int :: "string \<Rightarrow> int option" where
  "parse_int s =
     (case s of
        [] \<Rightarrow> None
      | c # ds \<Rightarrow>
          if c = CHR ''-'' then (if ds \<noteq> [] \<and> list_all is_dec_digit ds then Some (- int (digits_val ds)) else None)
          else if c = CHR ''+'' then (if ds \<noteq> [] \<and> list_all is_dec_digit ds then Some (int (digits_val ds)) else None)
          else if list_all is_dec_digit s then Some (int (digits_val s)) else None)"

lemma digit_char_is_digit [dec_simps]: "d < 10 \<Longrightarrow> is_dec_digit (digit_char d)"
  by (simp add: digit_char_def is_dec_digit_def)

lemma digit_val_digit_char [dec_simps, simp]: "d < 10 \<Longrightarrow> digit_val (digit_char d) = d"
  by (simp add: digit_char_def digit_val_def)

lemma digits_val_snoc [dec_simps, simp]: "digits_val (s @ [c]) = 10 * digits_val s + digit_val c"
  by (simp add: digits_val_def)

lemma dec_nat_digits: "list_all is_dec_digit (dec_nat n)"
proof (induction n rule: dec_nat.induct)
  case (1 n)
  then show ?case
    by (subst dec_nat.simps) (auto simp: digit_char_is_digit)
qed

lemma dec_nat_nonempty [dec_simps, simp]: "dec_nat n \<noteq> []"
  by (subst dec_nat.simps) simp

lemma digits_val_dec_nat [dec_simps, simp]: "digits_val (dec_nat n) = n"
proof (induction n rule: dec_nat.induct)
  case (1 n)
  show ?case
  proof (cases "n < 10")
    case True
    then show ?thesis by (subst dec_nat.simps) (simp add: digits_val_def)
  next
    case False
    with "1.IH" show ?thesis by (subst dec_nat.simps) simp
  qed
qed

lemma dec_nat_hd: "hd (dec_nat n) \<noteq> CHR ''-'' \<and> hd (dec_nat n) \<noteq> CHR ''+''"
proof -
  have "is_dec_digit (hd (dec_nat n))"
    using dec_nat_digits [of n] dec_nat_nonempty [of n]
    by (cases "dec_nat n") auto
  then show ?thesis by (auto simp: is_dec_digit_def)
qed

lemma parse_int_dec_int [dec_simps, simp]: "parse_int (dec_int i) = Some i"
proof (cases "i < 0")
  case True
  then show ?thesis
    by (simp add: dec_int_def parse_int_def dec_nat_digits)
next
  case False
  obtain c cs where dc: "dec_nat (nat i) = c # cs"
    using dec_nat_nonempty by (cases "dec_nat (nat i)") auto
  have "c \<noteq> CHR ''-'' \<and> c \<noteq> CHR ''+''"
    using dec_nat_hd [of "nat i"] by (simp add: dc)
  moreover have "list_all is_dec_digit (c # cs)"
    using dec_nat_digits [of "nat i"] by (simp add: dc)
  moreover have "digits_val (c # cs) = nat i"
    using digits_val_dec_nat [of "nat i"] by (simp add: dc)
  ultimately show ?thesis
    using False by (simp add: dec_int_def parse_int_def dc)
qed

lemma dec_int_inj [dec_simps]: "dec_int i = dec_int j \<longleftrightarrow> i = j"
  by (metis option.inject parse_int_dec_int)

lemma find_Some_mem: "find P xs = Some x \<Longrightarrow> x \<in> set xs \<and> P x"
  by (induction xs) (auto split: if_splits)

lemma find_append: "find P (xs @ ys) = (case find P xs of None \<Rightarrow> find P ys | Some x \<Rightarrow> Some x)"
  by (induction xs) auto

lemma dropWhile_last:
  "xs \<noteq> [] \<Longrightarrow> \<not> P (last xs) \<Longrightarrow> dropWhile P xs \<noteq> [] \<and> last (dropWhile P xs) = last xs"
  by (induction xs) auto

lemma map_option_append_Nil [simp]: "map_option ((@) []) x = x"
  by (cases x) auto

lemma map_option_append_single [simp]: "map_option ((@) [x]) y = map_option (Cons x) y"
  by (cases y) auto

lemma map_option_Cons_append [simp]: "map_option (Cons x) (map_option ((@) xs) y) = map_option ((@) (x # xs)) y"
  by (cases y) auto

end
