(* ===== verification/PyRepr.thy ===== *)
theory PyRepr
  imports Prelude
begin

text \<open>
  Python 2's \<open>repr\<close>, which the \<open>%r\<close> conversion of
  \<open>Table.create_table_stmt\<close> applies to a field's default value
  (\<open>" DEFAULT %r " % (field.default)\<close>). It is a built-in of the interpreter,
  not code of the repository, and is modelled from CPython 2's
  \<open>PyString_Repr\<close>, \<open>int_repr\<close>/\<open>long_repr\<close>, \<open>bool_repr\<close> and
  \<open>tuplerepr\<close>: strings are quoted with a single quote unless they contain a
  single and no double quote; the quote, the backslash, tab, newline and carriage return
  are escaped, and other bytes outside printable ASCII are written \<open>\x\<close> and two
  lowercase hex digits. An integer outside the 64-bit range is a Python 2 \<open>long\<close>,
  whose repr ends in \<open>L\<close>.
\<close>

definition hex_digit :: "nat \<Rightarrow> char" where
  "hex_digit d = (if d < 10 then char_of (48 + d) else char_of (87 + d))"

definition repr_quote :: "string \<Rightarrow> char" where
  "repr_quote s = (if CHR 0x27 \<in> set s \<and> CHR 0x22 \<notin> set s then CHR 0x22 else CHR 0x27)"

definition repr_char :: "char \<Rightarrow> char \<Rightarrow> string" where
  "repr_char q c =
     (if c = q \<or> c = CHR 0x5C then [CHR 0x5C, c]
      else if c = CHR 0x09 then [CHR 0x5C, CHR ''t'']
      else if c = CHR 0x0A then [CHR 0x5C, CHR ''n'']
      else if c = CHR 0x0D then [CHR 0x5C, CHR ''r'']
      else if of_char c < (32::nat) \<or> (127::nat) \<le> of_char c
        then [CHR 0x5C, CHR ''x'', hex_digit (of_char c div 16), hex_digit (of_char c mod 16)]
      else [c])"

definition py_str_repr :: "string \<Rightarrow> string" where
  "py_str_repr s = (let q = repr_quote s in q # concat (map (repr_char q) s) @ [q])"

definition py_int_repr :: "int \<Rightarrow> string" where
  "py_int_repr n = dec_int n @ (if - (2 ^ 63) \<le> n \<and> n < 2 ^ 63 then [] else ''L'')"

fun py_repr :: "pyval \<Rightarrow> string"
  and py_repr_items :: "pyval list \<Rightarrow> string" where
  "py_repr PyNone = ''None''"
| "py_repr (PyBool b) = (if b then ''True'' else ''False'')"
| "py_repr (PyInt n) = py_int_repr n"
| "py_repr (PyStr s) = py_str_repr s"
| "py_repr (PyTuple xs) = ''('' @ py_repr_items xs @ (if length xs = 1 then '','' else []) @ '')''"
| "py_repr_items [] = []"
| "py_repr_items [x] = py_repr x"
| "py_repr_items (x # y # ys) = py_repr x @ '', '' @ py_repr_items (y # ys)"

text \<open>
  The characters a string may hold for its repr to be the string between two single
  quotes: printable ASCII other than the quote and the backslash.
\<close>

definition plain_char :: "char \<Rightarrow> bool" where
  "plain_char c \<longleftrightarrow> (32::nat) \<le> of_char c \<and> of_char c < (127::nat) \<and> c \<noteq> CHR 0x27 \<and> c \<noteq> CHR 0x5C"

lemma repr_char_plain: "plain_char c \<Longrightarrow> c \<noteq> q \<Longrightarrow> repr_char q c = [c]"
  by (auto simp: repr_char_def plain_char_def)

lemma py_str_repr_plain:
  assumes "list_all plain_char s"
  shows "py_str_repr s = CHR 0x27 # s @ [CHR 0x27]"
proof -
  have q: "repr_quote s = CHR 0x27"
    using assms by (auto simp: repr_quote_def list_all_iff plain_char_def)
  have "concat (map (repr_char (CHR 0x27)) s) = s"
    using assms by (induction s) (auto simp: repr_char_plain plain_char_def)
  then show ?thesis by (simp add: py_str_repr_def q Let_def)
qed

end
