(* ===== verification/Field.thy ===== *)
theory Field
  imports PyRepr
begin

text \<open>
  The \<open>Field\<close> class of \<^verbatim>\<open>src/spods.py\<close> (lines 9--27): one column of a
  table. Its class attribute \<open>type_map\<close> sends the three supported Python types
  to a SQL type and a converter; the constructor stores its arguments and, when a Python
  type is given, looks it up in \<open>type_map\<close>, raising \<open>KeyError\<close> for any
  other type (the spec's configuration error).
\<close>

text \<open>The Python type objects a field may be given; any other type is \<open>TOther\<close>.\<close>

datatype pytype = TStr | TInt | TTuple | TOther string

fun pytype_name :: "pytype \<Rightarrow> string" where
  "pytype_name TStr = ''str''"
| "pytype_name TInt = ''int''"
| "pytype_name TTuple = ''tuple''"
| "pytype_name (TOther n) = n"

text \<open>The converters of \<open>type_map\<close>: \<open>str\<close>, \<open>int\<close> and \<open>json.dumps\<close>.\<close>

datatype converter = ConvStr | ConvInt | ConvJsonDumps

definition type_map :: "pytype \<rightharpoonup> string \<times> converter" where
  "type_map = [TStr \<mapsto> (''TEXT'', ConvStr), TInt \<mapsto> (''INTEGER'', ConvInt),
               TTuple \<mapsto> (''TEXT'', ConvJsonDumps)]"

text \<open>
  The attributes of a \<open>Field\<close> object. \<open>null\<close>, \<open>default\<close> and \<open>pk\<close> are
  arbitrary Python values: the code only compares them (\<open>== False\<close>,
  \<open>!= None\<close>, \<open>== True\<close>).
\<close>

record field =
  title :: string
  python_type :: "pytype option"
  null :: pyval
  default :: pyval
  pk :: pyval
  sql_type :: "string option"
  type_converter :: "converter option"

definition Field :: "string \<Rightarrow> pytype option \<Rightarrow> pyval \<Rightarrow> pyval \<Rightarrow> pyval \<Rightarrow> pyexc + field" where
  "Field t ty n d p =
     (let f = \<lparr>title = t, python_type = ty, null = n, default = d, pk = p,
               sql_type = None, type_converter = None\<rparr>
      in case ty of
           None \<Rightarrow> Inr f
         | Some py \<Rightarrow>
             (case type_map py of
                None \<Rightarrow> Inl (KeyError (pytype_name py))
              | Some (st, conv) \<Rightarrow> Inr (f\<lparr>sql_type := Some st, type_converter := Some conv\<rparr>)))"

text \<open>The keyword defaults of the constructor: \<open>Field(title, python_type)\<close>.\<close>

abbreviation Field2 :: "string \<Rightarrow> pytype \<Rightarrow> pyexc + field" where
  "Field2 t ty \<equiv> Field t (Some ty) PyNone PyNone PyNone"



lemma Field_Some:
  "Field t (Some py) n d p =
     (case type_map py of
        None \<Rightarrow> Inl (KeyError (pytype_name py))
      | Some (st, conv) \<Rightarrow> Inr \<lparr>title = t, python_type = Some py, null = n, default = d, pk = p,
                                sql_type = Some st, type_converter = Some conv\<rparr>)"
  by (simp add: Field_def split: option.splits)

lemma type_map_dom: "type_map py \<noteq> None \<longleftrightarrow> py \<in> {TStr, TInt, TTuple}"
  by (cases py) (auto simp: type_map_def)



text \<open>
  C23. The constructor fails exactly for a Python type outside \<open>type_map\<close>, and then
  with \<open>KeyError\<close> naming the type, at construction time.
\<close>

theorem Field_unknown_type:
  "Field t (Some py) n d p = Inl e \<longleftrightarrow> py \<notin> {TStr, TInt, TTuple} \<and> e = KeyError (pytype_name py)"
  by (cases py) (auto simp: Field_Some type_map_def)

end
