(* ===== verification/Table.thy ===== *)
theory Table
  imports Field
begin

text \<open>
  The \<open>Table\<close> class of \<^verbatim>\<open>src/spods.py\<close> (lines 29--73): a title and an
  ordered list of fields. \<open>create_table_stmt\<close> renders the CREATE TABLE statement
  that \<open>link_table\<close> sends to SQLite; \<open>is_field\<close> is the name test every
  accessor of a linked record runs before touching the store.
\<close>

record table =
  table_title :: string
  table_fields :: "field list"

text \<open>
  The text one field contributes, steps 1 to 5 of the loop body of
  \<open>create_table_stmt\<close>. The conditions are Python's: \<open>field.null == False\<close>
  also holds for \<open>null = 0\<close>, \<open>field.default != None\<close> holds for every
  default but \<open>None\<close>, \<open>field.pk == True\<close> also holds for \<open>pk = 1\<close>.
\<close>

definition field_clause :: "field \<Rightarrow> string" where
  "field_clause f =
     '' '' @ title f @ '' ''
     @ (case sql_type f of None \<Rightarrow> [] | Some ty \<Rightarrow> '' '' @ ty @ '' '')
     @ (if py_eq (null f) (PyBool False) then '' NOT NULL '' else [])
     @ (if \<not> py_eq (default f) PyNone then '' DEFAULT '' @ py_repr (default f) @ '' '' else [])
     @ (if py_eq (pk f) (PyBool True) then '' PRIMARY KEY '' else [])
     @ '' ,''"

text \<open>
  \<open>query[:-1]\<close> drops the last character of the query, which is the last
  field's comma when there is a field, and the opening parenthesis when there is none.
\<close>

definition create_table_stmt :: "table \<Rightarrow> bool \<Rightarrow> string" where
  "create_table_stmt t force =
     (let query = (if force then ''CREATE TABLE '' @ table_title t @ '' (''
                   else ''CREATE TABLE IF NOT EXISTS '' @ table_title t @ '' ('');
          query = foldl (\<lambda>q f. q @ field_clause f) query (table_fields t);
          query = butlast query
      in query @ '')'')"

text \<open>The loop of \<open>is_field\<close>, returning at the first field with the title.\<close>

fun is_field_loop :: "field list \<Rightarrow> string \<Rightarrow> bool" where
  "is_field_loop [] k = False"
| "is_field_loop (f # fs) k = (if title f = k then True else is_field_loop fs k)"

definition is_field :: "table \<Rightarrow> string \<Rightarrow> bool" where
  "is_field t k = is_field_loop (table_fields t) k"

lemma is_field_loop_iff: "is_field_loop fs k \<longleftrightarrow> k \<in> title ` set fs"
  by (induction fs) auto

lemma is_field_iff: "is_field t k \<longleftrightarrow> k \<in> title ` set (table_fields t)"
  by (simp add: is_field_def is_field_loop_iff)

lemma foldl_append_concat: "foldl (\<lambda>q f. q @ g f) q0 xs = q0 @ concat (map g xs)"
  by (induction xs arbitrary: q0) auto

lemma field_clause_last: "last (field_clause f) = CHR '',''"
  by (simp add: field_clause_def)

lemma create_table_stmt_concat:
  "create_table_stmt t force =
     butlast ((if force then ''CREATE TABLE '' @ table_title t @ '' (''
               else ''CREATE TABLE IF NOT EXISTS '' @ table_title t @ '' ('')
              @ concat (map field_clause (table_fields t))) @ '')''"
  by (simp add: create_table_stmt_def foldl_append_concat Let_def)

end
