(* ===== verification/SqlBase.thy ===== *)
theory SqlBase
  imports Prelude
begin

text \<open>
  The interface between the program and SQLite (through Python's \<open>sqlite3\<close>
  module): SQL values, column declarations and type affinity, the statements the code
  issues (one constructor per statement shape of \<^verbatim>\<open>src/spods.py\<close>), what
  executing one returns, and the conversions of parameters and row values between
  Python and SQLite. SQLite and \<open>sqlite3\<close> are libraries, not code of the
  repository; their behaviour is modelled from their documentation:
  \<^item> type affinity (SQLite, "Datatypes In SQLite", section 3): the affinity of a
    column follows from its declared type; INTEGER and NUMERIC columns turn text that
    is a well-formed integer into an integer, TEXT columns turn numbers into text,
    columns without a type store values as given;
  \<^item> parameter binding (\<open>sqlite3\<close>, \<open>_pysqlite_bind_parameter\<close>): \<open>None\<close>
    is NULL, an \<open>int\<close> or \<open>bool\<close> is a 64-bit INTEGER (\<open>OverflowError\<close>
    outside the range), a \<open>str\<close> is TEXT, and any other object (a tuple) raises
    \<open>InterfaceError\<close>.
  Floating-point values, BLOBs and REAL affinity are not modelled: no value of the
  program produces them.
\<close>

datatype sqlval = SNull | SInt int | SText string

datatype affinity = AffText | AffNumeric | AffInteger | AffReal | AffBlob

record column =
  cname :: string
  ctype :: "string option"
  cnotnull :: bool
  cdefault :: "sqlval option"
  cpk :: bool

type_synonym sqlrow = "string \<rightharpoonup> sqlval"

text \<open>An assigned value: a bound parameter \<open>?\<close> or the literal \<open>NULL\<close>.\<close>

datatype sqlexpr = Param pyval | NullLit

text \<open>
  The statements of the program, with their text in \<^verbatim>\<open>src/spods.py\<close>:
  \<^item> \<open>CreateTable ine name cols\<close>: \<open>CREATE TABLE [IF NOT EXISTS] name (cols)\<close>,
    the result of parsing \<open>create_table_stmt\<close> (theory \<open>SqlDdl\<close>);
  \<^item> \<open>InsertNullId name\<close>: \<open>INSERT INTO name (id) VALUES (NULL)\<close> (line 160);
  \<^item> \<open>UpdateSet name assigns w lim\<close>: \<open>UPDATE name SET c1 = e1, ... WHERE id = ?\<close>,
    with \<open>LIMIT 1\<close> when \<open>lim\<close> (lines 131, 143, 189--199);
  \<^item> \<open>SelectById name w\<close>: \<open>SELECT * FROM name WHERE id = ? LIMIT 1\<close> (line 176).
\<close>

datatype stmt =
    CreateTable bool string "column list"
  | InsertNullId string
  | UpdateSet string "(string \<times> sqlexpr) list" pyval bool
  | SelectById string pyval

text \<open>What a cursor holds after \<open>execute\<close>: nothing, \<open>lastrowid\<close>, or the row \<open>fetchone\<close> returns.\<close>

datatype result = RNone | RRowid int | RFetched "sqlrow option"

section \<open>Type affinity\<close>

definition upper_char :: "char \<Rightarrow> char" where
  "upper_char c = (if (97::nat) \<le> of_char c \<and> of_char c \<le> (122::nat) then char_of (of_char c - (32::nat)) else c)"

definition upper :: "string \<Rightarrow> string" where
  "upper s = map upper_char s"

fun has_infix :: "string \<Rightarrow> string \<Rightarrow> bool" where
  "has_infix p [] = (p = [])"
| "has_infix p (c # cs) = (take (length p) (c # cs) = p \<or> has_infix p cs)"

text \<open>SQLite's rules, in their order, on the declared type in upper case.\<close>

definition affinity_of :: "string option \<Rightarrow> affinity" where
  "affinity_of ty =
     (case ty of
        None \<Rightarrow> AffBlob
      | Some t \<Rightarrow>
          (let u = upper t in
           if has_infix ''INT'' u then AffInteger
           else if has_infix ''CHAR'' u \<or> has_infix ''CLOB'' u \<or> has_infix ''TEXT'' u then AffText
           else if has_infix ''BLOB'' u \<or> u = [] then AffBlob
           else if has_infix ''REAL'' u \<or> has_infix ''FLOA'' u \<or> has_infix ''DOUB'' u then AffReal
           else AffNumeric))"

definition is_sql_space :: "char \<Rightarrow> bool" where
  "is_sql_space c \<longleftrightarrow> c = CHR '' '' \<or> ((9::nat) \<le> of_char c \<and> of_char c \<le> (13::nat))"

definition strip_spaces :: "string \<Rightarrow> string" where
  "strip_spaces s = rev (dropWhile is_sql_space (rev (dropWhile is_sql_space s)))"

text \<open>
  Numeric affinity turns text that is a well-formed integer (surrounding white space
  allowed) into an integer; text with a fraction or exponent would become REAL and is
  not modelled, so such text stays text here.
\<close>

fun apply_affinity :: "affinity \<Rightarrow> sqlval \<Rightarrow> sqlval" where
  "apply_affinity AffText (SInt n) = SText (dec_int n)"
| "apply_affinity AffBlob v = v"
| "apply_affinity AffText v = v"
| "apply_affinity _ (SText s) = (case parse_int (strip_spaces s) of Some n \<Rightarrow> SInt n | None \<Rightarrow> SText s)"
| "apply_affinity _ v = v"

definition col_affinity :: "column \<Rightarrow> affinity" where
  "col_affinity c = affinity_of (ctype c)"

section \<open>Between Python and SQLite\<close>

definition int64_range :: "int \<Rightarrow> bool" where
  "int64_range n \<longleftrightarrow> - (2 ^ 63) \<le> n \<and> n < 2 ^ 63"

fun bind_param :: "pyval \<Rightarrow> pyexc + sqlval" where
  "bind_param PyNone = Inr SNull"
| "bind_param (PyBool b) = Inr (SInt (of_bool b))"
| "bind_param (PyInt n) =
     (if int64_range n then Inr (SInt n) else Inl (OverflowError ''Python int too large to convert to SQLite INTEGER''))"
| "bind_param (PyStr s) = Inr (SText s)"
| "bind_param (PyTuple _) = Inl (InterfaceError ''Error binding parameter - probably unsupported type.'')"

fun py_of_sql :: "sqlval \<Rightarrow> pyval" where
  "py_of_sql SNull = PyNone"
| "py_of_sql (SInt n) = PyInt n"
| "py_of_sql (SText s) = PyStr s"

definition bind_expr :: "sqlexpr \<Rightarrow> pyexc + sqlval" where
  "bind_expr e = (case e of Param v \<Rightarrow> bind_param v | NullLit \<Rightarrow> Inr SNull)"

text \<open>Binding a list of parameters, in the order of their \<open>?\<close>, stopping at the first failure.\<close>

fun bind_all :: "sqlexpr list \<Rightarrow> pyexc + sqlval list" where
  "bind_all [] = Inr []"
| "bind_all (e # es) =
     (case bind_expr e of Inl x \<Rightarrow> Inl x
      | Inr v \<Rightarrow> (case bind_all es of Inl x \<Rightarrow> Inl x | Inr vs \<Rightarrow> Inr (v # vs)))"

lemma apply_affinity_SNull [simp]: "apply_affinity a SNull = SNull"
  by (cases a) auto

lemma bind_all_length: "bind_all es = Inr vs \<Longrightarrow> length vs = length es"
  by (induction es arbitrary: vs) (auto split: sum.splits)

lemma affinity_of_INTEGER [simp]: "affinity_of (Some ''INTEGER'') = AffInteger"
  by (simp add: affinity_of_def upper_def upper_char_def)

lemma affinity_of_TEXT [simp]: "affinity_of (Some ''TEXT'') = AffText"
  by (simp add: affinity_of_def upper_def upper_char_def)

end
