(* ===== verification/SqlDdl.thy ===== *)
theory SqlDdl
  imports SqlBase
begin

text \<open>
  SQLite's front end for the one DDL statement the program sends, the text that
  \<open>Table.create_table_stmt\<close> renders: a tokenizer and a parser for
  \<open>CREATE TABLE [IF NOT EXISTS] name (coldef, ...)\<close>, where a column definition is
  a name, an optional type name of one or more words, and the constraints
  \<open>NOT NULL\<close>, \<open>NULL\<close>, \<open>DEFAULT literal\<close> and \<open>PRIMARY KEY\<close>. The
  literals of a DEFAULT are SQLite's: a signed integer, a string in single quotes
  (\<open>''\<close> inside is one quote), \<open>NULL\<close>, and an identifier, which SQLite takes as
  a string (a double-quoted one as well), except \<open>TRUE\<close> and \<open>FALSE\<close>, which
  are 1 and 0. A backslash is an ordinary character in SQL. Keywords are matched without
  regard to case. What the grammar does not cover (other constraints, parenthesised type
  arguments, real numbers, comments) is a syntax error here.
\<close>

datatype token =
    TkId string | TkNum string | TkStr string | TkQId string
  | TkLParen | TkRParen | TkComma | TkMinus | TkPlus

definition is_id_start :: "char \<Rightarrow> bool" where
  "is_id_start c \<longleftrightarrow> (65::nat) \<le> of_char c \<and> of_char c \<le> (90::nat) \<or> (97::nat) \<le> of_char c \<and> of_char c \<le> (122::nat)
     \<or> c = CHR ''_'' \<or> (128::nat) \<le> of_char c"

definition is_id_char :: "char \<Rightarrow> bool" where
  "is_id_char c \<longleftrightarrow> is_id_start c \<or> is_dec_digit c \<or> c = CHR ''$''"

text \<open>The body of a quoted token up to its closing quote; a doubled quote is one quote.\<close>

fun scan_quoted :: "char \<Rightarrow> string \<Rightarrow> (string \<times> string) option" where
  "scan_quoted q [] = None"
| "scan_quoted q (c # cs) =
     (if c = q then
        (case cs of
           d # ds \<Rightarrow> (if d = q then map_option (apfst (Cons q)) (scan_quoted q ds) else Some ([], cs))
         | [] \<Rightarrow> Some ([], []))
      else map_option (apfst (Cons c)) (scan_quoted q cs))"

lemma scan_quoted_length: "scan_quoted q s = Some (v, r) \<Longrightarrow> length r < Suc (length s)"
proof (induction q s arbitrary: v rule: scan_quoted.induct)
  case (2 q c cs)
  then show ?case
    by (auto split: if_splits list.splits) fastforce+
qed simp

function tokenize :: "string \<Rightarrow> token list option" where
  "tokenize [] = Some []"
| "tokenize (c # cs) =
     (if is_sql_space c then tokenize cs
      else if c = CHR ''('' then map_option (Cons TkLParen) (tokenize cs)
      else if c = CHR '')'' then map_option (Cons TkRParen) (tokenize cs)
      else if c = CHR '','' then map_option (Cons TkComma) (tokenize cs)
      else if c = CHR ''-'' then map_option (Cons TkMinus) (tokenize cs)
      else if c = CHR ''+'' then map_option (Cons TkPlus) (tokenize cs)
      else if c = CHR 0x27 then
        (case scan_quoted c cs of None \<Rightarrow> None | Some (v, r) \<Rightarrow> map_option (Cons (TkStr v)) (tokenize r))
      else if c = CHR 0x22 then
        (case scan_quoted c cs of None \<Rightarrow> None | Some (v, r) \<Rightarrow> map_option (Cons (TkQId v)) (tokenize r))
      else if is_id_start c then
        map_option (Cons (TkId (c # takeWhile is_id_char cs))) (tokenize (dropWhile is_id_char cs))
      else if is_dec_digit c then
        (let r = dropWhile is_dec_digit cs in
         if r \<noteq> [] \<and> is_id_char (hd r) then None
         else map_option (Cons (TkNum (c # takeWhile is_dec_digit cs))) (tokenize r))
      else None)"
  by pat_completeness auto
termination
  by (relation "measure length")
     (auto simp: le_imp_less_Suc length_dropWhile_le dest: scan_quoted_length)

definition is_kw :: "string \<Rightarrow> token \<Rightarrow> bool" where
  "is_kw k t \<longleftrightarrow> (case t of TkId w \<Rightarrow> upper w = k | _ \<Rightarrow> False)"

text \<open>Keywords that cannot name a table or a column, and those that start a constraint.\<close>

definition reserved :: "string list" where
  "reserved = [''ADD'', ''ALL'', ''ALTER'', ''AND'', ''AS'', ''AUTOINCREMENT'', ''BETWEEN'', ''CASE'',
     ''CHECK'', ''COLLATE'', ''COMMIT'', ''CONSTRAINT'', ''CREATE'', ''DEFAULT'', ''DEFERRABLE'',
     ''DELETE'', ''DISTINCT'', ''DROP'', ''ELSE'', ''ESCAPE'', ''EXCEPT'', ''EXISTS'', ''FOREIGN'',
     ''FROM'', ''GROUP'', ''HAVING'', ''IN'', ''INDEX'', ''INSERT'', ''INTERSECT'', ''INTO'', ''IS'',
     ''ISNULL'', ''JOIN'', ''LIMIT'', ''NOT'', ''NOTNULL'', ''NULL'', ''ON'', ''OR'', ''ORDER'',
     ''PRIMARY'', ''REFERENCES'', ''SELECT'', ''SET'', ''TABLE'', ''THEN'', ''TO'', ''TRANSACTION'',
     ''UNION'', ''UNIQUE'', ''UPDATE'', ''USING'', ''VALUES'', ''WHEN'', ''WHERE'']"

definition constraint_kws :: "string list" where
  "constraint_kws = [''CONSTRAINT'', ''PRIMARY'', ''NOT'', ''NULL'', ''UNIQUE'', ''CHECK'',
     ''DEFAULT'', ''COLLATE'', ''REFERENCES'', ''GENERATED'', ''AS'']"

fun name_tok :: "token \<Rightarrow> string option" where
  "name_tok (TkId w) = (if upper w \<in> set reserved then None else Some w)"
| "name_tok (TkQId w) = Some w"
| "name_tok _ = None"

text \<open>The words of a type name, up to the first constraint keyword.\<close>

fun parse_type :: "token list \<Rightarrow> string list \<times> token list" where
  "parse_type (TkId w # ts) =
     (if upper w \<in> set constraint_kws then ([], TkId w # ts)
      else (let (ws, r) = parse_type ts in (w # ws, r)))"
| "parse_type ts = ([], ts)"

fun default_literal :: "token list \<Rightarrow> (sqlval \<times> token list) option" where
  "default_literal (TkNum n # ts) = Some (SInt (int (digits_val n)), ts)"
| "default_literal (TkMinus # TkNum n # ts) = Some (SInt (- int (digits_val n)), ts)"
| "default_literal (TkPlus # TkNum n # ts) = Some (SInt (int (digits_val n)), ts)"
| "default_literal (TkStr s # ts) = Some (SText s, ts)"
| "default_literal (TkQId s # ts) = Some (SText s, ts)"
| "default_literal (TkId w # ts) =
     (if upper w = ''NULL'' then Some (SNull, ts)
      else if upper w = ''TRUE'' then Some (SInt 1, ts)
      else if upper w = ''FALSE'' then Some (SInt 0, ts)
      else if upper w \<in> set reserved then None
      else Some (SText w, ts))"
| "default_literal _ = None"

lemma default_literal_length: "default_literal ts = Some (v, r) \<Longrightarrow> length r < Suc (length ts)"
  by (induction ts rule: default_literal.induct) (auto split: if_splits)

function parse_constraints :: "token list \<Rightarrow> column \<Rightarrow> (column \<times> token list) option" where
  "parse_constraints [] c = Some (c, [])"
| "parse_constraints (t # ts) c =
     (if is_kw ''NOT'' t then
        (case ts of t2 # ts2 \<Rightarrow> if is_kw ''NULL'' t2 then parse_constraints ts2 (c\<lparr>cnotnull := True\<rparr>) else None
         | [] \<Rightarrow> None)
      else if is_kw ''NULL'' t then parse_constraints ts c
      else if is_kw ''PRIMARY'' t then
        (case ts of t2 # ts2 \<Rightarrow> if is_kw ''KEY'' t2 then parse_constraints ts2 (c\<lparr>cpk := True\<rparr>) else None
         | [] \<Rightarrow> None)
      else if is_kw ''DEFAULT'' t then
        (case default_literal ts of None \<Rightarrow> None
         | Some (v, ts2) \<Rightarrow> parse_constraints ts2 (c\<lparr>cdefault := Some v\<rparr>))
      else Some (c, t # ts))"
  by pat_completeness auto
termination
  by (relation "measure (\<lambda>(ts, c). length ts)") (auto dest: default_literal_length)

definition parse_coldef :: "token list \<Rightarrow> (column \<times> token list) option" where
  "parse_coldef ts =
     (case ts of
        [] \<Rightarrow> None
      | t # ts1 \<Rightarrow>
          (case name_tok t of
             None \<Rightarrow> None
           | Some n \<Rightarrow>
               (let (ws, ts2) = parse_type ts1;
                    ty = (if ws = [] then None else Some (concat (map (\<lambda>w. w @ '' '') (butlast ws)) @ last ws))
                in parse_constraints ts2 \<lparr>cname = n, ctype = ty, cnotnull = False, cdefault = None, cpk = False\<rparr>)))"

lemma parse_type_length: "parse_type ts = (ws, r) \<Longrightarrow> length r \<le> length ts"
  by (induction ts arbitrary: ws rule: parse_type.induct) (auto split: if_splits prod.splits)

lemma parse_constraints_length: "parse_constraints ts c = Some (c', r) \<Longrightarrow> length r \<le> length ts"
proof (induction ts c rule: parse_constraints.induct)
  case (2 t ts c)
  then show ?case
    by (auto split: if_splits list.splits option.splits prod.splits dest!: default_literal_length)
       fastforce+
qed simp

lemma parse_coldef_length: "parse_coldef ts = Some (c, r) \<Longrightarrow> length r < length ts"
  by (auto simp: parse_coldef_def split: list.splits option.splits prod.splits
           dest!: parse_constraints_length parse_type_length)

text \<open>Column definitions separated by commas, up to the closing parenthesis.\<close>

function parse_columns :: "token list \<Rightarrow> (column list \<times> token list) option" where
  "parse_columns ts =
     (case parse_coldef ts of
        None \<Rightarrow> None
      | Some (c, TkComma # r) \<Rightarrow> map_option (apfst (Cons c)) (parse_columns r)
      | Some (c, TkRParen # r) \<Rightarrow> Some ([c], r)
      | Some _ \<Rightarrow> None)"
  by pat_completeness auto
termination
  by (relation "measure length") (auto dest!: parse_coldef_length)

definition parse_create :: "string \<Rightarrow> stmt option" where
  "parse_create s =
     (case tokenize s of
        None \<Rightarrow> None
      | Some toks \<Rightarrow>
          (let (ine, r) =
             (case toks of
                t1 # t2 # t3 # t4 # t5 # r \<Rightarrow>
                  if is_kw ''CREATE'' t1 \<and> is_kw ''TABLE'' t2 \<and> is_kw ''IF'' t3 \<and> is_kw ''NOT'' t4 \<and> is_kw ''EXISTS'' t5
                  then (Some True, r)
                  else if is_kw ''CREATE'' t1 \<and> is_kw ''TABLE'' t2 then (Some False, t3 # t4 # t5 # r)
                  else (None, [])
              | t1 # t2 # r \<Rightarrow>
                  if is_kw ''CREATE'' t1 \<and> is_kw ''TABLE'' t2 then (Some False, r) else (None, [])
              | _ \<Rightarrow> (None, []))
           in case (ine, r) of
                (Some b, t # TkLParen # r2) \<Rightarrow>
                  (case name_tok t of
                     None \<Rightarrow> None
                   | Some n \<Rightarrow>
                       (case parse_columns r2 of
                          Some (cs, []) \<Rightarrow> Some (CreateTable b n cs)
                        | _ \<Rightarrow> None))
              | _ \<Rightarrow> None))"

end
