(* ===== verification/Store.thy ===== *)
theory Store
  imports SqlDdl "HOL-Library.AList"
begin

text \<open>
  The SQLite database behind the connection \<open>db\<close> of \<^verbatim>\<open>src/spods.py\<close>, as the
  program observes it through \<open>cursor.execute\<close>: a list of named tables, each with
  its declared columns and its rows (a rowid and a value per column). \<open>execute\<close>
  runs one statement of the \<open>stmt\<close> interface of \<open>SqlBase\<close>: either it raises
  the exception \<open>sqlite3\<close> raises, with the database unchanged (a statement is
  atomic in SQLite), or it returns the new database and the cursor's result. Checks are
  made in SQLite's order: syntax, then names (no such table or column), then parameter
  binding, then constraints (NOT NULL, UNIQUE, the integer type of a rowid alias).

  The connection also carries two settings the program depends on: whether this build of
  SQLite accepts \<open>UPDATE ... LIMIT\<close> (the compile-time option
  SQLITE_ENABLE_UPDATE_DELETE_LIMIT, off in the default build), and whether
  \<open>row_factory\<close> is \<open>sqlite3.Row\<close> (rows addressable by column name).
\<close>

record sqltable =
  cols :: "column list"
  rows :: "(int \<times> sqlrow) list"

record conn =
  tables :: "(string \<times> sqltable) list"
  limit_ok :: bool
  row_factory_row :: bool

definition find_col :: "sqltable \<Rightarrow> string \<Rightarrow> column option" where
  "find_col tb n = find (\<lambda>c. cname c = n) (cols tb)"

text \<open>A column declared \<open>INTEGER PRIMARY KEY\<close> is an alias of the rowid.\<close>

definition is_alias :: "column \<Rightarrow> bool" where
  "is_alias c \<longleftrightarrow> cpk c \<and> map_option upper (ctype c) = Some ''INTEGER''"

definition alias_col :: "sqltable \<Rightarrow> column option" where
  "alias_col tb = find is_alias (cols tb)"

definition aff_of :: "sqltable \<Rightarrow> string \<Rightarrow> affinity" where
  "aff_of tb n = (case find_col tb n of Some c \<Rightarrow> col_affinity c | None \<Rightarrow> AffBlob)"

text \<open>
  \<open>WHERE id = ?\<close>: the column's affinity is applied to the parameter before the
  comparison, and NULL equals nothing.
\<close>

definition row_matches :: "sqltable \<Rightarrow> sqlval \<Rightarrow> int \<times> sqlrow \<Rightarrow> bool" where
  "row_matches tb w ir =
     (case (snd ir) ''id'' of
        Some v \<Rightarrow> v \<noteq> SNull \<and> v = apply_affinity (aff_of tb ''id'') w
      | None \<Rightarrow> False)"

definition notnull_ok :: "string \<Rightarrow> sqltable \<Rightarrow> sqlrow \<Rightarrow> pyexc + unit" where
  "notnull_ok name tb r =
     (case find (\<lambda>c. cnotnull c \<and> r (cname c) = Some SNull) (cols tb) of
        None \<Rightarrow> Inr ()
      | Some c \<Rightarrow> Inl (IntegrityError (''NOT NULL constraint failed: '' @ name @ ''.'' @ cname c)))"

text \<open>Rowids are distinct, and so are the non-NULL values of a PRIMARY KEY column.\<close>

definition unique_ok :: "sqltable \<Rightarrow> (int \<times> sqlrow) list \<Rightarrow> bool" where
  "unique_ok tb rs \<longleftrightarrow>
     distinct (map fst rs) \<and>
     list_all (\<lambda>c. \<not> cpk c \<or> distinct (filter (\<lambda>v. v \<noteq> Some SNull) (map (\<lambda>ir. snd ir (cname c)) rs))) (cols tb)"

definition set_table :: "conn \<Rightarrow> string \<Rightarrow> sqltable \<Rightarrow> conn" where
  "set_table c name tb = c\<lparr>tables := AList.update name tb (tables c)\<rparr>"

definition get_table :: "conn \<Rightarrow> string \<Rightarrow> pyexc + sqltable" where
  "get_table c name =
     (case map_of (tables c) name of None \<Rightarrow> Inl (OperationalError (''no such table: '' @ name)) | Some tb \<Rightarrow> Inr tb)"

section \<open>CREATE TABLE\<close>

definition exec_create :: "conn \<Rightarrow> bool \<Rightarrow> string \<Rightarrow> column list \<Rightarrow> pyexc + conn" where
  "exec_create c ine name cs =
     (if map_of (tables c) name \<noteq> None then
        (if ine then Inr c else Inl (OperationalError (''table '' @ name @ '' already exists'')))
      else if \<not> distinct (map cname cs) then Inl (OperationalError ''duplicate column name'')
      else if 1 < length (filter cpk cs) then
        Inl (OperationalError (''table '' @ name @ '' has more than one primary key''))
      else Inr (set_table c name \<lparr>cols = cs, rows = []\<rparr>))"

section \<open>INSERT INTO t (id) VALUES (NULL)\<close>

definition next_rowid :: "sqltable \<Rightarrow> int" where
  "next_rowid tb = (case rows tb of [] \<Rightarrow> 1 | r # rs \<Rightarrow> fold max (map fst rs) (fst r) + 1)"

text \<open>
  The value the new row gets in a column: the rowid in the rowid alias, the explicit
  NULL in \<open>id\<close> otherwise, and the column's default (under the column's affinity)
  or NULL elsewhere.
\<close>

definition insert_value :: "column \<Rightarrow> int \<Rightarrow> sqlval" where
  "insert_value col r =
     (if is_alias col then SInt r
      else if cname col = ''id'' then SNull
      else (case cdefault col of Some v \<Rightarrow> apply_affinity (col_affinity col) v | None \<Rightarrow> SNull))"

definition new_row :: "sqltable \<Rightarrow> int \<Rightarrow> sqlrow" where
  "new_row tb r = map_of (map (\<lambda>col. (cname col, insert_value col r)) (cols tb))"

definition exec_insert :: "conn \<Rightarrow> string \<Rightarrow> pyexc + conn \<times> int" where
  "exec_insert c name =
     bindR (get_table c name) (\<lambda>tb.
       if find_col tb ''id'' = None then Inl (OperationalError (''table '' @ name @ '' has no column named id''))
       else
         (let r = next_rowid tb; row = new_row tb r; rs' = rows tb @ [(r, row)] in
          bindR (notnull_ok name tb row) (\<lambda>_.
            if unique_ok tb rs' then Inr (set_table c name (tb\<lparr>rows := rs'\<rparr>), r)
            else Inl (IntegrityError ''UNIQUE constraint failed''))))"

section \<open>UPDATE t SET ... WHERE id = ? [LIMIT 1]\<close>

definition assign_row :: "sqltable \<Rightarrow> (string \<times> sqlval) list \<Rightarrow> sqlrow \<Rightarrow> sqlrow" where
  "assign_row tb avs r = foldl (\<lambda>r' (n, v). r'(n \<mapsto> apply_affinity (aff_of tb n) v)) r avs"

definition new_rowid :: "sqltable \<Rightarrow> int \<Rightarrow> sqlrow \<Rightarrow> pyexc + int" where
  "new_rowid tb rid r =
     (case alias_col tb of
        None \<Rightarrow> Inr rid
      | Some ac \<Rightarrow> (case r (cname ac) of Some (SInt k) \<Rightarrow> Inr k | _ \<Rightarrow> Inl (IntegrityError ''datatype mismatch'')))"

definition update_one :: "string \<Rightarrow> sqltable \<Rightarrow> (string \<times> sqlval) list \<Rightarrow> int \<times> sqlrow \<Rightarrow> pyexc + int \<times> sqlrow" where
  "update_one name tb avs ir =
     (let r' = assign_row tb avs (snd ir) in
      bindR (notnull_ok name tb r') (\<lambda>_. bindR (new_rowid tb (fst ir) r') (\<lambda>k. Inr (k, r'))))"

text \<open>The scan over the rows; with \<open>LIMIT 1\<close> it stops after the first matching row.\<close>

fun update_rows :: "string \<Rightarrow> sqltable \<Rightarrow> (string \<times> sqlval) list \<Rightarrow> sqlval \<Rightarrow> bool \<Rightarrow>
    (int \<times> sqlrow) list \<Rightarrow> pyexc + (int \<times> sqlrow) list" where
  "update_rows name tb avs w lim [] = Inr []"
| "update_rows name tb avs w lim (ir # rs) =
     (if row_matches tb w ir then
        bindR (update_one name tb avs ir) (\<lambda>ir'.
          bindR (if lim then Inr rs else update_rows name tb avs w lim rs) (\<lambda>rs'. Inr (ir' # rs')))
      else bindR (update_rows name tb avs w lim rs) (\<lambda>rs'. Inr (ir # rs')))"

definition exec_update :: "conn \<Rightarrow> string \<Rightarrow> (string \<times> sqlexpr) list \<Rightarrow> pyval \<Rightarrow> bool \<Rightarrow> pyexc + conn" where
  "exec_update c name assigns w lim =
     (if assigns = [] then Inl (OperationalError ''syntax error'')
      else if lim \<and> \<not> limit_ok c then Inl (OperationalError ''near \"LIMIT\": syntax error'')
      else bindR (get_table c name) (\<lambda>tb.
        case find (\<lambda>a. find_col tb (fst a) = None) assigns of
          Some a \<Rightarrow> Inl (OperationalError (''no such column: '' @ fst a))
        | None \<Rightarrow>
            if find_col tb ''id'' = None then Inl (OperationalError ''no such column: id'')
            else bindR (bind_all (map snd assigns)) (\<lambda>vs. bindR (bind_param w) (\<lambda>wv.
                   bindR (update_rows name tb (zip (map fst assigns) vs) wv lim (rows tb)) (\<lambda>rs'.
                     if unique_ok tb rs' then Inr (set_table c name (tb\<lparr>rows := rs'\<rparr>))
                     else Inl (IntegrityError ''UNIQUE constraint failed''))))))"

section \<open>SELECT * FROM t WHERE id = ? LIMIT 1\<close>

definition exec_select :: "conn \<Rightarrow> string \<Rightarrow> pyval \<Rightarrow> pyexc + sqlrow option" where
  "exec_select c name w =
     bindR (get_table c name) (\<lambda>tb.
       if find_col tb ''id'' = None then Inl (OperationalError ''no such column: id'')
       else bindR (bind_param w) (\<lambda>wv. Inr (map_option snd (find (row_matches tb wv) (rows tb)))))"

section \<open>Executing a statement\<close>

fun execute :: "conn \<Rightarrow> stmt \<Rightarrow> pyexc + conn \<times> result" where
  "execute c (CreateTable ine name cs) = bindR (exec_create c ine name cs) (\<lambda>c'. Inr (c', RNone))"
| "execute c (InsertNullId name) = bindR (exec_insert c name) (\<lambda>(c', r). Inr (c', RRowid r))"
| "execute c (UpdateSet name assigns w lim) = bindR (exec_update c name assigns w lim) (\<lambda>c'. Inr (c', RNone))"
| "execute c (SelectById name w) = bindR (exec_select c name w) (\<lambda>r. Inr (c, RFetched r))"

text \<open>A DDL text is parsed first; text outside the grammar is a syntax error.\<close>

definition execute_ddl :: "conn \<Rightarrow> string \<Rightarrow> pyexc + conn \<times> result" where
  "execute_ddl c s = (case parse_create s of None \<Rightarrow> Inl (OperationalError ''syntax error'') | Some st \<Rightarrow> execute c st)"

section \<open>The invariant of a database\<close>

text \<open>
  A table is well formed when its column names are distinct, it has at most one
  PRIMARY KEY column, its rowids and primary-key values are unique, every row has a
  value for every column, and the rowid alias of a row holds its rowid. Every statement
  keeps every table well formed (\<open>execute_preserves_wf\<close>).
\<close>

definition row_complete :: "sqltable \<Rightarrow> int \<times> sqlrow \<Rightarrow> bool" where
  "row_complete tb ir \<longleftrightarrow> list_all (\<lambda>c. snd ir (cname c) \<noteq> None) (cols tb)"

definition row_alias_ok :: "sqltable \<Rightarrow> int \<times> sqlrow \<Rightarrow> bool" where
  "row_alias_ok tb ir \<longleftrightarrow> (case alias_col tb of None \<Rightarrow> True | Some ac \<Rightarrow> snd ir (cname ac) = Some (SInt (fst ir)))"

definition tbl_wf :: "sqltable \<Rightarrow> bool" where
  "tbl_wf tb \<longleftrightarrow> distinct (map cname (cols tb)) \<and> length (filter cpk (cols tb)) \<le> 1
     \<and> unique_ok tb (rows tb) \<and> list_all (\<lambda>ir. row_complete tb ir \<and> row_alias_ok tb ir) (rows tb)"

definition conn_wf :: "conn \<Rightarrow> bool" where
  "conn_wf c \<longleftrightarrow> list_all (\<lambda>(n, tb). tbl_wf tb) (tables c)"

lemma set_update_subset: "set (AList.update k v al) \<subseteq> insert (k, v) (set al)"
  by (induction al) auto

lemma conn_wf_set_table: "conn_wf c \<Longrightarrow> tbl_wf tb \<Longrightarrow> conn_wf (set_table c name tb)"
  using set_update_subset [of name tb "tables c"]
  by (fastforce simp: conn_wf_def set_table_def list_all_iff)

lemma map_of_set_table [simp]: "map_of (tables (set_table c name tb)) name = Some tb"
  by (simp add: set_table_def update_conv')

lemma map_of_set_table_other [simp]: "n \<noteq> name \<Longrightarrow> map_of (tables (set_table c name tb)) n = map_of (tables c) n"
  by (simp add: set_table_def update_conv')

lemma set_table_settings [simp]:
  "row_factory_row (set_table c name tb) = row_factory_row c"
  "limit_ok (set_table c name tb) = limit_ok c"
  by (simp_all add: set_table_def)

lemma conn_wf_lookup: "conn_wf c \<Longrightarrow> map_of (tables c) n = Some tb \<Longrightarrow> tbl_wf tb"
  by (auto simp: conn_wf_def list_all_iff dest!: map_of_SomeD)

lemma assign_row_other: "k \<notin> fst ` set avs \<Longrightarrow> assign_row tb avs r k = r k"
proof (induction avs arbitrary: r rule: rev_induct)
  case (snoc a avs)
  then show ?case by (cases a) (simp add: assign_row_def)
qed (simp add: assign_row_def)

lemma assign_row_single [simp]: "assign_row tb [(k, v)] r = r(k \<mapsto> apply_affinity (aff_of tb k) v)"
  by (simp add: assign_row_def)

lemma assign_row_dom: "r n \<noteq> None \<Longrightarrow> assign_row tb avs r n \<noteq> None"
proof (induction avs arbitrary: r rule: rev_induct)
  case (snoc a avs)
  then show ?case by (cases a) (simp add: assign_row_def)
qed (simp add: assign_row_def)

lemma update_one_Inr:
  "update_one name tb avs ir = Inr ir' \<Longrightarrow> snd ir' = assign_row tb avs (snd ir) \<and> new_rowid tb (fst ir) (snd ir') = Inr (fst ir')"
  by (auto simp: update_one_def Let_def bindR_eq_Inr)

lemma update_one_complete:
  "update_one name tb avs ir = Inr ir' \<Longrightarrow> row_complete tb ir \<Longrightarrow> row_complete tb ir'"
proof -
  assume u: "update_one name tb avs ir = Inr ir'" and c: "row_complete tb ir"
  from u have "snd ir' = assign_row tb avs (snd ir)" by (simp add: update_one_Inr)
  with c show ?thesis
    unfolding row_complete_def list_all_iff by (metis assign_row_dom)
qed

lemma update_one_alias:
  "update_one name tb avs ir = Inr ir' \<Longrightarrow> row_alias_ok tb ir'"
  by (auto simp: row_alias_ok_def new_rowid_def dest!: update_one_Inr split: option.splits sqlval.splits)

lemma update_rows_list_all:
  assumes "\<And>ir ir'. Q ir \<Longrightarrow> update_one name tb avs ir = Inr ir' \<Longrightarrow> Q ir'"
  shows "update_rows name tb avs w lim rs = Inr rs' \<Longrightarrow> list_all Q rs \<Longrightarrow> list_all Q rs'"
proof (induction rs arbitrary: rs')
  case (Cons ir rs)
  then show ?case
    using assms [of ir] by (auto simp: bindR_eq_Inr split: if_splits)
qed simp

lemma find_distinct_key:
  "distinct (map f xs) \<Longrightarrow> x \<in> set xs \<Longrightarrow> find (\<lambda>y. f y = f x) xs = Some x"
  by (induction xs) (auto simp: image_iff)

lemma map_of_cols:
  "distinct (map cname cs) \<Longrightarrow> c \<in> set cs \<Longrightarrow> map_of (map (\<lambda>col. (cname col, g col)) cs) (cname c) = Some (g c)"
  by (induction cs) (auto simp: image_iff)

lemma alias_col_Some: "alias_col tb = Some ac \<Longrightarrow> ac \<in> set (cols tb) \<and> is_alias ac"
  by (auto simp: alias_col_def find_Some_iff)

lemma row_complete_rows [simp]: "row_complete (tb\<lparr>rows := rs\<rparr>) = row_complete tb"
  by (simp add: row_complete_def fun_eq_iff)

lemma row_alias_ok_rows [simp]: "row_alias_ok (tb\<lparr>rows := rs\<rparr>) = row_alias_ok tb"
  by (simp add: row_alias_ok_def alias_col_def fun_eq_iff)

lemma unique_ok_rows [simp]: "unique_ok (tb\<lparr>rows := rs\<rparr>) = unique_ok tb"
  by (simp add: unique_ok_def fun_eq_iff)

lemma exec_create_wf: "conn_wf c \<Longrightarrow> exec_create c ine name cs = Inr c' \<Longrightarrow> conn_wf c'"
  by (auto simp: exec_create_def tbl_wf_def unique_ok_def list_all_iff split: if_splits intro!: conn_wf_set_table)

lemma new_row_complete: "tbl_wf tb \<Longrightarrow> row_complete tb (r, new_row tb r)"
  by (auto simp: row_complete_def new_row_def list_all_iff tbl_wf_def map_of_cols)

lemma new_row_alias: "tbl_wf tb \<Longrightarrow> row_alias_ok tb (r, new_row tb r)"
proof (cases "alias_col tb")
  case (Some ac)
  assume wf: "tbl_wf tb"
  from Some have "ac \<in> set (cols tb)" "is_alias ac" by (auto dest: alias_col_Some)
  with wf Some show ?thesis
    by (simp add: row_alias_ok_def new_row_def tbl_wf_def map_of_cols insert_value_def)
qed (simp add: row_alias_ok_def)

lemma exec_insert_wf:
  assumes wf: "conn_wf c" and ex: "exec_insert c name = Inr (c', r)"
  shows "conn_wf c'"
proof -
  from ex obtain tb where tb: "map_of (tables c) name = Some tb"
    and u: "unique_ok tb (rows tb @ [(r, new_row tb r)])"
    and c': "c' = set_table c name (tb\<lparr>rows := rows tb @ [(r, new_row tb r)]\<rparr>)"
    by (auto simp: exec_insert_def get_table_def bindR_eq_Inr Let_def split: option.splits if_splits)
  from wf tb have wtb: "tbl_wf tb" by (rule conn_wf_lookup)
  then have "tbl_wf (tb\<lparr>rows := rows tb @ [(r, new_row tb r)]\<rparr>)"
    using u by (simp add: tbl_wf_def new_row_complete new_row_alias)
  with wf c' show ?thesis by (simp add: conn_wf_set_table)
qed

lemma find_col_rows [simp]: "find_col (tb\<lparr>rows := rs\<rparr>) n = find_col tb n"
  by (simp add: find_col_def)

lemma aff_of_rows [simp]: "aff_of (tb\<lparr>rows := rs\<rparr>) n = aff_of tb n"
  by (simp add: aff_of_def)

lemma row_matches_rows [simp]: "row_matches (tb\<lparr>rows := rs\<rparr>) w ir = row_matches tb w ir"
  by (simp add: row_matches_def split: option.splits)

lemma row_matches_rows_fun [simp]: "row_matches (tb\<lparr>rows := rs\<rparr>) w = row_matches tb w"
  by (simp add: fun_eq_iff)


lemma exec_update_Inr:
  assumes "exec_update c name assigns w lim = Inr c'"
  shows "\<exists>tb vs wv rs'. map_of (tables c) name = Some tb \<and> bind_all (map snd assigns) = Inr vs
           \<and> bind_param w = Inr wv \<and> update_rows name tb (zip (map fst assigns) vs) wv lim (rows tb) = Inr rs'
           \<and> unique_ok tb rs' \<and> c' = set_table c name (tb\<lparr>rows := rs'\<rparr>) \<and> find_col tb ''id'' \<noteq> None"
  using assms
  by (auto simp: exec_update_def get_table_def bindR_eq_Inr split: if_splits option.splits)

lemma exec_update_wf:
  assumes wf: "conn_wf c" and ex: "exec_update c name assigns w lim = Inr c'"
  shows "conn_wf c'"
proof -
  from exec_update_Inr [OF ex] obtain tb vs wv rs' where
    tb: "map_of (tables c) name = Some tb" and
    up: "update_rows name tb (zip (map fst assigns) vs) wv lim (rows tb) = Inr rs'" and
    u: "unique_ok tb rs'" and c': "c' = set_table c name (tb\<lparr>rows := rs'\<rparr>)"
    by blast
  from wf tb have wtb: "tbl_wf tb" by (rule conn_wf_lookup)
  have step: "\<And>ir ir'. row_complete tb ir \<and> row_alias_ok tb ir \<Longrightarrow>
      update_one name tb (zip (map fst assigns) vs) ir = Inr ir' \<Longrightarrow> row_complete tb ir' \<and> row_alias_ok tb ir'"
    by (blast intro: update_one_complete update_one_alias)
  have "list_all (\<lambda>ir. row_complete tb ir \<and> row_alias_ok tb ir) rs'"
    using update_rows_list_all [where Q = "\<lambda>ir. row_complete tb ir \<and> row_alias_ok tb ir", OF step up] wtb
    by (simp add: tbl_wf_def)
  with wtb u have "tbl_wf (tb\<lparr>rows := rs'\<rparr>)" by (simp add: tbl_wf_def)
  with wf c' show ?thesis by (simp add: conn_wf_set_table)
qed

lemma exec_select_Inr:
  "exec_select c name w = Inr res \<longleftrightarrow>
     (\<exists>tb wv. map_of (tables c) name = Some tb \<and> find_col tb ''id'' \<noteq> None \<and> bind_param w = Inr wv
        \<and> res = map_option snd (find (row_matches tb wv) (rows tb)))"
  by (auto simp: exec_select_def get_table_def bindR_eq_Inr split: option.splits)

theorem execute_preserves_wf:
  assumes "conn_wf c" and "execute c st = Inr (c', r)"
  shows "conn_wf c'"
  using assms
proof (cases st)
  case (CreateTable ine name cs)
  with assms show ?thesis by (auto simp: bindR_eq_Inr intro: exec_create_wf)
next
  case (InsertNullId name)
  with assms show ?thesis by (auto simp: bindR_eq_Inr intro: exec_insert_wf)
next
  case (UpdateSet name assigns w lim)
  with assms show ?thesis by (auto simp: bindR_eq_Inr intro: exec_update_wf)
next
  case (SelectById name w)
  with assms show ?thesis by (auto simp: bindR_eq_Inr)
qed

lemma row_matches_assign_other:
  "k \<noteq> ''id'' \<Longrightarrow> row_matches tb w (rid, r(k \<mapsto> v)) = row_matches tb w (rid', r)"
  by (simp add: row_matches_def)

lemma update_one_single:
  "update_one name tb [(k, sv)] ir = Inr ir' \<Longrightarrow> snd ir' = (snd ir)(k \<mapsto> apply_affinity (aff_of tb k) sv)"
  by (drule update_one_Inr) simp

lemma update_rows_set_value:
  assumes "update_rows name tb [(k, sv)] wv False rs = Inr rs'" and "k \<noteq> ''id''"
  shows "ir' \<in> set rs' \<Longrightarrow> row_matches tb wv ir' \<Longrightarrow> snd ir' k = Some (apply_affinity (aff_of tb k) sv)"
  using assms(1)
proof (induction rs arbitrary: rs')
  case (Cons ir rs)
  show ?case
  proof (cases "row_matches tb wv ir")
    case True
    with Cons.prems obtain ir1 rs1 where "update_one name tb [(k, sv)] ir = Inr ir1"
      and "update_rows name tb [(k, sv)] wv False rs = Inr rs1" and "rs' = ir1 # rs1"
      by (auto simp: bindR_eq_Inr)
    with Cons.IH Cons.prems(1,2) show ?thesis by (auto dest: update_one_single)
  next
    case False
    with Cons.prems obtain rs1 where "update_rows name tb [(k, sv)] wv False rs = Inr rs1"
      and "rs' = ir # rs1"
      by (auto simp: bindR_eq_Inr)
    with False Cons.IH Cons.prems(1,2) show ?thesis by auto
  qed
qed simp

lemma update_rows_match_kept:
  assumes "update_rows name tb [(k, sv)] wv False rs = Inr rs'" and "ir \<in> set rs" and "row_matches tb wv ir"
  shows "\<exists>ir' \<in> set rs'. row_matches tb (if k = ''id'' then sv else wv) ir'
           \<or> (k = ''id'' \<and> apply_affinity (aff_of tb ''id'') sv = SNull)"
  using assms
proof (induction rs arbitrary: rs')
  case (Cons ir0 rs)
  show ?case
  proof (cases "row_matches tb wv ir0")
    case True
    with Cons.prems obtain ir1 rs1 where u1: "update_one name tb [(k, sv)] ir0 = Inr ir1"
      and "update_rows name tb [(k, sv)] wv False rs = Inr rs1" and "rs' = ir1 # rs1"
      by (auto simp: bindR_eq_Inr)
    moreover have "row_matches tb (if k = ''id'' then sv else wv) ir1
                   \<or> (k = ''id'' \<and> apply_affinity (aff_of tb ''id'') sv = SNull)"
      using True update_one_single [OF u1] by (auto simp: row_matches_def split: option.splits)
    ultimately show ?thesis by auto
  next
    case False
    with Cons.prems obtain rs1 where up: "update_rows name tb [(k, sv)] wv False rs = Inr rs1"
      and rs': "rs' = ir0 # rs1"
      by (auto simp: bindR_eq_Inr)
    from Cons.prems(2,3) False have "ir \<in> set rs" by auto
    from Cons.IH [OF up this Cons.prems(3)] rs' show ?thesis by auto
  qed
qed simp

lemma update_one_rows [simp]: "update_one name (tb\<lparr>rows := x\<rparr>) avs ir = update_one name tb avs ir"
  by (simp add: update_one_def notnull_ok_def new_rowid_def alias_col_def assign_row_def)

lemma update_rows_rows [simp]:
  "update_rows name (tb\<lparr>rows := x\<rparr>) avs w lim rs = update_rows name tb avs w lim rs"
  by (induction rs) (auto simp del: update_rows.simps simp: update_rows.simps[of name "tb\<lparr>rows := x\<rparr>"] update_rows.simps[of name tb])

lemma new_rowid_same_row:
  "new_rowid tb rid r = Inr k \<Longrightarrow> new_rowid tb k r = Inr k"
  by (auto simp: new_rowid_def split: option.splits sqlval.splits)

lemma update_one_null_idem:
  assumes "update_one name tb [(k, SNull)] ir = Inr ir'"
  shows "update_one name tb [(k, SNull)] ir' = Inr ir'"
proof -
  from assms have r': "snd ir' = (snd ir)(k \<mapsto> SNull)"
    and nr: "new_rowid tb (fst ir) (snd ir') = Inr (fst ir')"
    and nn: "notnull_ok name tb (snd ir') = Inr ()"
    by (auto simp: update_one_def Let_def bindR_eq_Inr)
  have "(snd ir')(k \<mapsto> SNull) = snd ir'" using r' by simp
  with nn new_rowid_same_row [OF nr] show ?thesis
    by (cases ir') (simp add: update_one_def Let_def)
qed

lemma update_rows_null_idem:
  assumes "k \<noteq> ''id''"
  shows "update_rows name tb [(k, SNull)] w True rs = Inr rs' \<Longrightarrow> update_rows name tb [(k, SNull)] w True rs' = Inr rs'"
proof (induction rs arbitrary: rs')
  case (Cons ir rs)
  show ?case
  proof (cases "row_matches tb w ir")
    case True
    with Cons.prems obtain ir' where u: "update_one name tb [(k, SNull)] ir = Inr ir'" and rs': "rs' = ir' # rs"
      by (auto simp: bindR_eq_Inr)
    from u have "snd ir' = (snd ir)(k \<mapsto> SNull)" by (auto dest: update_one_single)
    with True assms have "row_matches tb w ir'"
      by (cases ir; cases ir') (simp add: row_matches_def)
    with update_one_null_idem [OF u] rs' show ?thesis by simp
  next
    case False
    with Cons.prems obtain rs1 where u: "update_rows name tb [(k, SNull)] w True rs = Inr rs1" and rs': "rs' = ir # rs1"
      by (auto simp: bindR_eq_Inr)
    with False Cons.IH [OF u] show ?thesis by simp
  qed
qed simp

lemma set_table_triv: "map_of (tables c) name = Some tb \<Longrightarrow> set_table c name tb = c"
  by (simp add: set_table_def update_triv)

lemma exec_update_null_idem:
  assumes "exec_update c name [(k, NullLit)] w True = Inr c'" and "k \<noteq> ''id''"
  shows "exec_update c' name [(k, NullLit)] w True = Inr c'"
proof -
  from exec_update_Inr [OF assms(1)] obtain tb vs wv rs' where
    tb: "map_of (tables c) name = Some tb" and ba: "bind_all (map snd [(k, NullLit)]) = Inr vs"
    and bw: "bind_param w = Inr wv"
    and ur: "update_rows name tb (zip [k] vs) wv True (rows tb) = Inr rs'"
    and u: "unique_ok tb rs'" and c': "c' = set_table c name (tb\<lparr>rows := rs'\<rparr>)"
    and idc: "find_col tb ''id'' \<noteq> None"
    by auto
  from ba have vs: "vs = [SNull]" by (simp add: bind_expr_def)
  have lim: "limit_ok c'" using assms(1) c' by (auto simp: exec_update_def split: if_splits)
  from assms(1) have kc: "find_col tb k \<noteq> None" using tb
    by (auto simp: exec_update_def get_table_def bindR_eq_Inr split: if_splits option.splits)
  have ur2: "update_rows name tb [(k, SNull)] wv True rs' = Inr rs'"
    using update_rows_null_idem [OF assms(2)] ur vs by simp
  have "map_of (tables c') name = Some (tb\<lparr>rows := rs'\<rparr>)" by (simp add: c')
  then show ?thesis
    using lim kc idc bw ur2 u vs
    by (simp add: exec_update_def get_table_def bind_expr_def set_table_triv)
qed

section \<open>Reading back a new row\<close>

lemma alias_aff_id:
  assumes wf: "tbl_wf tb" and al: "alias_col tb = Some ac" and nm: "cname ac = ''id''"
  shows "find_col tb ''id'' = Some ac \<and> aff_of tb ''id'' = AffInteger"
proof -
  from al have ac: "ac \<in> set (cols tb)" "is_alias ac" by (auto dest: alias_col_Some)
  from wf have "distinct (map cname (cols tb))" by (simp add: tbl_wf_def)
  with ac nm have fc: "find_col tb ''id'' = Some ac"
    using find_distinct_key [of cname "cols tb" ac] by (simp add: find_col_def)
  from ac(2) obtain x where "ctype ac = Some x" "upper x = ''INTEGER''"
    by (auto simp: is_alias_def)
  then have "col_affinity ac = AffInteger" by (simp add: col_affinity_def affinity_of_def)
  with fc show ?thesis by (simp add: aff_of_def)
qed

lemma new_row_alias_id:
  assumes "tbl_wf tb" and "alias_col tb = Some ac" and "cname ac = ''id''"
  shows "new_row tb r ''id'' = Some (SInt r)"
proof -
  from assms(2) have "ac \<in> set (cols tb)" "is_alias ac" by (auto dest: alias_col_Some)
  with assms(1,3) show ?thesis
    using map_of_cols [of "cols tb" ac "\<lambda>col. insert_value col r"]
    by (simp add: tbl_wf_def new_row_def insert_value_def)
qed

lemma alias_col_rows [simp]: "alias_col (tb\<lparr>rows := rs\<rparr>) = alias_col tb"
  by (simp add: alias_col_def)

lemma exec_insert_Inr:
  assumes "exec_insert c name = Inr (c', r)"
  shows "\<exists>tb. map_of (tables c) name = Some tb \<and> find_col tb ''id'' \<noteq> None \<and> r = next_rowid tb
           \<and> unique_ok tb (rows tb @ [(r, new_row tb r)])
           \<and> c' = set_table c name (tb\<lparr>rows := rows tb @ [(r, new_row tb r)]\<rparr>)"
  using assms
  by (auto simp: exec_insert_def get_table_def bindR_eq_Inr Let_def split: option.splits if_splits)

lemma insert_select:
  assumes wf: "conn_wf c" and ex: "exec_insert c name = Inr (c', r)"
    and tb: "map_of (tables c) name = Some tb" and al: "alias_col tb = Some ac" and nm: "cname ac = ''id''"
    and rng: "int64_range r"
  shows "exec_select c' name (PyInt r) = Inr (Some (new_row tb r)) \<and> r \<notin> fst ` set (rows tb)"
proof -
  from exec_insert_Inr [OF ex] tb have u: "unique_ok tb (rows tb @ [(r, new_row tb r)])"
    and c': "c' = set_table c name (tb\<lparr>rows := rows tb @ [(r, new_row tb r)]\<rparr>)"
    by auto
  from u have fresh: "r \<notin> fst ` set (rows tb)" by (auto simp: unique_ok_def)
  from wf tb have wtb: "tbl_wf tb" by (rule conn_wf_lookup)
  from alias_aff_id [OF wtb al nm] have fc: "find_col tb ''id'' = Some ac" and af: "aff_of tb ''id'' = AffInteger"
    by auto
  have old: "\<not> row_matches tb (SInt r) ir" if "ir \<in> set (rows tb)" for ir
  proof -
    from wtb that have "row_alias_ok tb ir" by (auto simp: tbl_wf_def list_all_iff)
    with al nm have "snd ir ''id'' = Some (SInt (fst ir))" by (simp add: row_alias_ok_def)
    moreover from fresh that have "fst ir \<noteq> r" by force
    ultimately show ?thesis by (simp add: row_matches_def af)
  qed
  from new_row_alias_id [OF wtb al nm] have new: "row_matches tb (SInt r) (r, new_row tb r)" by (simp add: row_matches_def af)
  have "find (row_matches tb (SInt r)) (rows tb) = None" using old by (simp add: find_None_iff)
  then have "find (row_matches tb (SInt r)) (rows tb @ [(r, new_row tb r)]) = Some (r, new_row tb r)"
    using new by (simp add: find_append)
  with fc rng fresh show ?thesis by (simp add: exec_select_Inr c')
qed

section \<open>Queries on a missing or present row\<close>

lemma exec_select_overflow: "\<not> int64_range n \<Longrightarrow> \<exists>e. exec_select c name (PyInt n) = Inl e"
  by (auto simp: exec_select_def get_table_def split: option.splits)

lemma exec_select_None:
  "exec_select c name w = Inr None \<Longrightarrow>
   \<exists>tb wv. map_of (tables c) name = Some tb \<and> bind_param w = Inr wv \<and> find (row_matches tb wv) (rows tb) = None"
  by (auto simp: exec_select_Inr)

lemma update_rows_nomatch:
  "find (row_matches tb wv) rs = None \<Longrightarrow> update_rows name tb avs wv lim rs = Inr rs"
  by (induction rs) auto

lemma exec_select_Some_row:
  assumes "conn_wf c" and "exec_select c name w = Inr (Some row)"
  shows "\<exists>tb ir. map_of (tables c) name = Some tb \<and> ir \<in> set (rows tb) \<and> row = snd ir \<and> row_complete tb ir"
proof -
  from assms(2) obtain tb wv where tb: "map_of (tables c) name = Some tb"
    and f0: "Some row = map_option snd (find (row_matches tb wv) (rows tb))"
    by (auto simp: exec_select_Inr)
  then obtain ir where f: "find (row_matches tb wv) (rows tb) = Some ir" and r: "row = snd ir"
    by (cases "find (row_matches tb wv) (rows tb)") auto
  from f have ir: "ir \<in> set (rows tb)" by (auto dest: find_Some_mem)
  with conn_wf_lookup [OF assms(1) tb] have "row_complete tb ir" by (auto simp: tbl_wf_def list_all_iff)
  with tb ir r show ?thesis by blast
qed

section \<open>UPDATE of several columns\<close>

lemma assign_row_at:
  "distinct (map fst avs) \<Longrightarrow> (k, v) \<in> set avs \<Longrightarrow> assign_row tb avs r k = Some (apply_affinity (aff_of tb k) v)"
proof (induction avs arbitrary: r rule: rev_induct)
  case (snoc a avs)
  obtain n x where a: "a = (n, x)" by (cases a)
  show ?case
  proof (cases "n = k")
    case True
    with snoc.prems a have "v = x" by (auto simp: image_iff)
    with True a show ?thesis by (simp add: assign_row_def)
  next
    case False
    with snoc a have "assign_row tb avs r k = Some (apply_affinity (aff_of tb k) v)" by auto
    with False a show ?thesis by (simp add: assign_row_def)
  qed
qed simp

lemma update_rows_first:
  assumes "update_rows name tb avs wv False rs = Inr rs'"
    and "\<forall>ir ir'. row_matches tb wv ir \<longrightarrow> update_one name tb avs ir = Inr ir' \<longrightarrow> row_matches tb wv ir'"
    and "find (row_matches tb wv) rs = Some ir"
  shows "\<exists>ir'. find (row_matches tb wv) rs' = Some ir' \<and> update_one name tb avs ir = Inr ir'"
  using assms(1,3)
proof (induction rs arbitrary: rs')
  case (Cons ir0 rs)
  show ?case
  proof (cases "row_matches tb wv ir0")
    case True
    from Cons.prems(1) True have "bindR (update_one name tb avs ir0) (\<lambda>ir'.
          bindR (update_rows name tb avs wv False rs) (\<lambda>rs'. Inr (ir' # rs'))) = Inr rs'"
      by simp
    then obtain ir1 rs1 where u: "update_one name tb avs ir0 = Inr ir1" and rs': "rs' = ir1 # rs1"
      unfolding bindR_eq_Inr by blast
    from Cons.prems(2) True have "ir = ir0" by simp
    have "row_matches tb wv ir1" using assms(2) True u by blast
    with rs' u \<open>ir = ir0\<close> show ?thesis by simp
  next
    case False
    from Cons.prems(1) False have "bindR (update_rows name tb avs wv False rs) (\<lambda>rs'. Inr (ir0 # rs')) = Inr rs'"
      by simp
    then obtain rs1 where u: "update_rows name tb avs wv False rs = Inr rs1" and rs': "rs' = ir0 # rs1"
      unfolding bindR_eq_Inr by blast
    from Cons.prems(2) False have f: "find (row_matches tb wv) rs = Some ir" by simp
    from Cons.IH [OF u f] False rs' show ?thesis by simp
  qed
qed simp

end
