(* ===== verification/Binder.thy ===== *)
theory Binder
  imports Table Store
begin

text \<open>
  The record binder of \<^verbatim>\<open>src/spods.py\<close>: \<open>link_table\<close> (lines 75--202) and the
  methods of the class \<open>LinkedClass\<close> it returns. An instance of the class is the
  state \<open>inst\<close>: the connection \<open>db\<close> its methods share with every other
  instance (the free variable of the closures), and its own dictionary \<open>data\<close>
  (the \<open>IterableUserDict\<close> storage). The table \<open>t\<close> is the other captured
  variable and is a parameter of every method. Each method is an \<open>exc\<close>
  computation over \<open>inst\<close>; every \<open>cursor.execute\<close> is \<open>run_stmt\<close>, which
  runs one statement of the \<open>stmt\<close> interface on \<open>db\<close> and raises what
  \<open>Store.execute\<close> raises.
\<close>

record inst =
  db :: conn
  data :: pydict

definition run_stmt :: "stmt \<Rightarrow> (inst, result) exc" where
  "run_stmt st = (\<lambda>s. case execute (db s) st of
                        Inl e \<Rightarrow> (Inl e, s)
                      | Inr (c', r) \<Rightarrow> (Inr r, s\<lparr>db := c'\<rparr>))"

text \<open>\<open>cursor.lastrowid\<close>: the rowid of an INSERT, \<open>None\<close> after any other statement.\<close>

fun lastrowid :: "result \<Rightarrow> pyval" where
  "lastrowid (RRowid r) = PyInt r"
| "lastrowid _ = PyNone"

section \<open>link_table\<close>

text \<open>
  Lines 81--87: set the connection's \<open>row_factory\<close> to \<open>sqlite3.Row\<close>, then
  execute the table's CREATE TABLE IF NOT EXISTS statement.
\<close>

definition link_table :: "table \<Rightarrow> (conn, unit) exc" where
  "link_table t =
     bindE (modifyE (\<lambda>c. c\<lparr>row_factory_row := True\<rparr>)) (\<lambda>_ c.
       case execute_ddl c (create_table_stmt t False) of
         Inl e \<Rightarrow> (Inl e, c)
       | Inr (c', _) \<Rightarrow> (Inr (), c'))"

section \<open>The dictionary interface\<close>

text \<open>\<open>__getitem__\<close> (lines 117--122): the name test, then \<open>self.data[key]\<close>.\<close>

definition getitem :: "table \<Rightarrow> string \<Rightarrow> (inst, pyval) exc" where
  "getitem t key =
     (if \<not> is_field t key then throwE (AttributeError key)
      else (\<lambda>s. case data s key of None \<Rightarrow> (Inl (KeyError key), s) | Some v \<Rightarrow> (Inr v, s)))"

text \<open>
  \<open>self.id\<close>: the property the class has for a field named \<open>id\<close>, that is
  \<open>self['id']\<close>; a table without such a field gives the class no attribute
  \<open>id\<close>.
\<close>

definition self_id :: "table \<Rightarrow> (inst, pyval) exc" where
  "self_id t = (if is_field t ''id'' then getitem t ''id'' else throwE (AttributeError ''id''))"

text \<open>
  \<open>__setitem__\<close> (lines 124--135): the name test; \<open>UPDATE t SET key = ? WHERE
  id = ?\<close> with \<open>(value, self.id)\<close>, whose tuple is built, and so \<open>self.id\<close>
  read, before the statement runs; then \<open>self.data[key] = value\<close>.
\<close>

definition setitem :: "table \<Rightarrow> string \<Rightarrow> pyval \<Rightarrow> (inst, unit) exc" where
  "setitem t key v =
     (if \<not> is_field t key then throwE (AttributeError key)
      else bindE (self_id t) (\<lambda>i.
             bindE (run_stmt (UpdateSet (table_title t) [(key, Param v)] i False)) (\<lambda>_.
               modifyE (\<lambda>s. s\<lparr>data := (data s)(key \<mapsto> v)\<rparr>))))"

text \<open>
  \<open>__delitem__\<close> (lines 137--146): the name test; \<open>UPDATE t SET key = NULL WHERE
  id = ? LIMIT 1\<close>; \<open>fetchone\<close> on the cursor of an UPDATE (which returns
  \<open>None\<close>); then \<open>del self[key]\<close>, which is a call of \<open>__delitem__\<close>
  itself. The recursion has no base case; Python stops it when the interpreter's stack
  is full, with \<open>RuntimeError: maximum recursion depth exceeded\<close>. The first
  argument is the number of nested calls the stack still has room for.
\<close>

primrec delitem :: "nat \<Rightarrow> table \<Rightarrow> string \<Rightarrow> (inst, unit) exc" where
  "delitem 0 t key = throwE (RuntimeError ''maximum recursion depth exceeded'')"
| "delitem (Suc n) t key =
     (if \<not> is_field t key then throwE (AttributeError key)
      else bindE (self_id t) (\<lambda>i.
             bindE (run_stmt (UpdateSet (table_title t) [(key, NullLit)] i True)) (\<lambda>_.
               delitem n t key)))"

section \<open>Synchronisation\<close>

text \<open>
  \<open>read_sync\<close> (lines 172--182): \<open>SELECT * FROM t WHERE id = ? LIMIT 1\<close> with
  \<open>self.id\<close>; when a row comes back, each field's value is copied from it by name
  (\<open>row[f.title]\<close>, \<open>IndexError\<close> for a name the row lacks, \<open>TypeError\<close>
  when the row factory is not \<open>sqlite3.Row\<close> and rows are tuples); when none does,
  nothing changes.
\<close>

definition read_sync :: "table \<Rightarrow> (inst, unit) exc" where
  "read_sync t =
     bindE (self_id t) (\<lambda>i.
       bindE (run_stmt (SelectById (table_title t) i)) (\<lambda>r.
         case r of
           RFetched (Some row) \<Rightarrow>
             (\<lambda>s. if row_factory_row (db s) then
                    forE (table_fields t) (\<lambda>f.
                      case row (title f) of
                        None \<Rightarrow> throwE (IndexError ''No item with that key'')
                      | Some v \<Rightarrow> modifyE (\<lambda>s. s\<lparr>data := (data s)(title f \<mapsto> py_of_sql v)\<rparr>)) s
                  else (Inl (TypeError ''tuple indices must be integers, not str''), s))
         | _ \<Rightarrow> returnE ()))"

text \<open>
  \<open>write_sync\<close> (lines 184--200): \<open>self[f.title]\<close> for every field in order,
  then \<open>self['id']\<close>, then one \<open>UPDATE t SET f1 = ?, ..., fn = ? WHERE id = ?\<close>.
  With no fields, \<open>query[:-1]\<close> cuts the \<open>T\<close> of \<open>SET\<close> and the statement
  is a syntax error, which \<open>Store.exec_update\<close> gives for an empty assignment list.
\<close>

definition write_sync :: "table \<Rightarrow> (inst, unit) exc" where
  "write_sync t =
     bindE (mapE (\<lambda>f. getitem t (title f)) (table_fields t)) (\<lambda>args.
       bindE (getitem t ''id'') (\<lambda>i.
         bindE (run_stmt (UpdateSet (table_title t) (zip (map title (table_fields t)) (map Param args)) i False))
           (\<lambda>_. returnE ())))"

section \<open>Construction\<close>

text \<open>
  \<open>__init__\<close> (lines 149--169): \<open>self.data = {}\<close>; with no id (\<open>id == None\<close>),
  \<open>INSERT INTO t (id) VALUES (NULL)\<close> and \<open>self.data['id'] = c.lastrowid\<close>;
  with an id, \<open>self.data['id'] = id\<close>; then \<open>read_sync\<close>.
\<close>

definition init :: "table \<Rightarrow> pyval \<Rightarrow> (inst, unit) exc" where
  "init t idv =
     bindE (modifyE (\<lambda>s. s\<lparr>data := Map.empty\<rparr>)) (\<lambda>_.
       bindE (if py_eq idv PyNone then
                bindE (run_stmt (InsertNullId (table_title t))) (\<lambda>r.
                  modifyE (\<lambda>s. s\<lparr>data := (data s)(''id'' \<mapsto> lastrowid r)\<rparr>))
              else modifyE (\<lambda>s. s\<lparr>data := (data s)(''id'' \<mapsto> idv)\<rparr>))
         (\<lambda>_. read_sync t))"

text \<open>
  \<open>LinkedClass(id)\<close>: a new instance on the shared connection, initialised; the
  result is the connection afterwards and, unless \<open>__init__\<close> raised, the instance.
\<close>

definition construct :: "table \<Rightarrow> pyval \<Rightarrow> conn \<Rightarrow> (pyexc + inst) \<times> conn" where
  "construct t idv c =
     (case init t idv \<lparr>db = c, data = Map.empty\<rparr> of
        (Inl e, s) \<Rightarrow> (Inl e, db s)
      | (Inr (), s) \<Rightarrow> (Inr s, db s))"

section \<open>The attribute interface\<close>

text \<open>
  Lines 93--113: for every field the class gets a property whose getter, setter and
  deleter are \<open>self[key]\<close>, \<open>self[key] = value\<close> and \<open>del self[key]\<close>.
  The property exists only for declared fields; any other attribute name is not routed
  to the dictionary.
\<close>

definition get_item_inner :: "table \<Rightarrow> string \<Rightarrow> (inst, pyval) exc" where
  "get_item_inner t key = getitem t key"

definition set_item_inner :: "table \<Rightarrow> string \<Rightarrow> pyval \<Rightarrow> (inst, unit) exc" where
  "set_item_inner t key v = setitem t key v"

definition del_item_inner :: "nat \<Rightarrow> table \<Rightarrow> string \<Rightarrow> (inst, unit) exc" where
  "del_item_inner n t key = delitem n t key"

section \<open>Examples\<close>

text \<open>
  The table of the spec's scenario: \<open>items\<close> with \<open>Field('id', int, pk=True)\<close>
  and \<open>Field('name', str)\<close>, and a fresh in-memory connection
  (\<open>sqlite3.connect(":memory:")\<close>) of a SQLite build with or without
  \<open>UPDATE ... LIMIT\<close>.
\<close>

definition items_table :: table where
  "items_table = \<lparr>table_title = ''items'',
     table_fields = [projr (Field ''id'' (Some TInt) PyNone PyNone (PyBool True)), projr (Field2 ''name'' TStr)]\<rparr>"

definition memory_conn :: "bool \<Rightarrow> conn" where
  "memory_conn lim = \<lparr>tables = [], limit_ok = lim, row_factory_row = False\<rparr>"

definition items_conn :: "bool \<Rightarrow> conn" where
  "items_conn lim = snd (link_table items_table (memory_conn lim))"

text \<open>\<open>r = Item()\<close>: a new record of the \<open>items\<close> table.\<close>

definition items_rec :: "bool \<Rightarrow> inst" where
  "items_rec lim = projr (fst (construct items_table PyNone (items_conn lim)))"

section \<open>Facts about the examples\<close>

lemma items_conn_facts:
  "conn_wf (items_conn lim)"
  "map_of (tables (items_conn lim)) (table_title items_table) = Some (the (map_of (tables (items_conn lim)) ''items''))"
  "alias_col (the (map_of (tables (items_conn lim)) ''items'')) = Some (the (alias_col (the (map_of (tables (items_conn lim)) ''items''))))"
  "cname (the (alias_col (the (map_of (tables (items_conn lim)) ''items'')))) = ''id''"
  "list_all (\<lambda>f. find_col (the (map_of (tables (items_conn lim)) ''items'')) (title f) \<noteq> None) (table_fields items_table)"
  "row_factory_row (items_conn lim)"
proof -
  have tt: "table_title items_table = ''items''" by (simp add: items_table_def)
  have g: "conn_wf (items_conn lim) \<and> map_of (tables (items_conn lim)) ''items'' \<noteq> None
     \<and> alias_col (the (map_of (tables (items_conn lim)) ''items'')) \<noteq> None
     \<and> cname (the (alias_col (the (map_of (tables (items_conn lim)) ''items'')))) = ''id''
     \<and> is_field items_table ''id''
     \<and> list_all (\<lambda>f. find_col (the (map_of (tables (items_conn lim)) ''items'')) (title f) \<noteq> None) (table_fields items_table)
     \<and> row_factory_row (items_conn lim)"
    by (cases lim) code_simp+
  then show "conn_wf (items_conn lim)"
    "map_of (tables (items_conn lim)) (table_title items_table) = Some (the (map_of (tables (items_conn lim)) ''items''))"
    "alias_col (the (map_of (tables (items_conn lim)) ''items'')) = Some (the (alias_col (the (map_of (tables (items_conn lim)) ''items''))))"
    "cname (the (alias_col (the (map_of (tables (items_conn lim)) ''items'')))) = ''id''"
    "list_all (\<lambda>f. find_col (the (map_of (tables (items_conn lim)) ''items'')) (title f) \<noteq> None) (table_fields items_table)"
    "row_factory_row (items_conn lim)"
    using tt by auto
qed

lemma items_id_field: "is_field items_table ''id''"
  by code_simp

lemma items_rec_construct:
  "construct items_table PyNone (items_conn lim) = (Inr (items_rec lim), snd (construct items_table PyNone (items_conn lim)))"
proof -
  have "\<not> isl (fst (construct items_table PyNone (items_conn lim)))" by (cases lim) code_simp+
  then show ?thesis unfolding items_rec_def by (metis prod.collapse sum.collapse(2))
qed

section \<open>Properties of the accessors\<close>

lemma self_id_state: "self_id t s = (r, s') \<Longrightarrow> s' = s"
  by (auto simp: self_id_def getitem_def split: if_splits option.splits)

lemma run_stmt_Inl: "run_stmt st s = (Inl e, s') \<Longrightarrow> s' = s"
  by (auto simp: run_stmt_def split: sum.splits prod.splits)

lemma run_stmt_Inr:
  "run_stmt st s = (Inr r, s') \<longleftrightarrow> (\<exists>c'. execute (db s) st = Inr (c', r) \<and> s' = s\<lparr>db := c'\<rparr>)"
  by (auto simp: run_stmt_def split: sum.splits prod.splits)

text \<open>
  C1. Every accessor refuses a name that is not a declared field: \<open>self[k]\<close>,
  \<open>self[k] = v\<close> and \<open>del self[k]\<close> raise \<open>AttributeError(k)\<close> and leave the
  instance and the database as they were.
\<close>

theorem unknown_field_rejected:
  assumes "\<not> is_field t k"
  shows "getitem t k s = (Inl (AttributeError k), s) \<and> setitem t k v s = (Inl (AttributeError k), s)
         \<and> delitem (Suc n) t k s = (Inl (AttributeError k), s)"
  using assms by (simp add: getitem_def setitem_def)

theorem unknown_field_rejected_witness:
  "\<not> is_field items_table ''color'' \<and>
   setitem items_table ''color'' (PyInt 1) \<lparr>db = memory_conn False, data = Map.empty\<rparr>
     = (Inl (AttributeError ''color''), \<lparr>db = memory_conn False, data = Map.empty\<rparr>)"
proof -
  have h: "\<not> is_field items_table ''color''" by code_simp
  show ?thesis using unknown_field_rejected [OF h] h by blast
qed

text \<open>
  C2. A failed \<open>self[k] = v\<close> changes nothing: whether the name test, reading
  \<open>self.id\<close> or the UPDATE raises, the in-memory dictionary and the database are
  those before the call (the store write happens before the in-memory update, and a
  failed statement leaves SQLite unchanged).
\<close>

theorem setitem_failure_unchanged:
  assumes "setitem t k v s = (Inl e, s')"
  shows "s' = s"
proof (cases "is_field t k")
  case False
  with assms show ?thesis by (simp add: setitem_def)
next
  case True
  obtain r s1 where si: "self_id t s = (r, s1)" by fastforce
  then have s1: "s1 = s" by (rule self_id_state)
  show ?thesis
  proof (cases r)
    case (Inl e')
    with assms True si s1 show ?thesis by (simp add: setitem_def bindE_def)
  next
    case (Inr i)
    with assms True si s1 show ?thesis
      by (auto simp: setitem_def bindE_def run_stmt_def split: sum.splits prod.splits)
  qed
qed

theorem setitem_failure_unchanged_witness:
  "fst (setitem items_table ''name'' (PyStr ''widget'') \<lparr>db = memory_conn False, data = Map.empty\<rparr>)
     = Inl (KeyError ''id'')
   \<and> snd (setitem items_table ''name'' (PyStr ''widget'') \<lparr>db = memory_conn False, data = Map.empty\<rparr>)
     = \<lparr>db = memory_conn False, data = Map.empty\<rparr>"
proof -
  have h: "fst (setitem items_table ''name'' (PyStr ''widget'') \<lparr>db = memory_conn False, data = Map.empty\<rparr>)
     = Inl (KeyError ''id'')" by code_simp
  then have "setitem items_table ''name'' (PyStr ''widget'') \<lparr>db = memory_conn False, data = Map.empty\<rparr>
     = (Inl (KeyError ''id''), snd (setitem items_table ''name'' (PyStr ''widget'') \<lparr>db = memory_conn False, data = Map.empty\<rparr>))"
    by (metis prod.collapse)
  then show ?thesis using setitem_failure_unchanged h by blast
qed

text \<open>
  C3. \<open>del self[k]\<close> never returns normally: \<open>__delitem__\<close> ends by calling
  itself, so every call raises, whatever room the stack has.
\<close>

theorem delitem_never_returns: "\<exists>e s'. delitem n t k s = (Inl e, s')"
proof (induction n arbitrary: s)
  case 0
  show ?case by simp
next
  case (Suc n)
  show ?case
    by (auto simp: bindE_def split: prod.splits sum.splits intro: Suc.IH)
qed

section \<open>Write-through\<close>

text \<open>
  What \<open>read_sync\<close> leaves in \<open>data\<close> when a row comes back: the row's value
  of every field, converted to Python.
\<close>

definition load_fields :: "field list \<Rightarrow> sqlrow \<Rightarrow> pydict \<Rightarrow> pydict" where
  "load_fields fs row d = foldl (\<lambda>d f. d(title f \<mapsto> py_of_sql (the (row (title f))))) d fs"

lemma load_fields_other: "k \<notin> title ` set fs \<Longrightarrow> load_fields fs row d k = d k"
  by (induction fs arbitrary: d) (auto simp: load_fields_def)

lemma load_fields_at: "k \<in> title ` set fs \<Longrightarrow> row k = Some x \<Longrightarrow> load_fields fs row d k = Some (py_of_sql x)"
proof (induction fs arbitrary: d)
  case (Cons f fs)
  show ?case
  proof (cases "k \<in> title ` set fs")
    case True
    with Cons.IH Cons.prems(2) show ?thesis by (simp add: load_fields_def)
  next
    case False
    with Cons.prems have fk: "title f = k" by auto
    have "load_fields (f # fs) row d = load_fields fs row (d(title f \<mapsto> py_of_sql (the (row (title f)))))"
      by (simp add: load_fields_def)
    with False fk Cons.prems(2) show ?thesis by (simp add: load_fields_other)
  qed
qed simp

lemma forE_load:
  "list_all (\<lambda>f. row (title f) \<noteq> None) fs \<Longrightarrow>
   forE fs (\<lambda>f. case row (title f) of
                  None \<Rightarrow> throwE (IndexError ''No item with that key'')
                | Some v \<Rightarrow> modifyE (\<lambda>s. s\<lparr>data := (data s)(title f \<mapsto> py_of_sql v)\<rparr>)) s
   = (Inr (), s\<lparr>data := load_fields fs row (data s)\<rparr>)"
  by (induction fs arbitrary: s) (auto simp: load_fields_def bindE_def)

lemma self_id_Inr: "self_id t s = (Inr i, s') \<longleftrightarrow> is_field t ''id'' \<and> data s ''id'' = Some i \<and> s' = s"
  by (auto simp: self_id_def getitem_def split: option.splits)

lemma read_sync_found:
  assumes "self_id t s = (Inr i, s)" and "exec_select (db s) (table_title t) i = Inr (Some row)"
    and "row_factory_row (db s)" and "list_all (\<lambda>f. row (title f) \<noteq> None) (table_fields t)"
  shows "read_sync t s = (Inr (), s\<lparr>data := load_fields (table_fields t) row (data s)\<rparr>)"
  using assms by (simp add: read_sync_def bindE_def run_stmt_def forE_load)

lemma read_sync_missing:
  assumes "self_id t s = (Inr i, s)" and "exec_select (db s) (table_title t) i = Inr None"
  shows "read_sync t s = (Inr (), s)"
  using assms by (simp add: read_sync_def bindE_def run_stmt_def)

lemma setitem_Inr:
  assumes "setitem t k v s = (Inr u, s1)"
  shows "is_field t k \<and> (\<exists>i c'. self_id t s = (Inr i, s)
           \<and> exec_update (db s) (table_title t) [(k, Param v)] i False = Inr c'
           \<and> s1 = s\<lparr>db := c', data := (data s)(k \<mapsto> v)\<rparr>)"
proof -
  have f: "is_field t k" using assms by (auto simp: setitem_def split: if_splits)
  obtain r s0 where si: "self_id t s = (r, s0)" by fastforce
  then have s0: "s0 = s" by (rule self_id_state)
  show ?thesis
  proof (cases r)
    case (Inl e)
    with assms f si s0 show ?thesis by (simp add: setitem_def bindE_def)
  next
    case (Inr i)
    with assms f si s0 show ?thesis
      by (auto simp: setitem_def bindE_def run_stmt_def bindR_eq_Inr split: sum.splits prod.splits)
  qed
qed

lemma apply_affinity_null: "apply_affinity a x = SNull \<longleftrightarrow> x = SNull"
  by (cases a; cases x) (auto split: option.splits)

lemma bind_param_null: "bind_param v = Inr SNull \<longleftrightarrow> v = PyNone"
  by (cases v) auto

lemma bind_all_single: "bind_all [Param v] = Inr vs \<longleftrightarrow> (\<exists>sv. bind_param v = Inr sv \<and> vs = [sv])"
  by (auto simp: bind_expr_def split: sum.splits)

lemma fields_in_row:
  assumes "row_complete tb ir" and "list_all (\<lambda>f. find_col tb (title f) \<noteq> None) fs"
  shows "list_all (\<lambda>f. snd ir (title f) \<noteq> None) fs"
  using assms
  by (fastforce simp: row_complete_def list_all_iff find_col_def find_None_iff)

lemma items_rec_facts:
  "conn_wf (db (items_rec lim))"
  "map_of (tables (db (items_rec lim))) (table_title items_table) = Some (the (map_of (tables (db (items_rec lim))) ''items''))"
  "list_all (\<lambda>f. find_col (the (map_of (tables (db (items_rec lim))) ''items'')) (title f) \<noteq> None) (table_fields items_table)"
  "row_factory_row (db (items_rec lim))"
  "self_id items_table (items_rec lim) = (Inr (PyInt 1), items_rec lim)"
  "\<exists>r0. exec_select (db (items_rec lim)) (table_title items_table) (PyInt 1) = Inr (Some r0)"
proof -
  have tt: "table_title items_table = ''items''" by (simp add: items_table_def)
  have g: "conn_wf (db (items_rec lim)) \<and> map_of (tables (db (items_rec lim))) ''items'' \<noteq> None
     \<and> list_all (\<lambda>f. find_col (the (map_of (tables (db (items_rec lim))) ''items'')) (title f) \<noteq> None) (table_fields items_table)
     \<and> row_factory_row (db (items_rec lim)) \<and> is_field items_table ''id'' \<and> data (items_rec lim) ''id'' = Some (PyInt 1)
     \<and> (case exec_select (db (items_rec lim)) ''items'' (PyInt 1) of Inr (Some _) \<Rightarrow> True | _ \<Rightarrow> False)"
    by (cases lim) code_simp+
  then show "conn_wf (db (items_rec lim))"
    "map_of (tables (db (items_rec lim))) (table_title items_table) = Some (the (map_of (tables (db (items_rec lim))) ''items''))"
    "list_all (\<lambda>f. find_col (the (map_of (tables (db (items_rec lim))) ''items'')) (title f) \<noteq> None) (table_fields items_table)"
    "row_factory_row (db (items_rec lim))"
    "self_id items_table (items_rec lim) = (Inr (PyInt 1), items_rec lim)"
    "\<exists>r0. exec_select (db (items_rec lim)) (table_title items_table) (PyInt 1) = Inr (Some r0)"
    using tt by (auto simp: self_id_Inr split: sum.splits option.splits)
qed

lemma setitem_read_back:
  assumes wf: "conn_wf (db s)" and tb: "map_of (tables (db s)) (table_title t) = Some tb"
    and cols: "list_all (\<lambda>f. find_col tb (title f) \<noteq> None) (table_fields t)"
    and rf: "row_factory_row (db s)"
    and sid: "self_id t s = (Inr i, s)" and found: "exec_select (db s) (table_title t) i = Inr (Some r0)"
    and set: "setitem t k v s = (Inr (), s1)"
  shows "getitem t k s1 = (Inr v, s1)
         \<and> (\<exists>sv s2. bind_param v = Inr sv \<and> read_sync t s1 = (Inr (), s2)
                   \<and> data s2 k = Some (py_of_sql (apply_affinity (aff_of tb k) sv)))"
proof -
  from setitem_Inr [OF set] sid obtain c' where fk: "is_field t k"
    and up: "exec_update (db s) (table_title t) [(k, Param v)] i False = Inr c'"
    and s1: "s1 = s\<lparr>db := c', data := (data s)(k \<mapsto> v)\<rparr>"
    by auto
  from exec_update_Inr [OF up] tb obtain vs wv rs' where
    ba: "bind_all [Param v] = Inr vs" and bw: "bind_param i = Inr wv"
    and ur0: "update_rows (table_title t) tb (zip [k] vs) wv False (rows tb) = Inr rs'"
    and c': "c' = set_table (db s) (table_title t) (tb\<lparr>rows := rs'\<rparr>)"
    and idc: "find_col tb ''id'' \<noteq> None"
    by auto
  from ba obtain sv where bv: "bind_param v = Inr sv" and vs: "vs = [sv]"
    unfolding bind_all_single by blast
  from ur0 vs have ur: "update_rows (table_title t) tb [(k, sv)] wv False (rows tb) = Inr rs'"
    by simp
  have "find (row_matches tb wv) (rows tb) \<noteq> None" using found tb bw
    by (cases "find (row_matches tb wv) (rows tb)") (auto simp: exec_select_Inr)
  then obtain ir0 where "find (row_matches tb wv) (rows tb) = Some ir0" by auto
  then have ir0: "ir0 \<in> set (rows tb)" "row_matches tb wv ir0" by (auto dest: find_Some_mem)
  have wf': "tbl_wf (tb\<lparr>rows := rs'\<rparr>)"
    using conn_wf_lookup [OF exec_update_wf [OF wf up], of "table_title t"] c' by simp
  let ?i1 = "if k = ''id'' then v else i"
  let ?w1 = "if k = ''id'' then sv else wv"
  from sid have sid1: "self_id t s1 = (Inr ?i1, s1)" by (auto simp: self_id_Inr s1)
  have b1: "bind_param ?i1 = Inr ?w1" using bv bw by simp
  have sel: "exec_select (db s1) (table_title t) ?i1 = Inr (map_option snd (find (row_matches tb ?w1) rs'))"
    using b1 idc by (simp add: exec_select_Inr s1 c')
  have get: "getitem t k s1 = (Inr v, s1)" using fk by (simp add: getitem_def s1)
  show ?thesis
  proof (cases "find (row_matches tb ?w1) rs'")
    case (Some ir1)
    then have m1: "ir1 \<in> set rs'" "row_matches tb ?w1 ir1" by (auto dest: find_Some_mem)
    with wf' have "row_complete tb ir1" by (auto simp: tbl_wf_def list_all_iff)
    then have allf: "list_all (\<lambda>f. snd ir1 (title f) \<noteq> None) (table_fields t)"
      using cols by (rule fields_in_row)
    have rs: "read_sync t s1 = (Inr (), s1\<lparr>data := load_fields (table_fields t) (snd ir1) (data s1)\<rparr>)"
      using read_sync_found [OF sid1 _ _ allf] sel Some rf by (simp add: s1 c')
    have kv: "snd ir1 k = Some (apply_affinity (aff_of tb k) sv)"
    proof (cases "k = ''id''")
      case True
      with m1 show ?thesis by (auto simp: row_matches_def split: option.splits)
    next
      case False
      with m1 show ?thesis using update_rows_set_value [OF ur False] by auto
    qed
    have "k \<in> title ` set (table_fields t)" using fk by (simp add: is_field_iff)
    with kv rs get bv show ?thesis by (auto simp: load_fields_at)
  next
    case None
    from update_rows_match_kept [OF ur ir0] None
    have kid: "k = ''id''" and nul: "apply_affinity (aff_of tb ''id'') sv = SNull"
      by (auto simp: find_None_iff)
    from nul have "sv = SNull" by (simp add: apply_affinity_null)
    with bv have "v = PyNone" by (simp add: bind_param_null)
    moreover have "read_sync t s1 = (Inr (), s1)"
      using read_sync_missing [OF sid1] sel None by simp
    ultimately show ?thesis using get bv \<open>sv = SNull\<close> kid by (simp add: s1)
  qed
qed


text \<open>
  C4. Write-through durability. On a record whose row exists, after a successful
  \<open>self[k] = v\<close>, \<open>self[k]\<close> returns \<open>v\<close>, and a following
  \<open>read_sync()\<close> succeeds and leaves in \<open>k\<close> what SQLite stored: the bound
  value under the column's type affinity, read back as a Python value. (That is \<open>v\<close>
  itself when \<open>v\<close> already has the column's type; see the counterexample for a
  number in a TEXT column.)
\<close>

theorem setitem_durable:
  assumes wf: "conn_wf (db s)" and tb: "map_of (tables (db s)) (table_title t) = Some tb"
    and cols: "list_all (\<lambda>f. find_col tb (title f) \<noteq> None) (table_fields t)"
    and rf: "row_factory_row (db s)"
    and sid: "self_id t s = (Inr i, s)" and found: "exec_select (db s) (table_title t) i = Inr (Some r0)"
    and set: "setitem t k v s = (Inr (), s1)"
  shows "getitem t k s1 = (Inr v, s1)
         \<and> (\<exists>sv s2. bind_param v = Inr sv \<and> read_sync t s1 = (Inr (), s2)
                   \<and> data s2 k = Some (py_of_sql (apply_affinity (aff_of tb k) sv)))"
  using assms by (rule setitem_read_back)

theorem setitem_durable_witness:
  "conn_wf (db (items_rec False)) \<and> map_of (tables (db (items_rec False))) (table_title items_table) = Some (the (map_of (tables (db (items_rec False))) ''items''))
   \<and> list_all (\<lambda>f. find_col (the (map_of (tables (db (items_rec False))) ''items'')) (title f) \<noteq> None) (table_fields items_table)
   \<and> row_factory_row (db (items_rec False))
   \<and> self_id items_table (items_rec False) = (Inr (PyInt 1), (items_rec False))
   \<and> (\<exists>r0. exec_select (db (items_rec False)) (table_title items_table) (PyInt 1) = Inr (Some r0))
   \<and> setitem items_table ''name'' (PyStr ''widget'') (items_rec False)
       = (Inr (), snd (setitem items_table ''name'' (PyStr ''widget'') (items_rec False)))
   \<and> (\<exists>sv s2. bind_param (PyStr ''widget'') = Inr sv
        \<and> read_sync items_table (snd (setitem items_table ''name'' (PyStr ''widget'') (items_rec False))) = (Inr (), s2)
        \<and> data s2 ''name'' = Some (py_of_sql (apply_affinity
               (aff_of (the (map_of (tables (db (items_rec False))) ''items'')) ''name'') sv)))"
proof -
  note h = items_rec_facts [where lim = False]
  obtain r0 where r0: "exec_select (db (items_rec False)) (table_title items_table) (PyInt 1) = Inr (Some r0)"
    using h(6) by blast
  have "fst (setitem items_table ''name'' (PyStr ''widget'') (items_rec False)) = Inr ()" by code_simp
  then have h7: "setitem items_table ''name'' (PyStr ''widget'') (items_rec False)
       = (Inr (), snd (setitem items_table ''name'' (PyStr ''widget'') (items_rec False)))"
    by (metis prod.collapse)
  from setitem_durable [OF h(1-5) r0 h7] h h7 show ?thesis by blast
qed

section \<open>What del does\<close>

lemma delitem_repeat:
  assumes "is_field t k" and "self_id t s = (Inr i, s)"
    and "exec_update (db s) (table_title t) [(k, NullLit)] i True = Inr (db s)"
  shows "delitem n t k s = (Inl (RuntimeError ''maximum recursion depth exceeded''), s)"
  using assms by (induction n) (simp_all add: bindE_def run_stmt_def)

text \<open>
  C5. In SQLite's default build, which has no \<open>UPDATE ... LIMIT\<close>, \<open>del self[k]\<close>
  on a declared field of a record with an id raises \<open>OperationalError\<close> (a syntax
  error near LIMIT) and changes nothing: the key stays in the in-memory mapping and the
  column keeps its value.
\<close>

theorem delitem_default_build:
  assumes "is_field t k" and "self_id t s = (Inr i, s)" and "\<not> limit_ok (db s)"
  shows "delitem (Suc n) t k s = (Inl (OperationalError ''near \"LIMIT\": syntax error''), s)"
  using assms by (simp add: bindE_def run_stmt_def exec_update_def)

theorem delitem_default_build_witness:
  "is_field items_table ''name'' \<and> self_id items_table (items_rec False) = (Inr (PyInt 1), (items_rec False))
   \<and> \<not> limit_ok (db (items_rec False))
   \<and> delitem 1000 items_table ''name'' (items_rec False)
       = (Inl (OperationalError ''near \"LIMIT\": syntax error''), (items_rec False))"
proof -
  have h: "is_field items_table ''name'' \<and> is_field items_table ''id''
           \<and> data (items_rec False) ''id'' = Some (PyInt 1) \<and> \<not> limit_ok (db (items_rec False))"
    by code_simp
  then have s: "self_id items_table (items_rec False) = (Inr (PyInt 1), (items_rec False))"
    by (simp add: self_id_Inr)
  have "delitem (Suc 999) items_table ''name'' (items_rec False)
       = (Inl (OperationalError ''near \"LIMIT\": syntax error''), (items_rec False))"
    using delitem_default_build [of items_table "''name''" "(items_rec False)"] h s by blast
  with h s show ?thesis by simp
qed

text \<open>
  C6. In a build that accepts \<open>UPDATE ... LIMIT\<close>, \<open>del self[k]\<close> (for a field
  other than \<open>id\<close>) sets the column to NULL in the database, then repeats the same
  UPDATE in every nested call until the stack is exhausted, and raises
  \<open>RuntimeError\<close>: the database is left with the NULL while the key is still in
  the in-memory mapping with its old value.
\<close>

theorem delitem_limit_build:
  assumes "is_field t k" and "k \<noteq> ''id''" and "self_id t s = (Inr i, s)"
    and "exec_update (db s) (table_title t) [(k, NullLit)] i True = Inr c'"
  shows "delitem (Suc n) t k s = (Inl (RuntimeError ''maximum recursion depth exceeded''), s\<lparr>db := c'\<rparr>)"
proof -
  have rep: "delitem n t k (s\<lparr>db := c'\<rparr>) = (Inl (RuntimeError ''maximum recursion depth exceeded''), s\<lparr>db := c'\<rparr>)"
  proof (rule delitem_repeat)
    show "is_field t k" by fact
    show "self_id t (s\<lparr>db := c'\<rparr>) = (Inr i, s\<lparr>db := c'\<rparr>)"
      using assms(3) by (simp add: self_id_Inr)
    show "exec_update (db (s\<lparr>db := c'\<rparr>)) (table_title t) [(k, NullLit)] i True = Inr (db (s\<lparr>db := c'\<rparr>))"
      using exec_update_null_idem [OF assms(4,2)] by simp
  qed
  with assms show ?thesis by (simp add: bindE_def run_stmt_def)
qed

theorem delitem_limit_build_witness:
  "is_field items_table ''name'' \<and> ''name'' \<noteq> ''id''
   \<and> self_id items_table (items_rec True) = (Inr (PyInt 1), items_rec True)
   \<and> exec_update (db (items_rec True)) ''items'' [(''name'', NullLit)] (PyInt 1) True
       = Inr (projr (exec_update (db (items_rec True)) ''items'' [(''name'', NullLit)] (PyInt 1) True))
   \<and> delitem 1000 items_table ''name'' (items_rec True)
       = (Inl (RuntimeError ''maximum recursion depth exceeded''),
          (items_rec True)\<lparr>db := projr (exec_update (db (items_rec True)) ''items'' [(''name'', NullLit)] (PyInt 1) True)\<rparr>)"
proof -
  have h: "is_field items_table ''name'' \<and> is_field items_table ''id''
           \<and> data (items_rec True) ''id'' = Some (PyInt 1)"
    by code_simp
  then have s: "self_id items_table (items_rec True) = (Inr (PyInt 1), items_rec True)"
    by (simp add: self_id_Inr)
  have "\<not> isl (exec_update (db (items_rec True)) ''items'' [(''name'', NullLit)] (PyInt 1) True)"
    by code_simp
  then have u: "exec_update (db (items_rec True)) ''items'' [(''name'', NullLit)] (PyInt 1) True
       = Inr (projr (exec_update (db (items_rec True)) ''items'' [(''name'', NullLit)] (PyInt 1) True))"
    by (cases "exec_update (db (items_rec True)) ''items'' [(''name'', NullLit)] (PyInt 1) True") auto
  have tt: "table_title items_table = ''items''" by (simp add: items_table_def)
  have "delitem (Suc 999) items_table ''name'' (items_rec True)
       = (Inl (RuntimeError ''maximum recursion depth exceeded''),
          (items_rec True)\<lparr>db := projr (exec_update (db (items_rec True)) ''items'' [(''name'', NullLit)] (PyInt 1) True)\<rparr>)"
  proof (rule delitem_limit_build [OF _ _ s])
    show "exec_update (db (items_rec True)) (table_title items_table) [(''name'', NullLit)] (PyInt 1) True
       = Inr (projr (exec_update (db (items_rec True)) ''items'' [(''name'', NullLit)] (PyInt 1) True))"
      using u tt by simp
  qed (use h in simp_all)
  with h s u show ?thesis by simp
qed

end
