(* ===== verification/SqlLex.thy ===== *)
theory SqlLex
  imports SqlDdl
begin

text \<open>
  Lexical facts about the tokenizer of \<open>SqlDdl\<close>, used to compute the tokens of the
  statement \<open>Table.create_table_stmt\<close> renders: a text that ends in a delimiter
  (white space, a parenthesis or a comma) tokenizes independently of what follows
  (\<open>tokenize_append\<close>), and identifiers, digit strings and quoted strings give one
  token each. \<open>tok_ok a ts\<close> says that \<open>a\<close> is empty or ends in a delimiter
  and tokenizes to \<open>ts\<close>; it composes by concatenation (\<open>tok_ok_append\<close>).
\<close>

definition is_delim :: "char \<Rightarrow> bool" where
  "is_delim c \<longleftrightarrow> is_sql_space c \<or> c = CHR ''('' \<or> c = CHR '')'' \<or> c = CHR '',''"

definition is_ident :: "string \<Rightarrow> bool" where
  "is_ident w \<longleftrightarrow> w \<noteq> [] \<and> is_id_start (hd w) \<and> list_all is_id_char (tl w)"

definition tok_ok :: "string \<Rightarrow> token list \<Rightarrow> bool" where
  "tok_ok a ts \<longleftrightarrow> (a = [] \<and> ts = []) \<or> (a \<noteq> [] \<and> is_delim (last a) \<and> tokenize a = Some ts)"

lemma delim_not_id: "is_delim c \<Longrightarrow> \<not> is_id_char c"
  by (auto simp: is_delim_def is_id_char_def is_id_start_def is_sql_space_def is_dec_digit_def)

lemma delim_not_quote: "is_delim c \<Longrightarrow> c \<noteq> CHR 0x27 \<and> c \<noteq> CHR 0x22"
  by (auto simp: is_delim_def is_sql_space_def)

lemma scan_quoted_suffix: "scan_quoted q s = Some (v, r) \<Longrightarrow> \<exists>p. s = p @ r \<and> (r = [] \<longrightarrow> s \<noteq> [] \<and> last s = q)"
proof (induction q s arbitrary: v rule: scan_quoted.induct)
  case (2 q c cs)
  then show ?case
    by (auto split: if_splits list.splits) fastforce+
qed simp

lemma scan_quoted_append:
  "scan_quoted q s = Some (v, r) \<Longrightarrow> r \<noteq> [] \<Longrightarrow> scan_quoted q (s @ b) = Some (v, r @ b)"
proof (induction q s arbitrary: v rule: scan_quoted.induct)
  case (2 q c cs)
  then show ?case
    by (auto split: if_splits list.splits)
qed simp


lemma id_start_facts: "is_id_start c \<Longrightarrow> \<not> is_sql_space c \<and> c \<noteq> CHR ''('' \<and> c \<noteq> CHR '')'' \<and> c \<noteq> CHR '','' \<and> c \<noteq> CHR ''-'' \<and> c \<noteq> CHR ''+'' \<and> c \<noteq> CHR 0x27 \<and> c \<noteq> CHR 0x22"
  unfolding is_id_start_def is_sql_space_def by auto

lemma digit_facts: "is_dec_digit c \<Longrightarrow> \<not> is_sql_space c \<and> c \<noteq> CHR ''('' \<and> c \<noteq> CHR '')'' \<and> c \<noteq> CHR '','' \<and> c \<noteq> CHR ''-'' \<and> c \<noteq> CHR ''+'' \<and> c \<noteq> CHR 0x27 \<and> c \<noteq> CHR 0x22 \<and> \<not> is_id_start c"
  unfolding is_id_start_def is_sql_space_def is_dec_digit_def by auto
lemma tokenize_ident_step:
  "is_id_start c \<Longrightarrow>
   tokenize (c # x) = map_option (Cons (TkId (c # takeWhile is_id_char x))) (tokenize (dropWhile is_id_char x))"
  using id_start_facts [of c] by (simp only: tokenize.simps(2) if_False if_True simp_thms)

lemma tokenize_digit_step:
  "is_dec_digit c \<Longrightarrow>
   tokenize (c # x) = (let r = dropWhile is_dec_digit x in
         if r \<noteq> [] \<and> is_id_char (hd r) then None
         else map_option (Cons (TkNum (c # takeWhile is_dec_digit x))) (tokenize r))"
  using digit_facts [of c] by (simp only: tokenize.simps(2) if_False if_True simp_thms)

lemma tokenize_punct_chars:
  "tokenize (CHR ''('' # x) = map_option (Cons TkLParen) (tokenize x)"
  "tokenize (CHR '')'' # x) = map_option (Cons TkRParen) (tokenize x)"
  "tokenize (CHR '','' # x) = map_option (Cons TkComma) (tokenize x)"
  "tokenize (CHR ''-'' # x) = map_option (Cons TkMinus) (tokenize x)"
  "tokenize (CHR ''+'' # x) = map_option (Cons TkPlus) (tokenize x)"
  by (simp_all only: tokenize.simps(2) is_sql_space_def) simp_all

lemma tokenize_quote_chars:
  "tokenize (CHR 0x27 # x) = (case scan_quoted CHR 0x27 x of None \<Rightarrow> None | Some (v, r) \<Rightarrow> map_option (Cons (TkStr v)) (tokenize r))"
  "tokenize (CHR 0x22 # x) = (case scan_quoted CHR 0x22 x of None \<Rightarrow> None | Some (v, r) \<Rightarrow> map_option (Cons (TkQId v)) (tokenize r))"
  by (simp_all only: tokenize.simps(2) is_sql_space_def) simp_all

lemma tokenize_punct:
  "c = CHR ''('' \<or> c = CHR '')'' \<or> c = CHR '','' \<or> c = CHR ''-'' \<or> c = CHR ''+'' \<Longrightarrow>
   \<exists>tk. \<forall>x. tokenize (c # x) = map_option (Cons tk) (tokenize x)"
  using tokenize_punct_chars by (elim disjE) blast+

lemma tokenize_quote:
  "c = CHR 0x27 \<or> c = CHR 0x22 \<Longrightarrow>
   \<exists>k. \<forall>x. tokenize (c # x) = (case scan_quoted c x of None \<Rightarrow> None | Some (v, r) \<Rightarrow> map_option (Cons (k v)) (tokenize r))"
  using tokenize_quote_chars by (elim disjE) blast+

lemma tokenize_space: "is_sql_space c \<Longrightarrow> tokenize (c # x) = tokenize x"
  by (simp only: tokenize.simps(2) if_True)

lemma tokenize_other:
  "\<not> is_sql_space c \<Longrightarrow> \<not> (c = CHR ''('' \<or> c = CHR '')'' \<or> c = CHR '','' \<or> c = CHR ''-'' \<or> c = CHR ''+'') \<Longrightarrow>
   \<not> (c = CHR 0x27 \<or> c = CHR 0x22) \<Longrightarrow> \<not> is_id_start c \<Longrightarrow> \<not> is_dec_digit c \<Longrightarrow> tokenize (c # x) = None"
  by (simp only: tokenize.simps(2) if_False de_Morgan_disj simp_thms)

declare tokenize.simps(2) [simp del]

lemma tokenize_append:
  "a \<noteq> [] \<Longrightarrow> is_delim (last a) \<Longrightarrow> tokenize a = Some ts \<Longrightarrow> tokenize (a @ b) = map_option ((@) ts) (tokenize b)"
proof (induction "length a" arbitrary: a ts rule: less_induct)
  case less
  then obtain c cs where a: "a = c # cs" by (cases a) auto
  have lst: "cs \<noteq> [] \<Longrightarrow> is_delim (last cs)" using less.prems(2) a by simp
  have IH: "\<And>x ts'. length x < length a \<Longrightarrow> x \<noteq> [] \<Longrightarrow> is_delim (last x) \<Longrightarrow> tokenize x = Some ts'
              \<Longrightarrow> tokenize (x @ b) = map_option ((@) ts') (tokenize b)"
    using less.hyps by blast
  have single: "cs = [] \<Longrightarrow> is_delim c" using less.prems(2) a by simp
  have tk: "tokenize (c # cs) = Some ts" using less.prems(3) a by simp
  consider (sp) "is_sql_space c" | (punct) "c = CHR ''('' \<or> c = CHR '')'' \<or> c = CHR '','' \<or> c = CHR ''-'' \<or> c = CHR ''+''"
    | (quote) "c = CHR 0x27 \<or> c = CHR 0x22" | (ident) "is_id_start c" | (digit) "is_dec_digit c"
    | (other) "\<not> is_sql_space c" "\<not> (c = CHR ''('' \<or> c = CHR '')'' \<or> c = CHR '','' \<or> c = CHR ''-'' \<or> c = CHR ''+'')"
       "\<not> (c = CHR 0x27 \<or> c = CHR 0x22)" "\<not> is_id_start c" "\<not> is_dec_digit c"
    by blast
  then show ?case
  proof cases
    case sp
    then show ?thesis using tk a IH [of cs] lst by (cases "cs = []") (auto simp: tokenize_space)
  next
    case punct
    from tokenize_punct [OF punct] obtain k where k0: "\<forall>x. tokenize (c # x) = map_option (Cons k) (tokenize x)" ..
    note k = k0 [rule_format]
    show ?thesis
    proof (cases "cs = []")
      case True
      with tk have "ts = [k]" by (simp add: k)
      with True a show ?thesis by (simp add: k)
    next
      case False
      from tk obtain ts' where tc: "tokenize cs = Some ts'" and ts: "ts = k # ts'" by (auto simp: k)
      from IH [of cs] lst False tc a ts show ?thesis by (simp add: k)
    qed
  next
    case quote
    from tokenize_quote [OF quote] obtain k where k0: "\<forall>x. tokenize (c # x) = (case scan_quoted c x of None \<Rightarrow> None
        | Some (v, r) \<Rightarrow> map_option (Cons (k v)) (tokenize r))" ..
    note k = k0 [rule_format]
    from tk obtain v r ts' where sq: "scan_quoted c cs = Some (v, r)" and tr: "tokenize r = Some ts'"
      and ts: "ts = k v # ts'"
      by (auto simp: k split: option.splits)
    from scan_quoted_suffix [OF sq] obtain p where cs: "cs = p @ r" and rq: "r = [] \<longrightarrow> cs \<noteq> [] \<and> last cs = c"
      by blast
    have rne: "r \<noteq> []" using rq lst delim_not_quote quote by fastforce
    have lr: "is_delim (last r)" using lst cs rne by auto
    have "length r < length a" using a cs by simp
    from IH [OF this rne lr tr] scan_quoted_append [OF sq rne] a ts
    show ?thesis by (simp add: k)
  next
    case ident
    have csne: "cs \<noteq> []" using single ident delim_not_id [of c] by (auto simp: is_id_char_def)
    then have nid: "\<not> is_id_char (last cs)" using lst delim_not_id by blast
    have inset: "last cs \<in> set cs" using csne by simp
    let ?r = "dropWhile is_id_char cs"
    from dropWhile_last [where P = is_id_char, OF csne nid] have rne: "?r \<noteq> []" and lr: "is_delim (last ?r)"
      using lst csne by auto
    obtain ts' where tr: "tokenize ?r = Some ts'" and ts: "ts = TkId (c # takeWhile is_id_char cs) # ts'"
      using tk by (auto simp: tokenize_ident_step [OF ident])
    have "length ?r < length a" using a by (simp add: le_imp_less_Suc length_dropWhile_le)
    from IH [OF this rne lr tr] takeWhile_append1 [where P = is_id_char, OF inset nid] dropWhile_append1 [where P = is_id_char, OF inset nid] a ts
    show ?thesis by (simp add: tokenize_ident_step [OF ident])
  next
    case digit
    have csne: "cs \<noteq> []" using single digit by (auto simp: is_delim_def is_sql_space_def is_dec_digit_def)
    then have nid: "\<not> is_dec_digit (last cs)" using lst delim_not_id by (auto simp: is_id_char_def)
    have inset: "last cs \<in> set cs" using csne by simp
    let ?r = "dropWhile is_dec_digit cs"
    from dropWhile_last [where P = is_dec_digit, OF csne nid] have rne: "?r \<noteq> []" and lr: "is_delim (last ?r)"
      using lst csne by auto
    obtain ts' where hd: "\<not> is_id_char (hd ?r)" and tr: "tokenize ?r = Some ts'"
      and ts: "ts = TkNum (c # takeWhile is_dec_digit cs) # ts'"
      using tk rne by (auto simp: tokenize_digit_step [OF digit] Let_def split: if_splits)
    have "length ?r < length a" using a by (simp add: le_imp_less_Suc length_dropWhile_le)
    from IH [OF this rne lr tr] takeWhile_append1 [where P = is_dec_digit, OF inset nid] dropWhile_append1 [where P = is_dec_digit, OF inset nid] a ts hd rne
    show ?thesis by (simp add: tokenize_digit_step [OF digit] Let_def)
  next
    case other
    with tk show ?thesis by (simp add: tokenize_other)
  qed
qed

declare tokenize.simps(2) [simp]

lemma tok_ok_append: "tok_ok a ts \<Longrightarrow> tok_ok b ts' \<Longrightarrow> tok_ok (a @ b) (ts @ ts')"
  unfolding tok_ok_def by (auto simp: tokenize_append)

lemma tok_ok_tokenize: "tok_ok a ts \<Longrightarrow> tokenize a = Some ts"
  by (auto simp: tok_ok_def)

lemma tokenize_ident:
  assumes "is_ident w" and "\<not> is_id_char d"
  shows "tokenize (w @ d # r) = map_option (Cons (TkId w)) (tokenize (d # r))"
proof -
  from assms(1) obtain c cs where w: "w = c # cs" and st: "is_id_start c" and ids: "list_all is_id_char cs"
    by (cases w) (auto simp: is_ident_def)
  have "takeWhile is_id_char (cs @ d # r) = cs" "dropWhile is_id_char (cs @ d # r) = d # r"
    using ids assms(2) by (induction cs) auto
  with w st show ?thesis by (simp del: tokenize.simps add: tokenize_ident_step)
qed

lemma tokenize_digits:
  assumes "ds \<noteq> []" and "list_all is_dec_digit ds" and "\<not> is_id_char d"
  shows "tokenize (ds @ d # r) = map_option (Cons (TkNum ds)) (tokenize (d # r))"
proof -
  from assms(1,2) obtain c cs where w: "ds = c # cs" and st: "is_dec_digit c" and ids: "list_all is_dec_digit cs"
    by (cases ds) auto
  have nd: "\<not> is_dec_digit d" using assms(3) by (auto simp: is_id_char_def)
  have "takeWhile is_dec_digit (cs @ d # r) = cs" "dropWhile is_dec_digit (cs @ d # r) = d # r"
    using ids nd by (induction cs) auto
  with w st assms(3) show ?thesis by (simp del: tokenize.simps add: tokenize_digit_step Let_def)
qed

lemma scan_quoted_plain:
  "q \<notin> set s \<Longrightarrow> d \<noteq> q \<Longrightarrow> scan_quoted q (s @ q # d # r) = Some (s, d # r)"
  by (induction s) auto

lemma tokenize_str:
  assumes "CHR 0x27 \<notin> set s" and "d \<noteq> CHR 0x27"
  shows "tokenize (CHR 0x27 # s @ CHR 0x27 # d # r) = map_option (Cons (TkStr s)) (tokenize (d # r))"
  using assms by (simp del: tokenize.simps add: tokenize_quote_chars scan_quoted_plain)

end
