(* ===== verification/TableDdl.thy ===== *)
theory TableDdl
  imports Table SqlLex
begin

text \<open>
  What SQLite makes of the statement \<open>Table.create_table_stmt\<close> renders
  (\<^verbatim>\<open>src/spods.py\<close> lines 34--67). \<open>field_column\<close> is the column a field
  declares: its title, its SQL type, NOT NULL when \<open>null == False\<close>, the SQL value of
  its default when \<open>default != None\<close>, PRIMARY KEY when \<open>pk == True\<close>.
  \<open>table_ok\<close> is the condition under which the rendered text is the statement the
  program means: the table and field names are identifiers that are not SQL keywords,
  and every default is \<open>None\<close>, a boolean, a 64-bit integer or a string of printable
  characters other than the quote and the backslash (whose Python repr SQLite reads back
  unchanged). The tokens of each part of the text are computed with the lexical facts of
  \<open>SqlLex\<close> (\<open>tok_ok\<close>), and the parser is then run on them.
\<close>

definition default_ok :: "pyval \<Rightarrow> bool" where
  "default_ok v = (case v of PyNone \<Rightarrow> True | PyBool _ \<Rightarrow> True | PyInt n \<Rightarrow> int64_range n
                    | PyStr s \<Rightarrow> list_all plain_char s | PyTuple _ \<Rightarrow> False)"

definition lit_toks :: "pyval \<Rightarrow> token list" where
  "lit_toks v = (case v of
       PyInt n \<Rightarrow> if n < 0 then [TkMinus, TkNum (dec_nat (nat (- n)))] else [TkNum (dec_nat (nat n))]
     | PyStr s \<Rightarrow> [TkStr s]
     | PyBool b \<Rightarrow> [TkId (if b then ''True'' else ''False'')]
     | _ \<Rightarrow> [])"

definition field_ok :: "field \<Rightarrow> bool" where
  "field_ok f \<longleftrightarrow> is_ident (title f) \<and> upper (title f) \<notin> set reserved
     \<and> (sql_type f = None \<or> sql_type f = Some ''TEXT'' \<or> sql_type f = Some ''INTEGER'') \<and> default_ok (default f)"

definition field_toks :: "field \<Rightarrow> token list" where
  "field_toks f =
     TkId (title f) # (case sql_type f of None \<Rightarrow> [] | Some ty \<Rightarrow> [TkId ty])
     @ (if py_eq (null f) (PyBool False) then [TkId ''NOT'', TkId ''NULL''] else [])
     @ (if \<not> py_eq (default f) PyNone then TkId ''DEFAULT'' # lit_toks (default f) else [])
     @ (if py_eq (pk f) (PyBool True) then [TkId ''PRIMARY'', TkId ''KEY''] else [])"

definition default_sql :: "pyval \<Rightarrow> sqlval" where
  "default_sql v = (case v of PyInt n \<Rightarrow> SInt n | PyStr s \<Rightarrow> SText s | PyBool b \<Rightarrow> SInt (of_bool b) | _ \<Rightarrow> SNull)"

definition field_column :: "field \<Rightarrow> column" where
  "field_column f = \<lparr>cname = title f, ctype = sql_type f, cnotnull = py_eq (null f) (PyBool False),
     cdefault = (if py_eq (default f) PyNone then None else Some (default_sql (default f))),
     cpk = py_eq (pk f) (PyBool True)\<rparr>"

definition table_ok :: "table \<Rightarrow> bool" where
  "table_ok t \<longleftrightarrow> is_ident (table_title t) \<and> upper (table_title t) \<notin> set reserved \<and> list_all field_ok (table_fields t)"

definition header_toks :: "bool \<Rightarrow> string \<Rightarrow> token list" where
  "header_toks force n =
     (if force then [TkId ''CREATE'', TkId ''TABLE''] else [TkId ''CREATE'', TkId ''TABLE'', TkId ''IF'', TkId ''NOT'', TkId ''EXISTS''])
     @ [TkId n, TkLParen]"

text \<open>
  An example table exercising every clause: a rowid alias, a NOT NULL text column with
  a string default, an integer column with a negative default, and an untyped column
  with a boolean default.
\<close>

definition ddl_example :: table where
  "ddl_example = \<lparr>table_title = ''stock'', table_fields =
     [projr (Field ''id'' (Some TInt) PyNone PyNone (PyBool True)),
      projr (Field ''name'' (Some TStr) (PyBool False) (PyStr ''none yet'') PyNone),
      projr (Field ''qty'' (Some TInt) PyNone (PyInt (-3)) PyNone),
      \<lparr>title = ''flag'', python_type = None, null = PyNone, default = PyBool True, pk = PyNone,
       sql_type = None, type_converter = None\<rparr>]\<rparr>"

lemma tok_ok_concrete:
  "tok_ok '' '' []" "tok_ok '' ,'' [TkComma]" "tok_ok '' TEXT '' [TkId ''TEXT'']" "tok_ok '' INTEGER '' [TkId ''INTEGER'']"
  "tok_ok '' NOT NULL '' [TkId ''NOT'', TkId ''NULL'']" "tok_ok '' DEFAULT '' [TkId ''DEFAULT'']"
  "tok_ok '' PRIMARY KEY '' [TkId ''PRIMARY'', TkId ''KEY'']" "tok_ok ''True '' [TkId ''True'']" "tok_ok ''False '' [TkId ''False'']"
  "tok_ok ''CREATE TABLE IF NOT EXISTS '' [TkId ''CREATE'', TkId ''TABLE'', TkId ''IF'', TkId ''NOT'', TkId ''EXISTS'']"
  "tok_ok ''CREATE TABLE '' [TkId ''CREATE'', TkId ''TABLE'']" "tok_ok '' )'' [TkRParen]"
  by code_simp+

lemma space_facts: "\<not> is_id_char CHR '' ''" "is_delim CHR '' ''" "is_delim CHR ''(''" "tokenize '' '' = Some []"
    "\<not> is_id_char CHR ''(''" "tokenize '' ('' = Some [TkLParen]" "is_sql_space CHR '' ''"
  by code_simp+

lemma tok_ok_ident: "is_ident w \<Longrightarrow> tok_ok (w @ '' '') [TkId w]"
  using tokenize_ident [of w "CHR '' ''" "[]"] space_facts by (simp del: tokenize.simps add: tok_ok_def)

lemma tok_ok_ident_paren: "is_ident w \<Longrightarrow> tok_ok (w @ '' ('') [TkId w, TkLParen]"
  using tokenize_ident [of w "CHR '' ''" "''(''"] space_facts by (simp del: tokenize.simps add: tok_ok_def)

lemma tok_ok_digits: "tok_ok (dec_nat n @ '' '') [TkNum (dec_nat n)]"
  using tokenize_digits [of "dec_nat n" "CHR '' ''" "[]"] dec_nat_digits [of n] space_facts
  by (simp del: tokenize.simps add: tok_ok_def)

lemma tok_ok_repr:
  assumes "default_ok v" and "v \<noteq> PyNone"
  shows "tok_ok (py_repr v @ '' '') (lit_toks v)"
proof (cases v)
  case (PyInt n)
  with assms have r: "py_repr v = dec_int n" by (simp add: default_ok_def py_int_repr_def int64_range_def)
  show ?thesis
  proof (cases "n < 0")
    case True
    have "tokenize (dec_nat (nat (- n)) @ '' '') = Some [TkNum (dec_nat (nat (- n)))]"
      by (rule tok_ok_tokenize [OF tok_ok_digits])
    then have "tok_ok (CHR ''-'' # dec_nat (nat (- n)) @ '' '') [TkMinus, TkNum (dec_nat (nat (- n)))]"
      using space_facts by (simp del: tokenize.simps add: tok_ok_def tokenize_punct_chars)
    with True r PyInt show ?thesis by (simp add: dec_int_def lit_toks_def)
  next
    case False
    with r PyInt tok_ok_digits [of "nat n"] show ?thesis by (simp add: dec_int_def lit_toks_def)
  qed
next
  case (PyStr s)
  with assms have pl: "list_all plain_char s" by (simp add: default_ok_def)
  then have q: "CHR 0x27 \<notin> set s" by (auto simp: list_all_iff plain_char_def)
  have "tokenize (CHR 0x27 # s @ CHR 0x27 # CHR '' '' # []) = Some [TkStr s]"
    using tokenize_str [OF q, of "CHR '' ''" "[]"] space_facts by (simp del: tokenize.simps)
  with pl PyStr show ?thesis by (simp del: tokenize.simps add: py_str_repr_plain lit_toks_def tok_ok_def space_facts)
next
  case (PyBool b)
  then show ?thesis using tok_ok_concrete(8,9) by (cases b) (simp_all add: lit_toks_def)
qed (use assms in \<open>simp_all add: default_ok_def\<close>)

lemma py_eq_None: "py_eq v PyNone \<longleftrightarrow> v = PyNone"
  by (cases v) auto

lemma tok_ok_Nil: "tok_ok [] []"
  by (simp add: tok_ok_def)

lemma tok_ok_if: "(b \<Longrightarrow> tok_ok a ts) \<Longrightarrow> tok_ok (if b then a else []) (if b then ts else [])"
  by (simp add: tok_ok_Nil)

lemma tok_ok_field_body:
  assumes "field_ok f"
  shows "tok_ok ('' '' @ (title f @ '' '')
            @ (case sql_type f of None \<Rightarrow> [] | Some ty \<Rightarrow> '' '' @ ty @ '' '')
            @ (if py_eq (null f) (PyBool False) then '' NOT NULL '' else [])
            @ (if \<not> py_eq (default f) PyNone then '' DEFAULT '' @ (py_repr (default f) @ '' '') else [])
            @ (if py_eq (pk f) (PyBool True) then '' PRIMARY KEY '' else []))
          (field_toks f)"
proof -
  from assms have id: "is_ident (title f)" and ty: "sql_type f = None \<or> sql_type f = Some ''TEXT'' \<or> sql_type f = Some ''INTEGER''"
    and dok: "default_ok (default f)" by (auto simp: field_ok_def)
  have t: "tok_ok (case sql_type f of None \<Rightarrow> [] | Some ty \<Rightarrow> '' '' @ ty @ '' '') (case sql_type f of None \<Rightarrow> [] | Some ty \<Rightarrow> [TkId ty])"
    using ty tok_ok_concrete(3,4) tok_ok_Nil by auto
  have d: "tok_ok (if \<not> py_eq (default f) PyNone then '' DEFAULT '' @ (py_repr (default f) @ '' '') else [])
                  (if \<not> py_eq (default f) PyNone then [TkId ''DEFAULT''] @ lit_toks (default f) else [])"
    by (rule tok_ok_if, rule tok_ok_append [OF tok_ok_concrete(6) tok_ok_repr [OF dok]]) (simp add: py_eq_None)
  have "tok_ok ('' '' @ (title f @ '' '')
            @ (case sql_type f of None \<Rightarrow> [] | Some ty \<Rightarrow> '' '' @ ty @ '' '')
            @ (if py_eq (null f) (PyBool False) then '' NOT NULL '' else [])
            @ (if \<not> py_eq (default f) PyNone then '' DEFAULT '' @ (py_repr (default f) @ '' '') else [])
            @ (if py_eq (pk f) (PyBool True) then '' PRIMARY KEY '' else []))
         ([] @ [TkId (title f)] @ (case sql_type f of None \<Rightarrow> [] | Some ty \<Rightarrow> [TkId ty])
            @ (if py_eq (null f) (PyBool False) then [TkId ''NOT'', TkId ''NULL''] else [])
            @ (if \<not> py_eq (default f) PyNone then [TkId ''DEFAULT''] @ lit_toks (default f) else [])
            @ (if py_eq (pk f) (PyBool True) then [TkId ''PRIMARY'', TkId ''KEY''] else []))"
    by (intro tok_ok_append tok_ok_concrete(1) tok_ok_ident [OF id] t d tok_ok_if tok_ok_concrete(5,7))
  then show ?thesis by (simp only: field_toks_def append_Nil append_Cons)
qed

lemma kw_facts:
  "upper ''True'' = ''TRUE''" "upper ''False'' = ''FALSE''" "upper ''NOT'' = ''NOT''" "upper ''NULL'' = ''NULL''"
  "upper ''DEFAULT'' = ''DEFAULT''" "upper ''PRIMARY'' = ''PRIMARY''" "upper ''KEY'' = ''KEY''"
  "upper ''TEXT'' = ''TEXT''" "upper ''INTEGER'' = ''INTEGER''"
  "upper ''CREATE'' = ''CREATE''" "upper ''TABLE'' = ''TABLE''" "upper ''IF'' = ''IF''" "upper ''EXISTS'' = ''EXISTS''"
  "''TEXT'' \<notin> set constraint_kws" "''INTEGER'' \<notin> set constraint_kws"
  "''NOT'' \<in> set constraint_kws" "''DEFAULT'' \<in> set constraint_kws" "''PRIMARY'' \<in> set constraint_kws"
  by code_simp+

lemma default_literal_lit:
  assumes "default_ok v" and "v \<noteq> PyNone"
  shows "default_literal (lit_toks v @ r) = Some (default_sql v, r)"
proof (cases v)
  case (PyInt n)
  then show ?thesis by (cases "n < 0") (simp_all add: lit_toks_def default_sql_def)
next
  case (PyBool b)
  then show ?thesis by (cases b) (simp_all add: lit_toks_def default_sql_def kw_facts)
qed (use assms in \<open>simp_all add: lit_toks_def default_sql_def default_ok_def\<close>)

lemma parse_constraints_tail:
  "r = TkComma # r' \<or> r = TkRParen # r' \<Longrightarrow> parse_constraints r c = Some (c, r)"
  by (auto simp: is_kw_def)

lemma parse_coldef_field:
  assumes ok: "field_ok f" and r: "r = TkComma # r' \<or> r = TkRParen # r'"
  shows "parse_coldef (field_toks f @ r) = Some (field_column f, r)"
proof -
  from ok have nm: "upper (title f) \<notin> set reserved"
    and ty: "sql_type f = None \<or> sql_type f = Some ''TEXT'' \<or> sql_type f = Some ''INTEGER''"
    and dok: "default_ok (default f)" by (auto simp: field_ok_def)
  let ?c0 = "\<lparr>cname = title f, ctype = sql_type f, cnotnull = False, cdefault = None, cpk = False\<rparr>"
  let ?P = "(if py_eq (pk f) (PyBool True) then [TkId ''PRIMARY'', TkId ''KEY''] else []) @ r"
  let ?D = "(if \<not> py_eq (default f) PyNone then TkId ''DEFAULT'' # lit_toks (default f) else []) @ ?P"
  let ?N = "(if py_eq (null f) (PyBool False) then [TkId ''NOT'', TkId ''NULL''] else []) @ ?D"
  have pt: "parse_type ?N = ([], ?N)" using r by (auto simp: kw_facts)
  have ptt: "parse_type ((case sql_type f of None \<Rightarrow> [] | Some ty \<Rightarrow> [TkId ty]) @ ?N)
        = ((case sql_type f of None \<Rightarrow> [] | Some ty \<Rightarrow> [ty]), ?N)"
    using ty pt by (auto simp: kw_facts)
  have pP: "parse_constraints ?P c = Some (c\<lparr>cpk := py_eq (pk f) (PyBool True) \<or> cpk c\<rparr>, r)" for c
    using parse_constraints_tail [OF r] by (auto simp: is_kw_def kw_facts)
  have pD: "parse_constraints ?D c = Some (c\<lparr>cdefault := (if py_eq (default f) PyNone then cdefault c else Some (default_sql (default f))),
                                          cpk := py_eq (pk f) (PyBool True) \<or> cpk c\<rparr>, r)" for c
    using pP default_literal_lit [OF dok] by (auto simp: is_kw_def kw_facts py_eq_None)
  have pN: "parse_constraints ?N ?c0 = Some (field_column f, r)"
    using pD by (auto simp: is_kw_def kw_facts field_column_def)
  have e: "field_toks f @ r = TkId (title f) # ((case sql_type f of None \<Rightarrow> [] | Some ty \<Rightarrow> [TkId ty]) @ ?N)"
    by (simp add: field_toks_def)
  have n: "name_tok (TkId (title f)) = Some (title f)" using nm by simp
  have cty: "(if (case sql_type f of None \<Rightarrow> [] | Some ty \<Rightarrow> [ty]) = [] then None
             else Some (concat (map (\<lambda>w. w @ '' '') (butlast (case sql_type f of None \<Rightarrow> [] | Some ty \<Rightarrow> [ty])))
                        @ last (case sql_type f of None \<Rightarrow> [] | Some ty \<Rightarrow> [ty]))) = sql_type f"
    using ty by auto
  show ?thesis
    unfolding parse_coldef_def e list.case n option.case ptt prod.case Let_def cty
    by (rule pN)
qed

lemma field_clause_body:
  "field_clause f =
     ('' '' @ (title f @ '' '')
            @ (case sql_type f of None \<Rightarrow> [] | Some ty \<Rightarrow> '' '' @ ty @ '' '')
            @ (if py_eq (null f) (PyBool False) then '' NOT NULL '' else [])
            @ (if \<not> py_eq (default f) PyNone then '' DEFAULT '' @ (py_repr (default f) @ '' '') else [])
            @ (if py_eq (pk f) (PyBool True) then '' PRIMARY KEY '' else [])) @ '' ,''"
  by (simp add: field_clause_def)

lemma tok_ok_field_clause: "field_ok f \<Longrightarrow> tok_ok (field_clause f) (field_toks f @ [TkComma])"
  unfolding field_clause_body by (rule tok_ok_append [OF tok_ok_field_body tok_ok_concrete(2)])

lemma tok_ok_field_last: "field_ok f \<Longrightarrow> tok_ok (butlast (field_clause f) @ '')'') (field_toks f @ [TkRParen])"
proof -
  assume ok: "field_ok f"
  have "butlast (field_clause f) @ '')'' =
     ('' '' @ (title f @ '' '')
            @ (case sql_type f of None \<Rightarrow> [] | Some ty \<Rightarrow> '' '' @ ty @ '' '')
            @ (if py_eq (null f) (PyBool False) then '' NOT NULL '' else [])
            @ (if \<not> py_eq (default f) PyNone then '' DEFAULT '' @ (py_repr (default f) @ '' '') else [])
            @ (if py_eq (pk f) (PyBool True) then '' PRIMARY KEY '' else [])) @ '' )''"
    unfolding field_clause_body by (simp add: butlast_append)
  then show ?thesis using tok_ok_append [OF tok_ok_field_body [OF ok] tok_ok_concrete(12)] by simp
qed

lemma tok_ok_fields:
  "list_all field_ok gs \<Longrightarrow> tok_ok (concat (map field_clause gs)) (concat (map (\<lambda>f. field_toks f @ [TkComma]) gs))"
proof (induction gs)
  case (Cons g gs)
  then have "tok_ok (field_clause g @ concat (map field_clause gs))
                    ((field_toks g @ [TkComma]) @ concat (map (\<lambda>f. field_toks f @ [TkComma]) gs))"
    by (intro tok_ok_append tok_ok_field_clause) auto
  then show ?case by simp
qed (simp add: tok_ok_Nil)

lemma tok_ok_header:
  "is_ident n \<Longrightarrow>
   tok_ok (if force then ''CREATE TABLE '' @ n @ '' ('' else ''CREATE TABLE IF NOT EXISTS '' @ n @ '' ('') (header_toks force n)"
  using tok_ok_append [OF tok_ok_concrete(11) tok_ok_ident_paren] tok_ok_append [OF tok_ok_concrete(10) tok_ok_ident_paren]
  by (simp add: header_toks_def)

lemma tokenize_create_table_stmt:
  assumes "table_ok t" and "table_fields t = gs @ [g]"
  shows "tokenize (create_table_stmt t force) =
           Some (header_toks force (table_title t) @ concat (map (\<lambda>f. field_toks f @ [TkComma]) gs) @ field_toks g @ [TkRParen])"
proof -
  from assms have n: "is_ident (table_title t)" and gs: "list_all field_ok gs" and g: "field_ok g"
    by (auto simp: table_ok_def)
  have "create_table_stmt t force =
          (if force then ''CREATE TABLE '' @ table_title t @ '' ('' else ''CREATE TABLE IF NOT EXISTS '' @ table_title t @ '' ('')
          @ concat (map field_clause gs) @ (butlast (field_clause g) @ '')'')"
    using assms(2) field_clause_body [of g] by (simp add: create_table_stmt_concat butlast_append)
  then show ?thesis
    using tok_ok_append [OF tok_ok_header [OF n] tok_ok_append [OF tok_ok_fields [OF gs] tok_ok_field_last [OF g]]]
    by (simp add: tok_ok_tokenize)
qed

lemma parse_columns_fields:
  assumes "list_all field_ok gs" and "field_ok g"
  shows "parse_columns (concat (map (\<lambda>f. field_toks f @ [TkComma]) gs) @ field_toks g @ TkRParen # rest)
           = Some (map field_column gs @ [field_column g], rest)"
  using assms(1)
proof (induction gs)
  case Nil
  have "parse_coldef (field_toks g @ TkRParen # rest) = Some (field_column g, TkRParen # rest)"
    using parse_coldef_field [OF assms(2)] by blast
  then show ?case by (subst parse_columns.simps) simp
next
  case (Cons h gs)
  let ?r = "concat (map (\<lambda>f. field_toks f @ [TkComma]) gs) @ field_toks g @ TkRParen # rest"
  have "parse_coldef (field_toks h @ TkComma # ?r) = Some (field_column h, TkComma # ?r)"
    using parse_coldef_field Cons.prems by auto
  with Cons show ?case by (subst parse_columns.simps) simp
qed

lemma is_kw_facts:
  "is_kw ''CREATE'' (TkId ''CREATE'')" "is_kw ''TABLE'' (TkId ''TABLE'')" "is_kw ''IF'' (TkId ''IF'')"
  "is_kw ''NOT'' (TkId ''NOT'')" "is_kw ''EXISTS'' (TkId ''EXISTS'')" "\<not> is_kw k TkLParen"
  by (simp_all add: is_kw_def kw_facts)

lemma parse_create_tokens:
  assumes "tokenize s = Some (header_toks force n @ x # xs)" and "upper n \<notin> set reserved"
    and "parse_columns (x # xs) = Some (cs, [])"
  shows "parse_create s = Some (CreateTable (\<not> force) n cs)"
  using assms is_kw_facts by (cases force) (simp_all add: parse_create_def header_toks_def)

lemma create_table_stmt_no_fields:
  assumes "is_ident (table_title t)" and "table_fields t = []"
  shows "parse_create (create_table_stmt t force) = None"
proof -
  have tr: "tok_ok '')'' [TkRParen]" by code_simp
  have s: "create_table_stmt t force =
      (if force then ''CREATE TABLE '' else ''CREATE TABLE IF NOT EXISTS '') @ (table_title t @ '' '') @ '')''"
    using assms(2) by (simp add: create_table_stmt_concat butlast_append)
  have "tokenize (create_table_stmt t force) =
      Some ((if force then [TkId ''CREATE'', TkId ''TABLE''] else [TkId ''CREATE'', TkId ''TABLE'', TkId ''IF'', TkId ''NOT'', TkId ''EXISTS''])
            @ [TkId (table_title t)] @ [TkRParen])"
  proof (cases force)
    case True
    from tok_ok_tokenize [OF tok_ok_append [OF tok_ok_append [OF tok_ok_concrete(11) tok_ok_ident [OF assms(1)]] tr]]
    show ?thesis unfolding s using True by (simp only: if_True append_assoc)
  next
    case False
    from tok_ok_tokenize [OF tok_ok_append [OF tok_ok_append [OF tok_ok_concrete(10) tok_ok_ident [OF assms(1)]] tr]]
    show ?thesis unfolding s using False by (simp only: if_False append_assoc)
  qed
  then show ?thesis using is_kw_facts by (cases force) (simp_all add: parse_create_def)
qed

lemma parse_create_table_stmt:
  assumes "table_ok t" and "table_fields t \<noteq> []"
  shows "parse_create (create_table_stmt t force)
           = Some (CreateTable (\<not> force) (table_title t) (map field_column (table_fields t)))"
proof -
  obtain gs g where fs: "table_fields t = gs @ [g]" using assms(2) by (metis rev_exhaust)
  from assms(1) fs have nm: "upper (table_title t) \<notin> set reserved" and gs: "list_all field_ok gs" and g: "field_ok g"
    by (auto simp: table_ok_def)
  obtain x xs where xs: "concat (map (\<lambda>f. field_toks f @ [TkComma]) gs) @ field_toks g @ [TkRParen] = x # xs"
    by (cases "concat (map (\<lambda>f. field_toks f @ [TkComma]) gs) @ field_toks g @ [TkRParen]") auto
  have "parse_columns (x # xs) = Some (map field_column (table_fields t), [])"
    using parse_columns_fields [OF gs g, of "[]"] xs fs by simp
  with tokenize_create_table_stmt [OF assms(1) fs, of force] xs nm show ?thesis
    by (intro parse_create_tokens) simp_all
qed

text \<open>
  C12. The DDL round trip: for a table whose names are identifiers that are not SQL
  keywords and whose defaults are integers, booleans or plain strings, SQLite parses
  the text \<open>create_table_stmt\<close> renders as the CREATE TABLE statement whose columns
  are exactly the fields, in order: each with its name and SQL type, NOT NULL when
  \<open>null == False\<close>, the default's SQL value, and PRIMARY KEY when \<open>pk == True\<close>.
\<close>

theorem create_table_stmt_roundtrip:
  assumes "table_ok t" and "table_fields t \<noteq> []"
  shows "parse_create (create_table_stmt t force)
           = Some (CreateTable (\<not> force) (table_title t) (map field_column (table_fields t)))"
  by (rule parse_create_table_stmt [OF assms])

theorem create_table_stmt_roundtrip_witness:
  "table_ok ddl_example \<and> table_fields ddl_example \<noteq> []
   \<and> parse_create (create_table_stmt ddl_example False)
       = Some (CreateTable True ''stock'' (map field_column (table_fields ddl_example)))"
proof -
  have h: "table_ok ddl_example \<and> table_fields ddl_example \<noteq> [] \<and> table_title ddl_example = ''stock''"
    by code_simp
  then show ?thesis using create_table_stmt_roundtrip [of ddl_example False] by simp
qed

end
