(* ===== verification/Linking.thy ===== *)
theory Linking
  imports Binder TableDdl
begin

text \<open>
  \<open>link_table\<close> (\<^verbatim>\<open>src/spods.py\<close> lines 75--87) composed with what SQLite does with
  the statement it sends: with the round trip of \<open>TableDdl\<close>, linking a well-formed
  table is \<open>Store.exec_create\<close> of the fields' columns with \<open>IF NOT EXISTS\<close>
  (\<open>link_table_execute\<close>). A table with no fields fails to link; a new table is
  created with exactly its fields' columns; an existing one is left as it is.
\<close>



lemma link_table_ddl:
  "link_table t c = (case execute_ddl (c\<lparr>row_factory_row := True\<rparr>) (create_table_stmt t False) of
                       Inl e \<Rightarrow> (Inl e, c\<lparr>row_factory_row := True\<rparr>) | Inr (c', _) \<Rightarrow> (Inr (), c'))"
  by (simp add: link_table_def bindE_def)

lemma link_table_execute:
  assumes "table_ok t" and "table_fields t \<noteq> []"
  shows "link_table t c = (case exec_create (c\<lparr>row_factory_row := True\<rparr>) True (table_title t) (map field_column (table_fields t)) of
                             Inl e \<Rightarrow> (Inl e, c\<lparr>row_factory_row := True\<rparr>) | Inr c' \<Rightarrow> (Inr (), c'))"
  using parse_create_table_stmt [OF assms, of False]
  by (simp add: link_table_ddl execute_ddl_def split: sum.splits)



text \<open>
  C15. Linking a table whose name the connection already has changes nothing but the
  row factory: \<open>IF NOT EXISTS\<close> keeps the existing table, whatever its columns are,
  so a changed list of fields is silently ignored.
\<close>

theorem link_table_existing:
  assumes "table_ok t" and "table_fields t \<noteq> []" and "map_of (tables c) (table_title t) = Some tb"
  shows "link_table t c = (Inr (), c\<lparr>row_factory_row := True\<rparr>)"
  using assms(3) by (simp add: link_table_execute [OF assms(1,2)] exec_create_def)


theorem link_table_existing_witness:
  "table_ok items_table \<and> table_fields items_table \<noteq> []
   \<and> map_of (tables (items_conn False)) (table_title items_table) = Some (the (map_of (tables (items_conn False)) ''items''))
   \<and> link_table items_table (items_conn False) = (Inr (), (items_conn False)\<lparr>row_factory_row := True\<rparr>)"
proof -
  have h: "table_ok items_table \<and> table_fields items_table \<noteq> []" by code_simp
  with items_conn_facts(2) [of False] show ?thesis using link_table_existing [of items_table] by blast
qed

end
