(* ===== verification/Records.thy ===== *)
theory Records
  imports Binder
begin

text \<open>
  Creating records: \<open>LinkedClass()\<close>, which inserts a new row and loads it, and
  \<open>LinkedClass(id)\<close>, which loads an existing row or, when there is none, silently
  yields a record with no row behind it (\<^verbatim>\<open>src/spods.py\<close> lines 149--169 with
  \<open>read_sync\<close>, lines 172--182).
\<close>

section \<open>Creating records\<close>

lemma init_new:
  "exec_insert (db s) (table_title t) = Inr (c', r) \<Longrightarrow>
   init t PyNone s = read_sync t (s\<lparr>db := c', data := [''id'' \<mapsto> PyInt r]\<rparr>)"
  by (simp add: init_def bindE_def run_stmt_def)

lemma init_new_Inl:
  "exec_insert (db s) (table_title t) = Inl e \<Longrightarrow> init t PyNone s = (Inl e, s\<lparr>data := Map.empty\<rparr>)"
  by (simp add: init_def bindE_def run_stmt_def)

lemma init_given:
  "\<not> py_eq idv PyNone \<Longrightarrow> init t idv s = read_sync t (s\<lparr>data := [''id'' \<mapsto> idv]\<rparr>)"
  by (simp add: init_def bindE_def)

lemma construct_Inr: "init t idv \<lparr>db = c, data = Map.empty\<rparr> = (Inr u, s) \<Longrightarrow> construct t idv c = (Inr s, db s)"
  unfolding construct_def by (simp add: case_unit_Unity)

lemma construct_Inl: "init t idv \<lparr>db = c, data = Map.empty\<rparr> = (Inl e, s) \<Longrightarrow> construct t idv c = (Inl e, db s)"
  by (simp add: construct_def)

lemma read_sync_overflow:
  assumes "is_field t ''id''" and "data s ''id'' = Some (PyInt n)" and "\<not> int64_range n"
  shows "\<exists>e. read_sync t s = (Inl e, s)"
proof -
  have "self_id t s = (Inr (PyInt n), s)" using assms by (simp add: self_id_Inr)
  moreover obtain e where "exec_select (db s) (table_title t) (PyInt n) = Inl e"
    using exec_select_overflow [OF assms(3)] by blast
  ultimately show ?thesis by (simp add: read_sync_def bindE_def run_stmt_def)
qed

lemma construct_new_run:
  assumes wf: "conn_wf c" and tb: "map_of (tables c) (table_title t) = Some tb"
    and al: "alias_col tb = Some ac" and nm: "cname ac = ''id''" and fid: "is_field t ''id''"
    and cols: "list_all (\<lambda>f. find_col tb (title f) \<noteq> None) (table_fields t)"
    and rf: "row_factory_row c"
    and ins: "exec_insert c (table_title t) = Inr (c', r)" and rng: "int64_range r"
  shows "construct t PyNone c = (Inr \<lparr>db = c', data = load_fields (table_fields t) (new_row tb r) [''id'' \<mapsto> PyInt r]\<rparr>, c')
         \<and> r \<notin> fst ` set (rows tb)"
proof -
  let ?s1 = "\<lparr>db = c', data = [''id'' \<mapsto> PyInt r]\<rparr>"
  from insert_select [OF wf ins tb al nm rng]
  have sel: "exec_select c' (table_title t) (PyInt r) = Inr (Some (new_row tb r))"
    and fresh: "r \<notin> fst ` set (rows tb)" by auto
  from exec_insert_Inr [OF ins] tb have c': "c' = set_table c (table_title t) (tb\<lparr>rows := rows tb @ [(r, new_row tb r)]\<rparr>)"
    by auto
  have sid: "self_id t ?s1 = (Inr (PyInt r), ?s1)" using fid by (simp add: self_id_Inr)
  have "row_complete tb (r, new_row tb r)" using conn_wf_lookup [OF wf tb] by (rule new_row_complete)
  then have allf: "list_all (\<lambda>f. new_row tb r (title f) \<noteq> None) (table_fields t)"
    using fields_in_row [OF _ cols] by fastforce
  have "read_sync t ?s1 = (Inr (), ?s1\<lparr>data := load_fields (table_fields t) (new_row tb r) [''id'' \<mapsto> PyInt r]\<rparr>)"
    using read_sync_found [OF sid _ _ allf] sel rf by (simp add: c')
  then have "init t PyNone \<lparr>db = c, data = Map.empty\<rparr> = (Inr (), \<lparr>db = c', data = load_fields (table_fields t) (new_row tb r) [''id'' \<mapsto> PyInt r]\<rparr>)"
    using init_new [of "\<lparr>db = c, data = Map.empty\<rparr>" t c' r] ins by simp
  with fresh show ?thesis by (simp add: construct_Inr)
qed

lemma construct_new_Inr:
  assumes wf: "conn_wf c" and tb: "map_of (tables c) (table_title t) = Some tb"
    and al: "alias_col tb = Some ac" and nm: "cname ac = ''id''" and fid: "is_field t ''id''"
    and cols: "list_all (\<lambda>f. find_col tb (title f) \<noteq> None) (table_fields t)"
    and rf: "row_factory_row c"
    and con: "construct t PyNone c = (Inr s1, c1)"
  shows "\<exists>r. exec_insert c (table_title t) = Inr (c1, r) \<and> int64_range r
           \<and> s1 = \<lparr>db = c1, data = load_fields (table_fields t) (new_row tb r) [''id'' \<mapsto> PyInt r]\<rparr>"
proof (cases "exec_insert c (table_title t)")
  case (Inl e)
  with con show ?thesis
    using construct_Inl [OF init_new_Inl [of "\<lparr>db = c, data = Map.empty\<rparr>"]] by simp
next
  case (Inr cr)
  then obtain c' r where ins: "exec_insert c (table_title t) = Inr (c', r)" by (cases cr) auto
  show ?thesis
  proof (cases "int64_range r")
    case True
    with construct_new_run [OF wf tb al nm fid cols rf ins] con ins show ?thesis by auto
  next
    case False
    have i: "init t PyNone \<lparr>db = c, data = Map.empty\<rparr> = read_sync t \<lparr>db = c', data = [''id'' \<mapsto> PyInt r]\<rparr>"
      using init_new [of "\<lparr>db = c, data = Map.empty\<rparr>" t c' r] ins by simp
    obtain e where "read_sync t \<lparr>db = c', data = [''id'' \<mapsto> PyInt r]\<rparr> = (Inl e, \<lparr>db = c', data = [''id'' \<mapsto> PyInt r]\<rparr>)"
      using read_sync_overflow [OF fid _ False] by fastforce
    with i con show ?thesis using construct_Inl by fastforce
  qed
qed

lemma load_new_id:
  assumes "is_field t ''id''" and "tbl_wf tb" and "alias_col tb = Some ac" and "cname ac = ''id''"
  shows "load_fields (table_fields t) (new_row tb r) d ''id'' = Some (PyInt r)"
  using load_fields_at [of "''id''" "table_fields t" "new_row tb r" "SInt r" d] new_row_alias_id [OF assms(2-4)] assms(1)
  by (simp add: is_field_iff)

text \<open>
  C7. \<open>construct()\<close> with no id, on a table whose \<open>id\<close> column is the rowid
  alias (\<open>Field('id', int, pk=True)\<close>): when it succeeds, the new record's id is a
  rowid no row of the table had before, the table gained exactly that row, and every
  declared field holds the row's value, that is the column's default (or NULL).
\<close>

theorem construct_new:
  assumes wf: "conn_wf c" and tb: "map_of (tables c) (table_title t) = Some tb"
    and al: "alias_col tb = Some ac" and nm: "cname ac = ''id''" and fid: "is_field t ''id''"
    and cols: "list_all (\<lambda>f. find_col tb (title f) \<noteq> None) (table_fields t)"
    and rf: "row_factory_row c"
    and con: "construct t PyNone c = (Inr s1, c1)"
  shows "\<exists>r. data s1 ''id'' = Some (PyInt r) \<and> r \<notin> fst ` set (rows tb) \<and> db s1 = c1
           \<and> map_of (tables c1) (table_title t) = Some (tb\<lparr>rows := rows tb @ [(r, new_row tb r)]\<rparr>)
           \<and> data s1 = load_fields (table_fields t) (new_row tb r) [''id'' \<mapsto> PyInt r]"
proof -
  from construct_new_Inr [OF assms] obtain r where ins: "exec_insert c (table_title t) = Inr (c1, r)"
    and rng: "int64_range r" and s1: "s1 = \<lparr>db = c1, data = load_fields (table_fields t) (new_row tb r) [''id'' \<mapsto> PyInt r]\<rparr>"
    by blast
  from insert_select [OF wf ins tb al nm rng] have fresh: "r \<notin> fst ` set (rows tb)" by simp
  from exec_insert_Inr [OF ins] tb have "c1 = set_table c (table_title t) (tb\<lparr>rows := rows tb @ [(r, new_row tb r)]\<rparr>)"
    by auto
  with s1 fresh load_new_id [OF fid conn_wf_lookup [OF wf tb] al nm] show ?thesis by auto
qed

theorem construct_new_witness:
  "construct items_table PyNone (items_conn False) = (Inr (items_rec False), snd (construct items_table PyNone (items_conn False)))
   \<and> data (items_rec False) ''id'' = Some (PyInt 1)"
proof -
  note h = items_conn_facts [where lim = False]
  from construct_new [OF h(1-4) items_id_field h(5,6) items_rec_construct] obtain r where
    "data (items_rec False) ''id'' = Some (PyInt r)" and "r \<notin> fst ` set (rows (the (map_of (tables (items_conn False)) ''items'')))"
    by blast
  moreover have "data (items_rec False) ''id'' = Some (PyInt 1)" by code_simp
  ultimately show ?thesis using items_rec_construct by blast
qed

lemma construct_new_next:
  assumes wf: "conn_wf c" and tb: "map_of (tables c) (table_title t) = Some tb"
    and al: "alias_col tb = Some ac" and nm: "cname ac = ''id''" and fid: "is_field t ''id''"
    and cols: "list_all (\<lambda>f. find_col tb (title f) \<noteq> None) (table_fields t)"
    and rf: "row_factory_row c"
    and con: "construct t PyNone c = (Inr s1, c1)"
  shows "\<exists>r tb1. data s1 ''id'' = Some (PyInt r) \<and> conn_wf c1 \<and> map_of (tables c1) (table_title t) = Some tb1
           \<and> r \<in> fst ` set (rows tb1) \<and> alias_col tb1 = Some ac
           \<and> list_all (\<lambda>f. find_col tb1 (title f) \<noteq> None) (table_fields t) \<and> row_factory_row c1"
proof -
  from construct_new_Inr [OF assms] obtain r where ins: "exec_insert c (table_title t) = Inr (c1, r)"
    and s1: "s1 = \<lparr>db = c1, data = load_fields (table_fields t) (new_row tb r) [''id'' \<mapsto> PyInt r]\<rparr>"
    by blast
  from exec_insert_Inr [OF ins] tb have c1: "c1 = set_table c (table_title t) (tb\<lparr>rows := rows tb @ [(r, new_row tb r)]\<rparr>)"
    by auto
  have "conn_wf c1" by (rule exec_insert_wf [OF wf ins])
  with s1 c1 al cols rf load_new_id [OF fid conn_wf_lookup [OF wf tb] al nm] show ?thesis
    by (intro exI [of _ r] exI [of _ "tb\<lparr>rows := rows tb @ [(r, new_row tb r)]\<rparr>"]) simp
qed

text \<open>
  C8. Two records created one after the other with \<open>construct()\<close> get different ids.
\<close>

theorem construct_twice_distinct:
  assumes wf: "conn_wf c" and tb: "map_of (tables c) (table_title t) = Some tb"
    and al: "alias_col tb = Some ac" and nm: "cname ac = ''id''" and fid: "is_field t ''id''"
    and cols: "list_all (\<lambda>f. find_col tb (title f) \<noteq> None) (table_fields t)"
    and rf: "row_factory_row c"
    and con1: "construct t PyNone c = (Inr s1, c1)" and con2: "construct t PyNone c1 = (Inr s2, c2)"
  shows "data s1 ''id'' \<noteq> data s2 ''id''"
proof -
  from construct_new_next [OF assms(1-8)] obtain r1 tb1 where d1: "data s1 ''id'' = Some (PyInt r1)"
    and wf1: "conn_wf c1" and tb1: "map_of (tables c1) (table_title t) = Some tb1"
    and r1: "r1 \<in> fst ` set (rows tb1)" and al1: "alias_col tb1 = Some ac"
    and cols1: "list_all (\<lambda>f. find_col tb1 (title f) \<noteq> None) (table_fields t)" and rf1: "row_factory_row c1"
    by blast
  from construct_new_Inr [OF wf1 tb1 al1 nm fid cols1 rf1 con2] obtain r2 c2' where
    ins2: "exec_insert c1 (table_title t) = Inr (c2, r2)" and rng2: "int64_range r2"
    and s2: "s2 = \<lparr>db = c2, data = load_fields (table_fields t) (new_row tb1 r2) [''id'' \<mapsto> PyInt r2]\<rparr>"
    by blast
  from insert_select [OF wf1 ins2 tb1 al1 nm rng2] r1 have "r1 \<noteq> r2" by auto
  with d1 s2 load_new_id [OF fid conn_wf_lookup [OF wf1 tb1] al1 nm] show ?thesis by simp
qed

theorem construct_twice_distinct_witness:
  "construct items_table PyNone (snd (construct items_table PyNone (items_conn False)))
     = (Inr (projr (fst (construct items_table PyNone (snd (construct items_table PyNone (items_conn False)))))),
        snd (construct items_table PyNone (snd (construct items_table PyNone (items_conn False)))))
   \<and> data (items_rec False) ''id''
       \<noteq> data (projr (fst (construct items_table PyNone (snd (construct items_table PyNone (items_conn False)))))) ''id''"
proof -
  note h = items_conn_facts [where lim = False]
  have "\<not> isl (fst (construct items_table PyNone (snd (construct items_table PyNone (items_conn False)))))" by code_simp
  then have h9: "construct items_table PyNone (snd (construct items_table PyNone (items_conn False)))
     = (Inr (projr (fst (construct items_table PyNone (snd (construct items_table PyNone (items_conn False)))))),
        snd (construct items_table PyNone (snd (construct items_table PyNone (items_conn False)))))"
    by (metis prod.collapse sum.collapse(2))
  from construct_twice_distinct [OF h(1-4) items_id_field h(5,6) items_rec_construct h9] h9 show ?thesis by blast
qed

section \<open>Records for a given id\<close>

lemma construct_given:
  "\<not> py_eq idv PyNone \<Longrightarrow> read_sync t \<lparr>db = c, data = [''id'' \<mapsto> idv]\<rparr> = (Inr (), s) \<Longrightarrow>
   construct t idv c = (Inr s, db s)"
  using construct_Inr [of t idv c "()" s] init_given [of idv t "\<lparr>db = c, data = Map.empty\<rparr>"] by simp

text \<open>
  C9. \<open>construct(id)\<close> with an id that no row has does not fail: it returns a
  "ghost" record that holds only its id and leaves the database as it was.
\<close>

theorem construct_missing_ghost:
  assumes "is_field t ''id''" and "\<not> py_eq idv PyNone" and "exec_select c (table_title t) idv = Inr None"
  shows "construct t idv c = (Inr \<lparr>db = c, data = [''id'' \<mapsto> idv]\<rparr>, c)"
proof -
  have "self_id t \<lparr>db = c, data = [''id'' \<mapsto> idv]\<rparr> = (Inr idv, \<lparr>db = c, data = [''id'' \<mapsto> idv]\<rparr>)"
    using assms(1) by (simp add: self_id_Inr)
  from read_sync_missing [OF this] assms(3) construct_given [OF assms(2)] show ?thesis by simp
qed

theorem construct_missing_ghost_witness:
  "construct items_table (PyInt 7) (items_conn False)
     = (Inr \<lparr>db = items_conn False, data = [''id'' \<mapsto> PyInt 7]\<rparr>, items_conn False)"
proof -
  have "case exec_select (items_conn False) (table_title items_table) (PyInt 7) of Inr None \<Rightarrow> True | _ \<Rightarrow> False"
    by code_simp
  then have sel: "exec_select (items_conn False) (table_title items_table) (PyInt 7) = Inr None"
    by (auto split: sum.splits option.splits)
  show ?thesis using construct_missing_ghost [OF items_id_field _ sel] by simp
qed

text \<open>
  C10. On a record whose row does not exist (a ghost), \<open>self[k] = v\<close> succeeds and
  updates the in-memory value, but the database is left exactly as it was: the write is
  lost without an error.
\<close>

theorem ghost_write_lost:
  assumes sid: "self_id t s = (Inr i, s)" and sel: "exec_select (db s) (table_title t) i = Inr None"
    and set: "setitem t k v s = (Inr (), s1)"
  shows "db s1 = db s \<and> data s1 = (data s)(k \<mapsto> v)"
proof -
  from setitem_Inr [OF set] sid obtain c' where
    up: "exec_update (db s) (table_title t) [(k, Param v)] i False = Inr c'"
    and s1: "s1 = s\<lparr>db := c', data := (data s)(k \<mapsto> v)\<rparr>"
    by auto
  from exec_update_Inr [OF up] obtain tb vs wv rs' where tb: "map_of (tables (db s)) (table_title t) = Some tb"
    and bw: "bind_param i = Inr wv"
    and ur: "update_rows (table_title t) tb (zip [k] vs) wv False (rows tb) = Inr rs'"
    and c': "c' = set_table (db s) (table_title t) (tb\<lparr>rows := rs'\<rparr>)"
    by auto
  from exec_select_None [OF sel] tb bw have "find (row_matches tb wv) (rows tb) = None" by auto
  with ur have "rs' = rows tb" by (simp add: update_rows_nomatch)
  with c' tb have "c' = db s" by (simp add: set_table_triv)
  with s1 show ?thesis by simp
qed

theorem ghost_write_lost_witness:
  "self_id items_table \<lparr>db = items_conn False, data = [''id'' \<mapsto> PyInt 7]\<rparr>
     = (Inr (PyInt 7), \<lparr>db = items_conn False, data = [''id'' \<mapsto> PyInt 7]\<rparr>)
   \<and> fst (setitem items_table ''name'' (PyStr ''widget'') \<lparr>db = items_conn False, data = [''id'' \<mapsto> PyInt 7]\<rparr>) = Inr ()
   \<and> db (snd (setitem items_table ''name'' (PyStr ''widget'') \<lparr>db = items_conn False, data = [''id'' \<mapsto> PyInt 7]\<rparr>))
       = items_conn False"
proof -
  have sid: "self_id items_table \<lparr>db = items_conn False, data = [''id'' \<mapsto> PyInt 7]\<rparr>
     = (Inr (PyInt 7), \<lparr>db = items_conn False, data = [''id'' \<mapsto> PyInt 7]\<rparr>)"
    using items_id_field by (simp add: self_id_Inr)
  have "case exec_select (items_conn False) (table_title items_table) (PyInt 7) of Inr None \<Rightarrow> True | _ \<Rightarrow> False"
    by code_simp
  then have sel: "exec_select (items_conn False) (table_title items_table) (PyInt 7) = Inr None"
    by (auto split: sum.splits option.splits)
  have f: "fst (setitem items_table ''name'' (PyStr ''widget'') \<lparr>db = items_conn False, data = [''id'' \<mapsto> PyInt 7]\<rparr>) = Inr ()"
    by code_simp
  then have "setitem items_table ''name'' (PyStr ''widget'') \<lparr>db = items_conn False, data = [''id'' \<mapsto> PyInt 7]\<rparr>
     = (Inr (), snd (setitem items_table ''name'' (PyStr ''widget'') \<lparr>db = items_conn False, data = [''id'' \<mapsto> PyInt 7]\<rparr>))"
    by (metis prod.collapse)
  from ghost_write_lost [OF sid _ this] sel sid f show ?thesis by simp
qed

text \<open>
  C11. \<open>construct(id)\<close> with the id of an existing row loads that row: the database is
  unchanged and every declared field holds the row's value.
\<close>

theorem construct_existing:
  assumes wf: "conn_wf c" and tb: "map_of (tables c) (table_title t) = Some tb"
    and cols: "list_all (\<lambda>f. find_col tb (title f) \<noteq> None) (table_fields t)"
    and rf: "row_factory_row c" and fid: "is_field t ''id''" and ne: "\<not> py_eq idv PyNone"
    and sel: "exec_select c (table_title t) idv = Inr (Some row)"
  shows "\<exists>s. construct t idv c = (Inr s, c) \<and> (\<forall>f\<in>set (table_fields t). data s (title f) = map_option py_of_sql (row (title f)))"
proof -
  let ?s0 = "\<lparr>db = c, data = [''id'' \<mapsto> idv]\<rparr>"
  from exec_select_Some_row [OF wf sel] tb obtain ir where "row = snd ir" and "row_complete tb ir"
    by auto
  with fields_in_row [OF _ cols] have allf: "list_all (\<lambda>f. row (title f) \<noteq> None) (table_fields t)" by simp
  have sid: "self_id t ?s0 = (Inr idv, ?s0)" using fid by (simp add: self_id_Inr)
  have "read_sync t ?s0 = (Inr (), ?s0\<lparr>data := load_fields (table_fields t) row [''id'' \<mapsto> idv]\<rparr>)"
    using read_sync_found [OF sid _ _ allf] sel rf by simp
  then have con: "construct t idv c = (Inr (?s0\<lparr>data := load_fields (table_fields t) row [''id'' \<mapsto> idv]\<rparr>), c)"
    using construct_given [OF ne] by simp
  have "\<forall>f\<in>set (table_fields t). load_fields (table_fields t) row [''id'' \<mapsto> idv] (title f) = map_option py_of_sql (row (title f))"
    using allf by (auto simp: list_all_iff load_fields_at)
  with con show ?thesis by auto
qed

theorem construct_existing_witness:
  "\<exists>s. construct items_table (PyInt 1) (db (items_rec False)) = (Inr s, db (items_rec False))
     \<and> data s ''name'' = Some PyNone"
proof -
  have tt: "table_title items_table = ''items''" by (simp add: items_table_def)
  have wf: "conn_wf (db (items_rec False))" by code_simp
  have "map_of (tables (db (items_rec False))) ''items'' \<noteq> None" by code_simp
  then have tb: "map_of (tables (db (items_rec False))) (table_title items_table)
      = Some (the (map_of (tables (db (items_rec False))) ''items''))" using tt by auto
  have cols: "list_all (\<lambda>f. find_col (the (map_of (tables (db (items_rec False))) ''items'')) (title f) \<noteq> None)
      (table_fields items_table)" by code_simp
  have rf: "row_factory_row (db (items_rec False))" by code_simp
  have "case exec_select (db (items_rec False)) (table_title items_table) (PyInt 1) of
          Inr (Some r) \<Rightarrow> r ''name'' = Some SNull | _ \<Rightarrow> False"
    by code_simp
  then obtain row where sel: "exec_select (db (items_rec False)) (table_title items_table) (PyInt 1) = Inr (Some row)"
    and nm: "row ''name'' = Some SNull"
    by (auto split: sum.splits option.splits)
  have "''name'' \<in> title ` set (table_fields items_table)" by code_simp
  with construct_existing [OF wf tb cols rf items_id_field _ sel] nm show ?thesis by fastforce
qed

end
