(* ===== verification/Values.thy ===== *)
theory Values
  imports Binder
begin

text \<open>
  How the values a record holds cross into SQLite and back (\<^verbatim>\<open>src/spods.py\<close>
  lines 124--135 and 172--182). \<open>__setitem__\<close> passes the Python value itself as the
  statement's parameter: the field's \<open>type_converter\<close> (lines 24--27) is never
  applied, so a tuple cannot be bound, an integer must fit SQLite's 64 bits, and what
  \<open>read_sync\<close> reads back is the value after the column's type affinity.
\<close>

lemma exec_update_bind_fail:
  assumes "map_of (tables c) name = Some tb" and "find_col tb k \<noteq> None" and "find_col tb ''id'' \<noteq> None"
    and "bind_param v = Inl e"
  shows "exec_update c name [(k, Param v)] w False = Inl e"
proof -
  from assms(2,3) obtain ck ci where "find_col tb k = Some ck" and "find_col tb ''id'' = Some ci" by auto
  with assms(1,4) show ?thesis by (simp add: exec_update_def get_table_def bind_expr_def)
qed

lemma setitem_bind_fail:
  assumes "is_field t k" and "self_id t s = (Inr i, s)"
    and "map_of (tables (db s)) (table_title t) = Some tb" and "find_col tb k \<noteq> None" and "find_col tb ''id'' \<noteq> None"
    and "bind_param v = Inl e"
  shows "setitem t k v s = (Inl e, s)"
  using assms exec_update_bind_fail [OF assms(3-6)]
  by (simp add: setitem_def bindE_def run_stmt_def)

text \<open>
  C17. A tuple cannot be stored: \<open>Field(name, tuple)\<close> declares a TEXT column with
  \<open>json.dumps\<close> as its converter, but \<open>__setitem__\<close> never applies the converter and
  passes the tuple itself as the parameter, which \<open>sqlite3\<close> refuses with
  \<open>InterfaceError\<close>; nothing changes.
\<close>

theorem setitem_tuple_rejected:
  assumes "is_field t k" and "self_id t s = (Inr i, s)"
    and "map_of (tables (db s)) (table_title t) = Some tb" and "find_col tb k \<noteq> None" and "find_col tb ''id'' \<noteq> None"
  shows "setitem t k (PyTuple xs) s = (Inl (InterfaceError ''Error binding parameter - probably unsupported type.''), s)"
  using setitem_bind_fail [OF assms] by simp

text \<open>
  C18. Integers are bounded by SQLite's 64-bit INTEGER: \<open>self[k] = n\<close> with \<open>n\<close>
  outside \<open>[-2^63, 2^63)\<close> raises \<open>OverflowError\<close> and changes nothing.
\<close>

theorem setitem_int_overflow:
  assumes "is_field t k" and "self_id t s = (Inr i, s)"
    and "map_of (tables (db s)) (table_title t) = Some tb" and "find_col tb k \<noteq> None" and "find_col tb ''id'' \<noteq> None"
    and "\<not> int64_range n"
  shows "setitem t k (PyInt n) s = (Inl (OverflowError ''Python int too large to convert to SQLite INTEGER''), s)"
  using setitem_bind_fail [OF assms(1-5)] assms(6) by simp



theorem setitem_tuple_rejected_witness:
  "setitem items_table ''name'' (PyTuple [PyInt 1, PyInt 2]) (items_rec False)
     = (Inl (InterfaceError ''Error binding parameter - probably unsupported type.''), items_rec False)"
proof -
  note h = items_rec_facts [where lim = False]
  have f: "is_field items_table ''name'' \<and> find_col (the (map_of (tables (db (items_rec False))) ''items'')) ''name'' \<noteq> None
     \<and> find_col (the (map_of (tables (db (items_rec False))) ''items'')) ''id'' \<noteq> None" by code_simp
  then show ?thesis using setitem_tuple_rejected [OF _ h(5) h(2)] by blast
qed

theorem setitem_int_overflow_witness:
  "\<not> int64_range (2 ^ 63) \<and> setitem items_table ''name'' (PyInt (2 ^ 63)) (items_rec False)
     = (Inl (OverflowError ''Python int too large to convert to SQLite INTEGER''), items_rec False)"
proof -
  note h = items_rec_facts [where lim = False]
  have f: "is_field items_table ''name'' \<and> find_col (the (map_of (tables (db (items_rec False))) ''items'')) ''name'' \<noteq> None
     \<and> find_col (the (map_of (tables (db (items_rec False))) ''items'')) ''id'' \<noteq> None \<and> \<not> int64_range (2 ^ 63)"
    by code_simp
  then show ?thesis using setitem_int_overflow [OF _ h(5) h(2)] by blast
qed

end
