(* ===== verification/WriteSync.thy ===== *)
theory WriteSync
  imports Binder
begin

text \<open>
  \<open>write_sync\<close> (\<^verbatim>\<open>src/spods.py\<close> lines 184--200): it reads every declared field
  through \<open>self[f.title]\<close>, then \<open>self['id']\<close>, and sends one UPDATE assigning all
  fields. The reads happen before any statement, so a missing field raises with nothing
  sent; a successful flush is read back field by field.
\<close>

lemma mapE_getitem_present:
  assumes "list_all (\<lambda>f. is_field t (title f) \<and> data s (title f) \<noteq> None) fs"
  shows "mapE (\<lambda>f. getitem t (title f)) fs s = (Inr (map (\<lambda>f. the (data s (title f))) fs), s)"
  using assms by (induction fs) (auto simp: getitem_def bindE_def)

lemma mapE_getitem_missing:
  assumes "list_all (\<lambda>f. is_field t (title f)) fs" and "find (\<lambda>f. data s (title f) = None) fs = Some f"
  shows "mapE (\<lambda>f. getitem t (title f)) fs s = (Inl (KeyError (title f)), s)"
  using assms by (induction fs) (auto simp: getitem_def bindE_def split: if_splits)

lemma fields_are_fields: "list_all (\<lambda>f. is_field t (title f)) (table_fields t)"
  by (auto simp: list_all_iff is_field_iff)

text \<open>
  C20. \<open>write_sync()\<close> needs every declared field in the in-memory mapping: when one
  is missing (a ghost record, which holds only its id, or a record whose row lacks the
  column), it raises \<open>KeyError\<close> for the first missing field, before any statement is
  sent, and nothing changes.
\<close>

theorem write_sync_missing:
  assumes "find (\<lambda>f. data s (title f) = None) (table_fields t) = Some f"
  shows "write_sync t s = (Inl (KeyError (title f)), s)"
  using mapE_getitem_missing [OF fields_are_fields assms] by (simp add: write_sync_def bindE_def)

lemma write_sync_Inr:
  assumes "write_sync t s = (Inr u, s1)"
  shows "\<exists>i c'. list_all (\<lambda>f. data s (title f) \<noteq> None) (table_fields t) \<and> getitem t ''id'' s = (Inr i, s)
     \<and> exec_update (db s) (table_title t)
          (zip (map title (table_fields t)) (map Param (map (\<lambda>f. the (data s (title f))) (table_fields t)))) i False = Inr c'
     \<and> s1 = s\<lparr>db := c'\<rparr>"
proof (cases "find (\<lambda>f. data s (title f) = None) (table_fields t)")
  case (Some f)
  with assms show ?thesis using write_sync_missing [OF Some] by simp
next
  case None
  then have pres: "list_all (\<lambda>f. data s (title f) \<noteq> None) (table_fields t)"
    by (auto simp: find_None_iff list_all_iff)
  with fields_are_fields [of t] have "list_all (\<lambda>f. is_field t (title f) \<and> data s (title f) \<noteq> None) (table_fields t)"
    by (auto simp: list_all_iff)
  note m = mapE_getitem_present [OF this]
  obtain r s0 where g: "getitem t ''id'' s = (r, s0)" by fastforce
  then have s0: "s0 = s" by (auto simp: getitem_def split: if_splits option.splits)
  show ?thesis
  proof (cases r)
    case (Inl e)
    with assms m g s0 show ?thesis by (simp add: write_sync_def bindE_def)
  next
    case (Inr i)
    with assms m g s0 pres show ?thesis
      by (auto simp: write_sync_def bindE_def run_stmt_def bindR_eq_Inr split: sum.splits prod.splits)
  qed
qed

lemma bind_all_Param: "bind_all (map Param xs) = Inr vs \<Longrightarrow> list_all2 (\<lambda>x v. bind_param x = Inr v) xs vs"
  by (induction xs arbitrary: vs) (auto simp: bind_expr_def split: sum.splits)

lemma zip_bound_mem:
  assumes "list_all2 (\<lambda>x v. bind_param x = Inr v) (map g fs) vs" and "f \<in> set fs"
  shows "\<exists>v. bind_param (g f) = Inr v \<and> (title f, v) \<in> set (zip (map title fs) vs)"
  using assms
proof (induction fs arbitrary: vs)
  case (Cons a fs)
  from Cons.prems(1) obtain z zs where vs: "vs = z # zs" and b: "bind_param (g a) = Inr z"
    and r: "list_all2 (\<lambda>x v. bind_param x = Inr v) (map g fs) zs"
    by (auto simp: list_all2_Cons1)
  show ?case
  proof (cases "f = a")
    case True
    with vs b show ?thesis by auto
  next
    case False
    with Cons.prems(2) have "f \<in> set fs" by simp
    from Cons.IH [OF r this] vs show ?thesis by auto
  qed
qed simp

text \<open>
  C21. \<open>write_sync()\<close> flushes the whole record: on a record whose row exists and whose
  fields have distinct names, when the UPDATE succeeds, a following \<open>read_sync()\<close>
  succeeds and leaves in every field the value the record held, bound as a parameter and
  stored under the column's type affinity.
\<close>

theorem write_sync_durable:
  assumes wf: "conn_wf (db s)" and tb: "map_of (tables (db s)) (table_title t) = Some tb"
    and cols: "list_all (\<lambda>f. find_col tb (title f) \<noteq> None) (table_fields t)"
    and rf: "row_factory_row (db s)"
    and sid: "self_id t s = (Inr i, s)" and found: "exec_select (db s) (table_title t) i = Inr (Some r0)"
    and dist: "distinct (map title (table_fields t))"
    and ws: "write_sync t s = (Inr (), s1)"
  shows "\<exists>s2. read_sync t s1 = (Inr (), s2) \<and>
           (\<forall>f\<in>set (table_fields t). \<exists>sv. bind_param (the (data s (title f))) = Inr sv
              \<and> data s2 (title f) = Some (py_of_sql (apply_affinity (aff_of tb (title f)) sv)))"
proof -
  let ?fs = "table_fields t"
  let ?args = "map (\<lambda>f. the (data s (title f))) ?fs"
  from sid have fid: "is_field t ''id''" and di: "data s ''id'' = Some i" by (auto simp: self_id_Inr)
  from write_sync_Inr [OF ws] obtain i' c' where pres: "list_all (\<lambda>f. data s (title f) \<noteq> None) ?fs"
    and gi: "getitem t ''id'' s = (Inr i', s)"
    and up: "exec_update (db s) (table_title t) (zip (map title ?fs) (map Param ?args)) i' False = Inr c'"
    and s1: "s1 = s\<lparr>db := c'\<rparr>"
    by blast
  from gi di fid have ii: "i' = i" by (simp add: getitem_def)
  have len: "length (map title ?fs) = length (map Param ?args)" by simp
  from exec_update_Inr [OF up] tb ii obtain vs wv rs' where
    ba: "bind_all (map Param ?args) = Inr vs" and bw: "bind_param i = Inr wv"
    and ur: "update_rows (table_title t) tb (zip (map title ?fs) vs) wv False (rows tb) = Inr rs'"
    and c': "c' = set_table (db s) (table_title t) (tb\<lparr>rows := rs'\<rparr>)"
    and idc: "find_col tb ''id'' \<noteq> None"
    using len by auto
  have la: "list_all2 (\<lambda>x v. bind_param x = Inr v) ?args vs" using bind_all_Param [OF ba] .
  then have lenv: "length vs = length ?fs" using list_all2_lengthD [OF la] by simp
  have dz: "distinct (map fst (zip (map title ?fs) vs))" using dist lenv by simp
  have mem: "\<And>f. f \<in> set ?fs \<Longrightarrow> \<exists>v. bind_param (the (data s (title f))) = Inr v \<and> (title f, v) \<in> set (zip (map title ?fs) vs)"
    by (rule zip_bound_mem [of "\<lambda>f. the (data s (title f))", OF la])
  have "''id'' \<in> title ` set ?fs" using fid by (simp add: is_field_iff)
  then obtain fi where fi: "fi \<in> set ?fs" "title fi = ''id''" by auto
  from mem [OF fi(1)] fi(2) di bw have idz: "(''id'', wv) \<in> set (zip (map title ?fs) vs)" by auto
  have keep: "\<And>ir ir'. row_matches tb wv ir \<Longrightarrow>
      update_one (table_title t) tb (zip (map title ?fs) vs) ir = Inr ir' \<Longrightarrow> row_matches tb wv ir'"
  proof -
    fix ir ir'
    assume m: "row_matches tb wv ir" and u: "update_one (table_title t) tb (zip (map title ?fs) vs) ir = Inr ir'"
    from u have "snd ir' = assign_row tb (zip (map title ?fs) vs) (snd ir)" by (simp add: update_one_Inr)
    with assign_row_at [OF dz idz] have "snd ir' ''id'' = Some (apply_affinity (aff_of tb ''id'') wv)" by simp
    with m show "row_matches tb wv ir'" by (auto simp: row_matches_def split: option.splits)
  qed
  have "find (row_matches tb wv) (rows tb) \<noteq> None" using found tb bw
    by (cases "find (row_matches tb wv) (rows tb)") (auto simp: exec_select_Inr)
  then obtain ir0 where f0: "find (row_matches tb wv) (rows tb) = Some ir0" by auto
  have keep': "\<forall>ir ir'. row_matches tb wv ir \<longrightarrow>
      update_one (table_title t) tb (zip (map title ?fs) vs) ir = Inr ir' \<longrightarrow> row_matches tb wv ir'"
    using keep by blast
  from update_rows_first [OF ur keep' f0] obtain ir' where f1: "find (row_matches tb wv) rs' = Some ir'"
    and u1: "update_one (table_title t) tb (zip (map title ?fs) vs) ir0 = Inr ir'"
    by blast
  have wf': "tbl_wf (tb\<lparr>rows := rs'\<rparr>)"
    using conn_wf_lookup [OF exec_update_wf [OF wf up], of "table_title t"] c' by simp
  from f1 have "ir' \<in> set rs'" by (auto dest: find_Some_mem)
  with wf' have "row_complete tb ir'" by (auto simp: tbl_wf_def list_all_iff)
  then have allf: "list_all (\<lambda>f. snd ir' (title f) \<noteq> None) ?fs" using cols by (rule fields_in_row)
  have sid1: "self_id t s1 = (Inr i, s1)" using sid by (auto simp: self_id_Inr s1)
  have sel: "exec_select (db s1) (table_title t) i = Inr (Some (snd ir'))"
    using bw idc f1 by (simp add: exec_select_Inr s1 c')
  have rs: "read_sync t s1 = (Inr (), s1\<lparr>data := load_fields ?fs (snd ir') (data s1)\<rparr>)"
    using read_sync_found [OF sid1 sel _ allf] rf by (simp add: s1 c')
  have "\<forall>f\<in>set ?fs. \<exists>sv. bind_param (the (data s (title f))) = Inr sv
          \<and> load_fields ?fs (snd ir') (data s1) (title f) = Some (py_of_sql (apply_affinity (aff_of tb (title f)) sv))"
  proof
    fix f assume f: "f \<in> set ?fs"
    from mem [OF f] obtain v where bv: "bind_param (the (data s (title f))) = Inr v"
      and z: "(title f, v) \<in> set (zip (map title ?fs) vs)" by blast
    from u1 have "snd ir' = assign_row tb (zip (map title ?fs) vs) (snd ir0)" by (simp add: update_one_Inr)
    with assign_row_at [OF dz z] have "snd ir' (title f) = Some (apply_affinity (aff_of tb (title f)) v)" by simp
    with f bv show "\<exists>sv. bind_param (the (data s (title f))) = Inr sv
          \<and> load_fields ?fs (snd ir') (data s1) (title f) = Some (py_of_sql (apply_affinity (aff_of tb (title f)) sv))"
      by (auto simp: load_fields_at)
  qed
  with rs show ?thesis by auto
qed

theorem write_sync_missing_witness:
  "write_sync items_table \<lparr>db = items_conn False, data = [''id'' \<mapsto> PyInt 7]\<rparr>
     = (Inl (KeyError ''name''), \<lparr>db = items_conn False, data = [''id'' \<mapsto> PyInt 7]\<rparr>)"
proof -
  have "case find (\<lambda>f. [''id'' \<mapsto> PyInt 7] (title f) = None) (table_fields items_table) of
          Some f \<Rightarrow> title f = ''name'' | None \<Rightarrow> False" by code_simp
  then obtain f where f: "find (\<lambda>f. [''id'' \<mapsto> PyInt 7] (title f) = None) (table_fields items_table) = Some f"
    and nm: "title f = ''name''" by (auto split: option.splits)
  from write_sync_missing [of "\<lparr>db = items_conn False, data = [''id'' \<mapsto> PyInt 7]\<rparr>"] f nm show ?thesis by simp
qed

theorem write_sync_durable_witness:
  "\<exists>s2. read_sync items_table (snd (write_sync items_table ((items_rec False)\<lparr>data := (data (items_rec False))(''name'' \<mapsto> PyStr ''bolt'')\<rparr>))) = (Inr (), s2)
     \<and> data s2 ''name'' = Some (PyStr ''bolt'')"
proof -
  let ?s = "(items_rec False)\<lparr>data := (data (items_rec False))(''name'' \<mapsto> PyStr ''bolt'')\<rparr>"
  note h = items_rec_facts [where lim = False]
  obtain r0 where r0: "exec_select (db ?s) (table_title items_table) (PyInt 1) = Inr (Some r0)"
    using h(6) by auto
  have sid: "self_id items_table ?s = (Inr (PyInt 1), ?s)" using h(5) by (simp add: self_id_Inr)
  have g: "distinct (map title (table_fields items_table)) \<and> ''name'' \<in> set (map title (table_fields items_table))
     \<and> aff_of (the (map_of (tables (db (items_rec False))) ''items'')) ''name'' = AffText" by code_simp
  have "fst (write_sync items_table ?s) = Inr ()" by code_simp
  then have ws: "write_sync items_table ?s = (Inr (), snd (write_sync items_table ?s))" by (metis prod.collapse)
  have h1: "conn_wf (db ?s)" and h2: "map_of (tables (db ?s)) (table_title items_table) = Some (the (map_of (tables (db (items_rec False))) ''items''))"
    and h4: "row_factory_row (db ?s)" using h(1,2,4) by simp_all
  from write_sync_durable [OF h1 h2 h(3) h4 sid r0 _ ws] g
  obtain s2 where rs: "read_sync items_table (snd (write_sync items_table ?s)) = (Inr (), s2)"
    and all: "\<forall>f\<in>set (table_fields items_table). \<exists>sv. bind_param (the (data ?s (title f))) = Inr sv
        \<and> data s2 (title f) = Some (py_of_sql (apply_affinity (aff_of (the (map_of (tables (db (items_rec False))) ''items'')) (title f)) sv))"
    by auto
  from g obtain f where f: "f \<in> set (table_fields items_table)" and tf: "title f = ''name''" by auto
  from all f obtain sv where "bind_param (the (data ?s (title f))) = Inr sv"
    and "data s2 (title f) = Some (py_of_sql (apply_affinity (aff_of (the (map_of (tables (db (items_rec False))) ''items'')) (title f)) sv))"
    by blast
  with tf g have "data s2 ''name'' = Some (PyStr ''bolt'')" by auto
  with rs show ?thesis by blast
qed

end
