(* ===== verification/Harness.thy ===== *)
theory Harness
  imports Binder
begin

text \<open>
  The smoke test at the end of \<^verbatim>\<open>src/spods.py\<close> (lines 208--232): a table
  \<open>exercises\<close> of six fields, one record created, its id and description set, and
  the table printed.
\<close>





end
