(* ===== verification/Spec2Isabelle.thy ===== *)
theory Spec2Isabelle
  imports Session Values WriteSync Harness
begin

text \<open>
  \<^bold>\<open>SPODS: a verification development of \<^verbatim>\<open>src/spods.py\<close>.\<close>

  \<^verbatim>\<open>src/spods.py\<close> is a small object mapper over \<open>sqlite3\<close> (Python 2). It has three
  parts. \<open>Field\<close> (lines 9--27) describes a column and picks its SQL type from
  \<open>type_map\<close>. \<open>Table\<close> (lines 29--73) holds a title and fields; it renders the
  \<open>CREATE TABLE\<close> statement and tests field names. \<open>link_table\<close> (lines 75--202)
  creates the table on a connection and returns \<open>LinkedClass\<close>, whose instances are
  records bound to one row: the dictionary interface (\<open>__getitem__\<close>,
  \<open>__setitem__\<close>, \<open>__delitem__\<close>), one property per field routed to it, the
  constructor, and \<open>read_sync\<close> / \<open>write_sync\<close>. Every operation on a record issues
  SQL on the connection that all instances of the class share.

  \<^bold>\<open>Theories.\<close>
  \<^item> \<open>Prelude\<close>: Python values (\<open>pyval\<close>), Python \<open>==\<close> (\<open>py_eq\<close>), the
    exceptions the program raises or propagates (\<open>pyexc\<close>), an exception-state monad
    \<open>('s, 'a) exc = 's \<Rightarrow> (pyexc + 'a) \<times> 's\<close> (\<open>returnE\<close>, \<open>throwE\<close>, \<open>bindE\<close>,
    \<open>modifyE\<close>, \<open>forE\<close>, \<open>mapE\<close>) in which a raise is an \<open>Inl\<close> result with the
    state at the raise, \<open>exc_keeps\<close> with its rules \<open>keeps_intros\<close> (a computation
    keeps a predicate of the state), and decimal rendering and parsing of integers.
  \<^item> \<open>PyRepr\<close>: Python 2 \<open>repr\<close>, used by the \<open>%r\<close> of a DEFAULT clause.
  \<^item> \<open>Field\<close>: the record \<open>field\<close> with the attributes \<open>Field.__init__\<close> sets, and
    \<open>Field\<close>, which raises \<open>KeyError\<close> for a type outside \<open>type_map\<close>.
  \<^item> \<open>Table\<close>: the record \<open>table\<close>, \<open>create_table_stmt\<close> as the string the loop of
    lines 40--65 builds (including \<open>query[:-1]\<close>), and \<open>is_field\<close>.
  \<^item> \<open>SqlBase\<close>, \<open>SqlDdl\<close>, \<open>SqlLex\<close>, \<open>Store\<close>: the environment, SQLite as the
    program sees it. Values and type affinity, parameter binding (a tuple cannot be bound,
    an integer outside 64 bits overflows), a tokenizer and parser for the DDL the program
    emits with the lexical facts needed to run them on it, and \<open>execute\<close>, which runs
    one statement of the \<open>stmt\<close> interface (CREATE TABLE, \<open>INSERT INTO t (id) VALUES
    (NULL)\<close>, \<open>UPDATE ... WHERE id = ? [LIMIT 1]\<close>, \<open>SELECT * ... WHERE id = ? LIMIT
    1\<close>) atomically: it raises, with the database unchanged, or it returns the new
    database. The connection also records whether the SQLite build accepts \<open>UPDATE ...
    LIMIT\<close> (off by default) and whether \<open>row_factory\<close> is \<open>sqlite3.Row\<close>.
    \<open>conn_wf\<close> is the database invariant (distinct columns, at most one primary key,
    unique rowids and keys, complete rows, rowid alias holding the rowid);
    \<open>execute_preserves_wf\<close> shows that every statement keeps it.
  \<^item> \<open>TableDdl\<close>: what SQLite parses from \<open>create_table_stmt\<close>; \<open>field_column\<close>
    is the column a field declares and \<open>table_ok\<close> the condition (identifiers that are
    not keywords, defaults whose repr SQLite reads back) under which the text means it.
  \<^item> \<open>Binder\<close>: an instance is the record \<open>inst\<close> (the shared connection \<open>db\<close>
    and the instance's own \<open>data\<close> dictionary); \<open>link_table\<close>, \<open>getitem\<close>,
    \<open>setitem\<close>, \<open>delitem\<close>, \<open>self_id\<close> (the \<open>id\<close> property), \<open>read_sync\<close>,
    \<open>write_sync\<close>, \<open>init\<close> and \<open>construct\<close> (\<open>LinkedClass(id)\<close>) are the methods
    of the same names, each an \<open>exc\<close> computation, each \<open>cursor.execute\<close> a
    \<open>run_stmt\<close>; \<open>get_item_inner\<close> and its siblings are the per-field properties.
  \<^item> \<open>Records\<close> (construction), \<open>Values\<close> (values crossing into SQLite),
    \<open>WriteSync\<close> (the full flush), \<open>Linking\<close> (\<open>link_table\<close> with the DDL round
    trip), \<open>Session\<close> (all methods on a shared connection: the step relation
    \<open>conn_step\<close>), \<open>Harness\<close> (the \<open>__main__\<close> script as the definition
    \<open>harness\<close>).

  \<^bold>\<open>What is proved.\<close> Accessors (\<open>Binder\<close>): undeclared names are refused with no
  effect (C1); a failed \<open>self[k] = v\<close> changes nothing (C2); \<open>del self[k]\<close> never
  returns normally (C3), raises a syntax error in the default SQLite build (C5), and
  elsewhere nulls the column before raising \<open>RuntimeError\<close> (C6); a successful
  \<open>self[k] = v\<close> is durable up to type affinity (C4). Construction (\<open>Records\<close>):
  \<open>construct()\<close> gives a fresh id and loads the new row (C7), two calls give different
  ids (C8), \<open>construct(id)\<close> on a missing row gives a ghost without error (C9) whose
  writes are lost (C10), and on an existing row loads it (C11). Schema: the DDL round
  trip (C12, \<open>TableDdl\<close>); a table without fields cannot be linked (C13); linking
  creates exactly the declared columns (C14) and leaves an existing table untouched
  (C15). The database invariant holds in every reachable state, whatever the order and
  the instances of the calls (C16, \<open>Session\<close>). Values: tuples cannot be stored
  (C17), integers are bounded to 64 bits (C18), an integer set on a TEXT field is read
  back as a string (C19). \<open>write_sync\<close> raises \<open>KeyError\<close> for a missing field with
  no effect (C20) and is read back field by field (C21). \<open>Field\<close> objects are well
  typed (C22) and fail exactly for unknown types (C23). The spec's scenario (C24) and the
  \<open>__main__\<close> script (C25) run as stated.

  \<^bold>\<open>Bounds.\<close> \<open>__delitem__\<close> calls itself with no base case; \<open>delitem n\<close>
  takes the number of nested calls the interpreter's stack still allows, and raises
  \<open>RuntimeError\<close> at 0, as Python does. No value of \<open>n\<close> changes the outcome (C3),
  so no particular bound is assumed; the witnesses use small depths (3 in C24),
  which suffice because the outcome is fixed by the first nested call.
  Rowids are taken as \<open>max + 1\<close>; a rowid beyond 64 bits makes the following
  \<open>SELECT\<close> overflow, which \<open>construct\<close> propagates.

  \<^bold>\<open>Not modelled.\<close> The text \<open>print\<close> writes (the repr of a Python 2 dict depends
  on hash order; the harness's printed values are modelled). SQLite beyond
  what the program sends: REAL and BLOB values, other statements, transactions and
  commits (the program never commits; all effects are on the connection), and the
  random rowid choice after the largest 64-bit rowid. \<open>sqlite3.Row\<close> lookup is
  taken as exact, where SQLite matches column names without regard to case. Attribute
  names of \<open>LinkedClass\<close> that a field's property would shadow (a field named
  \<open>data\<close> or \<open>keys\<close>) are not modelled: the attribute interface is the dictionary
  interface for declared fields.
\<close>



end
